(* ===== verification/OAuth_Prelude.thy ===== *)
theory OAuth_Prelude
  imports Main
begin

text \<open>
  Shared vocabulary of the toroauth2 development.
  \<^item> \<open>json\<close>: the Python values the provider passes around and stores
    (\<open>None\<close>, booleans, ints, strings, dicts), with \<open>py_get\<close> for \<open>dict.get\<close>
    and \<open>py_str\<close> for \<open>'%s' % v\<close>;
  \<^item> \<open>exc\<close>: the Python exceptions that abort a flow of the provider;
  \<^item> \<open>('a, 's) pyflow\<close>: a computation over a state that either returns a
    value or raises, and keeps the writes done before the raise
    (\<open>ret\<close>, \<open>raise\<close>, \<open>fbind\<close>);
  \<^item> Python string helpers: \<open>str.split()\<close> (\<open>py_split\<close>) and
    \<open>s.split(c)[0]\<close> (\<open>split_first\<close>), and the injectivity of strings
    joined by a separator that one side does not contain.
\<close>

named_theorems flow_simps "evaluation rules of the pyflow combinators"
named_theorems store_simps "read-after-write laws of the key-value store"
named_theorems key_simps "facts on the store keys the provider builds"

section \<open>Python values\<close>

datatype json =
    JNull
  | JBool bool
  | JInt int
  | JStr string
  | JObj "(string \<times> json) list"

text \<open>\<open>d.get(k)\<close> on a dict: the value of the first binding, \<open>None\<close> when absent.
  On a value that is not a dict Python raises \<open>AttributeError\<close>; the callers
  below check the constructor first.\<close>

fun py_get :: "json \<Rightarrow> string \<Rightarrow> json option" where
  "py_get (JObj kvs) k = map_of kvs k"
| "py_get _ k = None"

fun is_dict :: "json \<Rightarrow> bool" where
  "is_dict (JObj _) = True"
| "is_dict _ = False"

fun digit_char :: "nat \<Rightarrow> char" where
  "digit_char d = char_of (48 + d)"

fun nat_digits :: "nat \<Rightarrow> string" where
  "nat_digits n = (if n < 10 then [digit_char n] else nat_digits (n div 10) @ [digit_char (n mod 10)])"

definition int_str :: "int \<Rightarrow> string" where
  "int_str i = (if i < 0 then CHR ''-'' # nat_digits (nat (- i)) else nat_digits (nat i))"

text \<open>\<open>'%s' % v\<close>: \<open>str(v)\<close>. A string is itself, \<open>None\<close> is \<open>None\<close>.
  A dict is printed by its \<open>repr\<close>, which the provider never formats; it is
  written here with the keys in list order.\<close>

fun py_repr :: "json \<Rightarrow> string" where
  "py_repr JNull = ''None''"
| "py_repr (JBool b) = (if b then ''True'' else ''False'')"
| "py_repr (JInt i) = int_str i"
| "py_repr (JStr s) = CHR 0x27 # s @ [CHR 0x27]"
| "py_repr (JObj kvs) = CHR ''{'' # concat (map (\<lambda>(k, v). CHR 0x27 # k @ CHR 0x27 # '': '' @ py_repr v @ '', '') kvs) @ ''}''"

fun py_str :: "json option \<Rightarrow> string" where
  "py_str None = ''None''"
| "py_str (Some (JStr s)) = s"
| "py_str (Some v) = py_repr v"

section \<open>Exceptions and flows\<close>

datatype oauth_error =
    Unsupported_response_type
  | Unsupported_grant_type
  | Unauthorized_client
  | Invalid_scope
  | Invalid_request
  | Invalid_client
  | Invalid_grant
  | Access_denied
  | Server_error

text \<open>The exceptions that end a flow without a callback: \<open>gen.Return(err)\<close>
  raised inside a \<open>gen.engine\<close> function (the engine does not hand the value to
  the caller), \<open>TypeError\<close> for a missing parameter or \<open>json.loads(None)\<close>,
  \<open>AttributeError\<close> for \<open>None.get\<close>, the plain \<open>Exception\<close> of an unknown
  client, the registry's \<open>DoesNotExist\<close>, and Tornado's
  \<open>ReturnValueIgnoredError\<close>, which \<open>gen.engine\<close> raises when the function
  it wraps returns a value other than \<open>None\<close>.\<close>

datatype exc =
    GenReturn oauth_error
  | TypeError
  | AttributeError
  | ClientNotFound
  | DoesNotExist
  | ReturnValueIgnored

type_synonym ('a, 's) pyflow = "'s \<Rightarrow> (exc + 'a) \<times> 's"

definition ret :: "'a \<Rightarrow> ('a, 's) pyflow" where
  "ret x s = (Inr x, s)"

definition raise :: "exc \<Rightarrow> ('a, 's) pyflow" where
  "raise e s = (Inl e, s)"

definition fbind :: "('a, 's) pyflow \<Rightarrow> ('a \<Rightarrow> ('b, 's) pyflow) \<Rightarrow> ('b, 's) pyflow" where
  "fbind m f s = (case m s of (Inl e, s') \<Rightarrow> (Inl e, s') | (Inr x, s') \<Rightarrow> f x s')"

definition modify :: "('s \<Rightarrow> 's) \<Rightarrow> (unit, 's) pyflow" where
  "modify g s = (Inr (), g s)"

definition gets :: "('s \<Rightarrow> 'a) \<Rightarrow> ('a, 's) pyflow" where
  "gets g s = (Inr (g s), s)"

text \<open>\<open>try: m except e: h(e)\<close>: the handler runs on the state the raise left.\<close>

definition fcatch :: "('a, 's) pyflow \<Rightarrow> (exc \<Rightarrow> ('a, 's) pyflow) \<Rightarrow> ('a, 's) pyflow" where
  "fcatch m h s = (case m s of (Inl e, s') \<Rightarrow> h e s' | (Inr x, s') \<Rightarrow> (Inr x, s'))"

section \<open>Python dicts\<close>

text \<open>A dict is an association list with distinct keys. Assignment \<open>d[k] = v\<close>
  replaces the binding in place or appends a new one; \<open>d.update(u)\<close> assigns each
  binding of \<open>u\<close> in turn; \<open>d.pop(k)\<close> removes the binding. Python 2 leaves the
  iteration order of a dict unspecified; insertion order is one of its choices.\<close>

fun dict_set :: "'k \<Rightarrow> 'v \<Rightarrow> ('k \<times> 'v) list \<Rightarrow> ('k \<times> 'v) list" where
  "dict_set k v [] = [(k, v)]"
| "dict_set k v ((k', v') # d) = (if k = k' then (k, v) # d else (k', v') # dict_set k v d)"

definition dict_update :: "('k \<times> 'v) list \<Rightarrow> ('k \<times> 'v) list \<Rightarrow> ('k \<times> 'v) list" where
  "dict_update d u = foldl (\<lambda>acc (k, v). dict_set k v acc) d u"

definition dict_pop :: "'k \<Rightarrow> ('k \<times> 'v) list \<Rightarrow> ('k \<times> 'v) list" where
  "dict_pop k d = filter (\<lambda>(k', _). k' \<noteq> k) d"

text \<open>\<open>dict(pairs)\<close>: later pairs win.\<close>

definition dict_of :: "('k \<times> 'v) list \<Rightarrow> ('k \<times> 'v) list" where
  "dict_of ps = dict_update [] ps"

section \<open>Python strings\<close>

text \<open>The whitespace of Python 2's \<open>str.split()\<close>: space, tab, newline, vertical
  tab, form feed, carriage return.\<close>

definition is_ws :: "char \<Rightarrow> bool" where
  "is_ws c \<longleftrightarrow> c \<in> set [CHR '' '', CHR 0x09, CHR 0x0A, CHR 0x0B, CHR 0x0C, CHR 0x0D]"

fun split_ws :: "string \<Rightarrow> string \<Rightarrow> string list" where
  "split_ws cur [] = (if cur = [] then [] else [rev cur])"
| "split_ws cur (c # cs) =
     (if is_ws c then (if cur = [] then split_ws [] cs else rev cur # split_ws [] cs)
      else split_ws (c # cur) cs)"

text \<open>\<open>s.split()\<close>: the maximal runs of non-whitespace, in order.\<close>

definition py_split :: "string \<Rightarrow> string list" where
  "py_split s = split_ws [] s"

text \<open>\<open>s.split(c)[0]\<close>: the part before the first \<open>c\<close>, all of \<open>s\<close> when there is none.\<close>

definition split_first :: "'a \<Rightarrow> 'a list \<Rightarrow> 'a list" where
  "split_first c s = takeWhile (\<lambda>x. x \<noteq> c) s"

section \<open>Laws of the prelude\<close>

declare nat_digits.simps [simp del]

lemma ret_apply [simp, flow_simps]: "ret x s = (Inr x, s)"
  by (simp add: ret_def)

lemma raise_apply [simp, flow_simps]: "raise e s = (Inl e, s)"
  by (simp add: raise_def)

lemma modify_apply [simp, flow_simps]: "modify g s = (Inr (), g s)"
  by (simp add: modify_def)

lemma gets_apply [simp, flow_simps]: "gets g s = (Inr (g s), s)"
  by (simp add: gets_def)

lemma fbind_Inr [simp, flow_simps]: "m s = (Inr x, s') \<Longrightarrow> fbind m f s = f x s'"
  by (simp add: fbind_def)

lemma fbind_Inl [simp, flow_simps]: "m s = (Inl e, s') \<Longrightarrow> fbind m f s = (Inl e, s')"
  by (simp add: fbind_def)

lemma fbind_ret [simp, flow_simps]: "fbind (ret x) f = f x"
  by (simp add: fbind_def fun_eq_iff)

lemma fbind_raise [simp, flow_simps]: "fbind (raise e) f = raise e"
  by (simp add: fbind_def fun_eq_iff)

lemma fbind_modify [simp, flow_simps]: "fbind (modify g) f s = f () (g s)"
  by (simp add: fbind_def)

lemma fbind_gets [simp, flow_simps]: "fbind (gets g) f s = f (g s) s"
  by (simp add: fbind_def)

lemma fcatch_Inr [simp, flow_simps]: "m s = (Inr x, s') \<Longrightarrow> fcatch m h s = (Inr x, s')"
  by (simp add: fcatch_def)

lemma fcatch_Inl [simp, flow_simps]: "m s = (Inl e, s') \<Longrightarrow> fcatch m h s = h e s'"
  by (simp add: fcatch_def)

lemma fbind_assoc [flow_simps]: "fbind (fbind m f) g = fbind m (\<lambda>x. fbind (f x) g)"
  by (simp add: fbind_def fun_eq_iff split: prod.splits sum.splits)

lemma fbind_split:
  "P (fbind m f s) \<longleftrightarrow>
     (\<forall>e s'. m s = (Inl e, s') \<longrightarrow> P (Inl e, s')) \<and> (\<forall>x s'. m s = (Inr x, s') \<longrightarrow> P (f x s'))"
  by (simp add: fbind_def split: prod.splits sum.splits)

lemma map_of_dict_set [simp]: "map_of (dict_set k v d) = (map_of d)(k \<mapsto> v)"
  by (induction d) (auto simp: fun_eq_iff)

lemma map_of_dict_update: "map_of (dict_update d u) = map_of d ++ map_of (rev u)"
proof (induction u arbitrary: d rule: rev_induct)
  case Nil
  then show ?case by (simp add: dict_update_def)
next
  case (snoc x u)
  then show ?case
    by (cases x) (simp add: dict_update_def fun_eq_iff map_add_def split: option.splits)
qed

lemma map_of_dict_pop [simp]: "map_of (dict_pop k d) = (map_of d)(k := None)"
  by (induction d) (auto simp: dict_pop_def fun_eq_iff)

lemma keys_dict_set [simp]: "set (map fst (dict_set k v d)) = insert k (set (map fst d))"
  by (induction d) force+

lemma distinct_dict_set: "distinct (map fst d) \<Longrightarrow> distinct (map fst (dict_set k v d))"
proof (induction d)
  case Nil
  then show ?case by simp
next
  case (Cons p d)
  then show ?case by (cases p) (simp, metis keys_dict_set insertE list.set_map)
qed

lemma distinct_dict_update: "distinct (map fst d) \<Longrightarrow> distinct (map fst (dict_update d u))"
  unfolding dict_update_def
  by (induction u arbitrary: d) (auto intro: distinct_dict_set)

lemma distinct_dict_pop: "distinct (map fst d) \<Longrightarrow> distinct (map fst (dict_pop k d))"
  by (induction d) (auto simp: dict_pop_def)

lemma map_of_rev_distinct: "distinct (map fst d) \<Longrightarrow> map_of (rev d) = map_of d"
  using map_of_inject_set [of "rev d" d] by (simp add: rev_map [symmetric])

lemma map_of_dict_update_distinct:
  "distinct (map fst d) \<Longrightarrow> map_of (rev (dict_update d u)) = map_of d ++ map_of (rev u)"
  by (simp add: map_of_rev_distinct distinct_dict_update map_of_dict_update)

lemma split_ws_words:
  "list_all (\<lambda>c. \<not> is_ws c) cur \<Longrightarrow>
   list_all (\<lambda>w. w \<noteq> [] \<and> list_all (\<lambda>c. \<not> is_ws c) w) (split_ws cur s)"
proof (induction cur s rule: split_ws.induct)
  case (1 cur)
  then show ?case by simp
next
  case (2 cur c cs)
  then show ?case by simp
qed

lemma split_ws_concat:
  "concat (split_ws cur s) = rev cur @ filter (\<lambda>c. \<not> is_ws c) s"
  by (induction cur s rule: split_ws.induct) simp_all

lemma split_first_no_sep: "c \<notin> set s \<Longrightarrow> split_first c s = s"
  by (induction s) (auto simp: split_first_def)

lemma split_first_append: "c \<notin> set s \<Longrightarrow> split_first c (s @ c # t) = s"
  by (induction s) (auto simp: split_first_def)

text \<open>Two strings built as \<open>p @ x @ sep # y\<close> are equal only when their parts are,
  provided \<open>sep\<close> occurs in neither \<open>y\<close>: the last separator splits them.\<close>

lemma append_sep_inject:
  assumes "xs @ c # ys = xs' @ c # ys'" and "c \<notin> set ys" and "c \<notin> set ys'"
  shows "xs = xs' \<and> ys = ys'"
proof -
  from assms(1) have "rev (xs @ c # ys) = rev (xs' @ c # ys')" by simp
  then have r: "rev ys @ c # rev xs = rev ys' @ c # rev xs'" by simp
  then have "split_first c (rev ys @ c # rev xs) = split_first c (rev ys' @ c # rev xs')"
    by simp
  with assms(2,3) have "rev ys = rev ys'" by (simp add: split_first_append)
  with r show ?thesis by simp
qed

lemma split_ws_word:
  "list_all (\<lambda>c. \<not> is_ws c) s \<Longrightarrow> split_ws cur s = (if cur = [] \<and> s = [] then [] else [rev cur @ s])"
  by (induction s arbitrary: cur) auto

end
