(* ===== verification/Utils.thy ===== *)
theory Utils
  imports OAuth_Prelude
begin

text \<open>
  The module \<open>toroauth2.utils\<close> that \<open>src/toroauth2/provider.py\<close> imports is not
  part of the sources; its three functions are modelled from the spec
  (sections 4.1, 4.4 and 6) over Python 2's \<open>urlparse\<close> and \<open>urllib\<close>:
  \<^item> \<open>build_url(base, params)\<close>: the query of \<open>base\<close> as a dict, updated with
    \<open>params\<close>, the keys whose new value is \<open>None\<close> removed, re-encoded with
    \<open>urlencode\<close>, scheme, authority, path and fragment kept;
  \<^item> \<open>url_query_params(uri)\<close>: \<open>dict(parse_qsl(urlparse(uri).query, True))\<close>;
  \<^item> \<open>random_ascii_string(n)\<close>: \<open>n\<close> characters drawn from letters and digits,
    over an explicit stream of random draws (\<open>entropy\<close>); the flows take
    the generated strings as inputs, and \<open>ascii_token n t\<close> states what the
    generator guarantees of them.
  Dicts are ordered association lists in insertion order. Python 2 dicts
  iterate in hash order, so \<open>urlencode\<close> of a real dict may list the pairs
  in another order; the claims about \<open>build_url\<close> are stated over the
  parsed dict, which does not depend on that order.
\<close>

section \<open>Characters\<close>

definition is_alnum :: "char \<Rightarrow> bool" where
  "is_alnum c \<longleftrightarrow>
     (let n = (of_char c :: nat) in (48 \<le> n \<and> n \<le> 57) \<or> (65 \<le> n \<and> n \<le> 90) \<or> (97 \<le> n \<and> n \<le> 122))"

text \<open>\<open>urllib.always_safe\<close> of Python 2: letters, digits and \<open>_.-\<close>.\<close>

definition always_safe :: "char \<Rightarrow> bool" where
  "always_safe c \<longleftrightarrow> is_alnum c \<or> c \<in> set ''_.-''"

definition hex_digit :: "nat \<Rightarrow> char" where
  "hex_digit n = (if n < 10 then char_of (48 + n) else char_of (55 + n))"

definition hex_val :: "char \<Rightarrow> nat option" where
  "hex_val c =
     (let n = (of_char c :: nat) in
      if 48 \<le> n \<and> n \<le> 57 then Some (n - 48)
      else if 65 \<le> n \<and> n \<le> 70 then Some (n - 55)
      else if 97 \<le> n \<and> n \<le> 102 then Some (n - 87) else None)"

section \<open>Quoting\<close>

text \<open>\<open>quote_plus\<close>: safe characters stay, a space becomes \<open>+\<close>, every other byte
  becomes \<open>%XY\<close> in upper-case hex.\<close>

definition quote_plus_char :: "char \<Rightarrow> string" where
  "quote_plus_char c =
     (if always_safe c then [c]
      else if c = CHR '' '' then ''+''
      else [CHR ''%'', hex_digit (of_char c div 16), hex_digit (of_char c mod 16)])"

definition quote_plus :: "string \<Rightarrow> string" where
  "quote_plus s = concat (map quote_plus_char s)"

text \<open>\<open>unquote\<close>: \<open>%XY\<close> with two hex digits (either case) is the byte \<open>XY\<close>; a
  \<open>%\<close> not followed by two hex digits stays.\<close>

fun unquote :: "string \<Rightarrow> string" where
  "unquote [] = []"
| "unquote (c # rest) =
     (if c = CHR ''%'' then
        (case rest of
           a # b # rest' \<Rightarrow>
             (case (hex_val a, hex_val b) of
                (Some x, Some y) \<Rightarrow> char_of (16 * x + y) # unquote rest'
              | _ \<Rightarrow> c # unquote rest)
         | _ \<Rightarrow> c # unquote rest)
      else c # unquote rest)"

definition plus_to_space :: "string \<Rightarrow> string" where
  "plus_to_space s = map (\<lambda>c. if c = CHR ''+'' then CHR '' '' else c) s"

definition unquote_plus :: "string \<Rightarrow> string" where
  "unquote_plus s = unquote (plus_to_space s)"

section \<open>Splitting\<close>

text \<open>\<open>s.split(c)\<close>: the pieces between the occurrences of \<open>c\<close>, empty ones
  included; \<open>s.split(c, 1)\<close> as an option, \<open>None\<close> when \<open>c\<close> does not occur.\<close>

fun split_on :: "'a \<Rightarrow> 'a list \<Rightarrow> 'a list list" where
  "split_on c [] = [[]]"
| "split_on c (x # xs) =
     (if x = c then [] # split_on c xs
      else (case split_on c xs of w # ws \<Rightarrow> (x # w) # ws | [] \<Rightarrow> [[x]]))"

definition split_once :: "'a \<Rightarrow> 'a list \<Rightarrow> ('a list \<times> 'a list) option" where
  "split_once c s = (if c \<in> set s then Some (takeWhile (\<lambda>x. x \<noteq> c) s, tl (dropWhile (\<lambda>x. x \<noteq> c) s)) else None)"

section \<open>URLs\<close>

text \<open>\<open>urlsplit\<close>: the fragment is split off at the first \<open>#\<close>, then the query
  at the first \<open>?\<close>; what precedes it (scheme, authority, path) is kept as one
  string, which \<open>urlunparse\<close> puts back unchanged.\<close>

definition url_parts :: "string \<Rightarrow> string \<times> string \<times> string" where
  "url_parts u =
     (let (u1, frag) = (case split_once CHR ''#'' u of Some p \<Rightarrow> p | None \<Rightarrow> (u, []));
          (pre, q) = (case split_once CHR ''?'' u1 of Some p \<Rightarrow> p | None \<Rightarrow> (u1, []))
      in (pre, q, frag))"

definition url_unparse :: "string \<Rightarrow> string \<Rightarrow> string \<Rightarrow> string" where
  "url_unparse pre q frag =
     pre @ (if q = [] then [] else CHR ''?'' # q) @ (if frag = [] then [] else CHR ''#'' # frag)"

text \<open>\<open>parse_qsl(qs, keep_blank_values=True)\<close>: pairs are separated by \<open>&\<close> or
  \<open>;\<close>; empty pieces are skipped; a piece without \<open>=\<close> has the empty value.\<close>

definition parse_pair :: "string \<Rightarrow> (string \<times> string) list" where
  "parse_pair nv =
     (if nv = [] then []
      else case split_once CHR ''='' nv of
             Some (n, v) \<Rightarrow> [(unquote_plus n, unquote_plus v)]
           | None \<Rightarrow> [(unquote_plus nv, [])])"

definition parse_qsl :: "string \<Rightarrow> (string \<times> string) list" where
  "parse_qsl qs = concat (map parse_pair (concat (map (split_on CHR '';'') (split_on CHR ''&'' qs))))"

text \<open>\<open>urlencode(d)\<close>: \<open>quote_plus(str(k)) + '=' + quote_plus(str(v))\<close>, joined by
  \<open>&\<close>; a value \<open>None\<close> prints as \<open>None\<close>.\<close>

definition opt_str :: "string option \<Rightarrow> string" where
  "opt_str v = (case v of None \<Rightarrow> ''None'' | Some s \<Rightarrow> s)"

text \<open>\<open>sep.join(xs)\<close>.\<close>

fun py_join :: "string \<Rightarrow> string list \<Rightarrow> string" where
  "py_join sep [] = []"
| "py_join sep [x] = x"
| "py_join sep (x # y # xs) = x @ sep @ py_join sep (y # xs)"

definition urlencode_pair :: "string \<times> string option \<Rightarrow> string" where
  "urlencode_pair kv = (case kv of (k, v) \<Rightarrow> quote_plus k @ CHR ''='' # quote_plus (opt_str v))"

definition urlencode :: "(string \<times> string option) list \<Rightarrow> string" where
  "urlencode d = py_join ''&'' (map urlencode_pair d)"

text \<open>The query \<open>build_url\<close> encodes: the base's query as a dict, updated with
  \<open>params\<close>, then every key that \<open>params\<close> sets to \<open>None\<close> popped.\<close>

definition build_query :: "string \<Rightarrow> (string \<times> string option) list \<Rightarrow> (string \<times> string option) list" where
  "build_query q params =
     (let query = dict_update (map (\<lambda>(k, v). (k, Some v)) (dict_of (parse_qsl q))) params
      in foldl (\<lambda>d (k, v). if v = None then dict_pop k d else d) query params)"

definition build_url :: "string \<Rightarrow> (string \<times> string option) list \<Rightarrow> string" where
  "build_url base params =
     (let (pre, q, frag) = url_parts base in url_unparse pre (urlencode (build_query q params)) frag)"

definition url_query_params :: "string \<Rightarrow> (string \<times> string) list" where
  "url_query_params u = dict_of (parse_qsl (fst (snd (url_parts u))))"

section \<open>Generated tokens\<close>

text \<open>What \<open>random_ascii_string(n)\<close> returns: \<open>n\<close> letters and digits.\<close>

definition ascii_token :: "nat \<Rightarrow> string \<Rightarrow> bool" where
  "ascii_token n t \<longleftrightarrow> length t = n \<and> list_all is_alnum t"

text \<open>\<open>random_ascii_string(n)\<close>: \<open>n\<close> draws of \<open>random.choice\<close> from
  \<open>string.ascii_letters + string.digits\<close>. The random source is an explicit
  stream of draws (\<open>entropy\<close>): each draw picks a position in the 62
  characters, and the unused draws are returned.\<close>

definition ascii_chars :: string where
  "ascii_chars = ''abcdefghijklmnopqrstuvwxyzABCDEFGHIJKLMNOPQRSTUVWXYZ0123456789''"

type_synonym entropy = "nat list"

definition random_ascii_string :: "nat \<Rightarrow> entropy \<Rightarrow> string \<times> entropy" where
  "random_ascii_string n e = (map (\<lambda>i. ascii_chars ! (i mod 62)) (take n e), drop n e)"

section \<open>Round trips\<close>

lemma hex_val_hex_digit: "n < 16 \<Longrightarrow> hex_val (hex_digit n) = Some n"
proof -
  have "\<forall>n \<in> set [0..<16]. hex_val (hex_digit n) = Some n"
    by (simp add: hex_val_def hex_digit_def)
  moreover assume "n < 16"
  ultimately show ?thesis by simp
qed

lemma hex_digit_safe: "n < 16 \<Longrightarrow> always_safe (hex_digit n)"
proof -
  have "\<forall>n \<in> set [0..<16]. always_safe (hex_digit n)"
    by (simp add: always_safe_def is_alnum_def hex_digit_def)
  moreover assume "n < 16"
  ultimately show ?thesis by simp
qed

lemma of_char_digits:
  "of_char c div 16 < (16::nat)" "of_char c mod 16 < (16::nat)"
  "char_of (16 * (of_char c div 16) + of_char c mod (16::nat)) = c"
  using nat_of_char_less_256 [of c] by (simp_all add: div_less_iff_less_mult)

lemma always_safe_not_special [simp]:
  "always_safe c \<Longrightarrow> c \<noteq> CHR ''+'' \<and> c \<noteq> CHR ''%'' \<and> c \<noteq> CHR '' '' \<and> c \<noteq> CHR ''&'' \<and>
     c \<noteq> CHR '';'' \<and> c \<noteq> CHR ''='' \<and> c \<noteq> CHR ''#'' \<and> c \<noteq> CHR ''?''"
  by (auto simp: always_safe_def is_alnum_def)

lemma plus_to_space_append [simp]: "plus_to_space (xs @ ys) = plus_to_space xs @ plus_to_space ys"
  by (simp add: plus_to_space_def)

lemma plus_to_space_Nil [simp]: "plus_to_space [] = []"
  by (simp add: plus_to_space_def)

lemma unquote_quote_char:
  "unquote (plus_to_space (quote_plus_char c) @ r) = c # unquote r"
proof (cases "always_safe c")
  case True
  then show ?thesis by (simp add: quote_plus_char_def plus_to_space_def)
next
  case False
  show ?thesis
  proof (cases "c = CHR '' ''")
    case True
    with False show ?thesis by (simp add: quote_plus_char_def plus_to_space_def)
  next
    case sp: False
    let ?a = "hex_digit (of_char c div 16)" and ?b = "hex_digit (of_char c mod 16)"
    have a: "hex_val ?a = Some (of_char c div 16)" and b: "hex_val ?b = Some (of_char c mod 16)"
      using of_char_digits by (simp_all add: hex_val_hex_digit)
    have "?a \<noteq> CHR ''+''" "?b \<noteq> CHR ''+''"
      using hex_digit_safe of_char_digits(1,2) always_safe_not_special by blast+
    with False sp a b show ?thesis
      by (simp add: quote_plus_char_def plus_to_space_def of_char_digits(3))
  qed
qed

lemma unquote_plus_quote_plus: "unquote_plus (quote_plus s) = s"
proof -
  have "unquote (plus_to_space (quote_plus s) @ r) = s @ unquote r" for r
    by (induction s arbitrary: r) (simp_all add: quote_plus_def unquote_quote_char)
  from this [of "[]"] show ?thesis by (simp add: unquote_plus_def)
qed

lemma quote_plus_chars: "c \<in> set (quote_plus s) \<Longrightarrow> always_safe c \<or> c = CHR ''+'' \<or> c = CHR ''%''"
  using hex_digit_safe of_char_digits(1,2)
  by (auto simp: quote_plus_def quote_plus_char_def split: if_splits)

lemma quote_plus_no_sep [simp]:
  "CHR ''&'' \<notin> set (quote_plus s)" "CHR '';'' \<notin> set (quote_plus s)" "CHR ''='' \<notin> set (quote_plus s)"
  "CHR ''#'' \<notin> set (quote_plus s)" "CHR ''?'' \<notin> set (quote_plus s)"
  using quote_plus_chars always_safe_not_special by fastforce+

lemma split_on_no_sep: "c \<notin> set x \<Longrightarrow> split_on c x = [x]"
  by (induction x) auto

lemma split_on_append: "c \<notin> set x \<Longrightarrow> split_on c (x @ c # y) = x # split_on c y"
  by (induction x) auto

lemma split_on_join:
  "xs \<noteq> [] \<Longrightarrow> \<forall>x \<in> set xs. c \<notin> set x \<Longrightarrow> split_on c (py_join [c] xs) = xs"
  by (induction "[c]" xs rule: py_join.induct) (simp_all add: split_on_no_sep split_on_append)

lemma split_once_append: "c \<notin> set x \<Longrightarrow> split_once c (x @ c # y) = Some (x, y)"
  by (simp add: split_once_def takeWhile_append dropWhile_append)

lemma split_once_None: "c \<notin> set x \<Longrightarrow> split_once c x = None"
  by (simp add: split_once_def)

lemma urlencode_pair_no_sep:
  "CHR ''&'' \<notin> set (urlencode_pair kv)" "CHR '';'' \<notin> set (urlencode_pair kv)" "CHR ''#'' \<notin> set (urlencode_pair kv)"
  by (auto simp: urlencode_pair_def split: prod.splits)

lemma parse_pair_piece: "parse_pair (urlencode_pair (k, v)) = [(k, opt_str v)]"
  by (simp add: parse_pair_def urlencode_pair_def split_once_append unquote_plus_quote_plus)

lemma parse_qsl_urlencode: "parse_qsl (urlencode d) = map (\<lambda>(k, v). (k, opt_str v)) d"
proof (cases "d = []")
  case True
  then show ?thesis by (simp add: urlencode_def parse_qsl_def parse_pair_def)
next
  case False
  have "split_on CHR ''&'' (urlencode d) = map urlencode_pair d"
    using False urlencode_pair_no_sep(1) by (simp add: urlencode_def split_on_join)
  moreover have "concat (map (split_on CHR '';'') (map urlencode_pair d)) = map urlencode_pair d"
    by (induction d) (simp_all add: split_on_no_sep urlencode_pair_no_sep)
  moreover have "concat (map parse_pair (map urlencode_pair d)) = map (\<lambda>(k, v). (k, opt_str v)) d"
    by (induction d) (auto simp: parse_pair_piece)
  ultimately show ?thesis by (simp add: parse_qsl_def)
qed

lemma urlencode_no_sep [simp]: "CHR ''#'' \<notin> set (urlencode d)"
proof -
  have "CHR ''#'' \<notin> set (py_join sep xs)" if "CHR ''#'' \<notin> set sep" "\<forall>x \<in> set xs. CHR ''#'' \<notin> set x"
    for sep xs using that by (induction sep xs rule: py_join.induct) auto
  then show ?thesis by (simp add: urlencode_def urlencode_pair_no_sep)
qed

lemma split_once_fst:
  "fst (case split_once c s of Some p \<Rightarrow> p | None \<Rightarrow> (s, [])) = takeWhile (\<lambda>x. x \<noteq> c) s"
proof (cases "c \<in> set s")
  case True
  then show ?thesis by (simp add: split_once_def)
next
  case False
  then have "takeWhile (\<lambda>x. x \<noteq> c) s = s" by (intro takeWhile_eq_all_conv [THEN iffD2]) auto
  with False show ?thesis by (simp add: split_once_def del: takeWhile_eq_all_conv)
qed

lemma url_parts_fst: "fst (url_parts u) = takeWhile (\<lambda>x. x \<noteq> CHR ''?'') (takeWhile (\<lambda>x. x \<noteq> CHR ''#'') u)"
proof -
  obtain u1 frag where h1: "(case split_once CHR ''#'' u of Some p \<Rightarrow> p | None \<Rightarrow> (u, [])) = (u1, frag)"
    by (cases "case split_once CHR ''#'' u of Some p \<Rightarrow> p | None \<Rightarrow> (u, [])")
  obtain pre q where h2: "(case split_once CHR ''?'' u1 of Some p \<Rightarrow> p | None \<Rightarrow> (u1, [])) = (pre, q)"
    by (cases "case split_once CHR ''?'' u1 of Some p \<Rightarrow> p | None \<Rightarrow> (u1, [])")
  have "u1 = takeWhile (\<lambda>x. x \<noteq> CHR ''#'') u" using split_once_fst [where c = "CHR ''#''" and s = u] h1 by simp
  moreover have "pre = takeWhile (\<lambda>x. x \<noteq> CHR ''?'') u1" using split_once_fst [where c = "CHR ''?''" and s = u1] h2 by simp
  moreover have "url_parts u = (pre, q, frag)" by (simp add: url_parts_def h1 h2)
  ultimately show ?thesis by simp
qed

lemma url_parts_pre:
  assumes "url_parts u = (pre, q, frag)"
  shows "CHR ''#'' \<notin> set pre" and "CHR ''?'' \<notin> set pre"
  using url_parts_fst [of u] assms by (auto dest: set_takeWhileD)

lemma url_parts_unparse:
  assumes "CHR ''#'' \<notin> set pre" "CHR ''?'' \<notin> set pre" "CHR ''#'' \<notin> set q"
  shows "url_parts (url_unparse pre q frag) = (pre, q, frag)"
proof -
  have h: "split_once CHR ''#'' (url_unparse pre q frag) =
      (if frag = [] then None else Some (pre @ (if q = [] then [] else CHR ''?'' # q), frag))"
    using assms by (auto simp: url_unparse_def split_once_None split_once_append
      simp flip: append_assoc)
  have q: "split_once CHR ''?'' (pre @ (if q = [] then [] else CHR ''?'' # q)) =
      (if q = [] then None else Some (pre, q))"
    using assms by (simp add: split_once_None split_once_append)
  show ?thesis using h q by (simp add: url_parts_def url_unparse_def)
qed

lemma url_parts_build_url:
  assumes "url_parts base = (pre, q, frag)"
  shows "url_parts (build_url base ps) = (pre, urlencode (build_query q ps), frag)"
  using url_parts_pre [OF assms] by (simp add: build_url_def assms url_parts_unparse)

lemma map_of_foldl_pop:
  "map_of (foldl (\<lambda>d (k, v). if v = None then dict_pop k d else d) d0 ps) k =
     (if (k, None) \<in> set ps then None else map_of d0 k)"
  by (induction ps arbitrary: d0) (auto split: if_splits)

lemma distinct_foldl_pop:
  "distinct (map fst d0) \<Longrightarrow> distinct (map fst (foldl (\<lambda>d (k, v). if v = None then dict_pop k d else d) d0 ps))"
  by (induction ps arbitrary: d0) (auto simp: distinct_dict_pop)

lemma map_of_dict_of: "map_of (dict_of xs) = map_of (rev xs)"
  by (simp add: dict_of_def map_of_dict_update)

lemma distinct_dict_of: "distinct (map fst (dict_of xs))"
  using distinct_dict_update [of "[]" xs] by (simp add: dict_of_def)

lemma distinct_build_query: "distinct (map fst (build_query q ps))"
proof -
  have "distinct (map fst (map (\<lambda>(k, v). (k, Some v)) (dict_of (parse_qsl q))))"
    using distinct_dict_of [of "parse_qsl q"] by (simp add: case_prod_beta comp_def)
  then show ?thesis by (simp add: build_query_def Let_def distinct_foldl_pop distinct_dict_update)
qed

text \<open>What a parser of the URL \<open>build_url\<close> returns finds under each key: nothing
  for a key \<open>params\<close> sets to \<open>None\<close>, else the value of \<open>params\<close> or of the
  base's query, printed by \<open>str\<close>.\<close>

lemma map_of_url_query_params_build_url:
  "map_of (url_query_params (build_url base ps)) k =
     (if (k, None) \<in> set ps then None
      else map_option opt_str (((map_option Some \<circ> map_of (url_query_params base)) ++ map_of (rev ps)) k))"
proof -
  let ?bq = "build_query (fst (snd (url_parts base))) ps"
  obtain pre q frag where b: "url_parts base = (pre, q, frag)" by (cases "url_parts base")
  have "url_query_params (build_url base ps) = dict_of (map (\<lambda>(k, v). (k, opt_str v)) ?bq)"
    by (simp add: url_query_params_def url_parts_build_url [OF b] b parse_qsl_urlencode)
  then have "map_of (url_query_params (build_url base ps)) k = map_option opt_str (map_of ?bq k)"
    using distinct_build_query
    by (simp add: map_of_dict_of rev_map map_of_rev_distinct map_of_map
        case_prod_beta comp_def)
  then show ?thesis
    by (simp add: build_query_def Let_def map_of_foldl_pop map_of_dict_update map_of_map url_query_params_def
        case_prod_beta comp_def)
qed

text \<open>Round trip of the redirect URL: parsing the query of the URL
  \<open>build_url\<close> produces gives back exactly the dict it encoded, for any base
  URL and parameters.\<close>

lemma url_query_params_build_url:
  "url_query_params (build_url base params) =
     dict_of (map (\<lambda>(k, v). (k, opt_str v)) (build_query (fst (snd (url_parts base))) params))"
proof -
  obtain pre q frag where b: "url_parts base = (pre, q, frag)" by (cases "url_parts base")
  show ?thesis by (simp add: url_query_params_def url_parts_build_url [OF b] b parse_qsl_urlencode)
qed

section \<open>The generator\<close>

lemma ascii_chars_alnum: "i < 62 \<Longrightarrow> is_alnum (ascii_chars ! i)"
proof -
  have "list_all is_alnum ascii_chars" by (simp add: ascii_chars_def is_alnum_def)
  moreover assume "i < 62"
  moreover have "length ascii_chars = 62" by (simp add: ascii_chars_def)
  ultimately show ?thesis by (simp add: list_all_iff)
qed

lemma random_ascii_string_token:
  "n \<le> length e \<Longrightarrow> ascii_token n (fst (random_ascii_string n e))"
  by (auto simp: ascii_token_def random_ascii_string_def list_all_iff ascii_chars_alnum)

end
