(* ===== verification/Responses.thy ===== *)
theory Responses
  imports Utils
begin

text \<open>
  The base class \<open>Provider\<close> of \<open>src/toroauth2/provider.py\<close> (lines 13--97):
  the construction of the two wire shapes of a response. A \<open>requests.Response\<close>
  is a record of its status code, its headers (a dict) and its body; the body
  is either raw text or the JSON text \<open>json.dumps(data)\<close> of a Python value,
  kept as that value. The error kinds of spec section 7 are the strings
  \<open>err_str e\<close>.
\<close>

datatype body = RawText string | JsonText json

record response =
  status_code :: nat
  headers :: "(string \<times> string) list"
  raw :: body

definition err_str :: "oauth_error \<Rightarrow> string" where
  "err_str e = (case e of
      Unsupported_response_type \<Rightarrow> ''unsupported_response_type''
    | Unsupported_grant_type \<Rightarrow> ''unsupported_grant_type''
    | Unauthorized_client \<Rightarrow> ''unauthorized_client''
    | Invalid_scope \<Rightarrow> ''invalid_scope''
    | Invalid_request \<Rightarrow> ''invalid_request''
    | Invalid_client \<Rightarrow> ''invalid_client''
    | Invalid_grant \<Rightarrow> ''invalid_grant''
    | Access_denied \<Rightarrow> ''access_denied''
    | Server_error \<Rightarrow> ''server_error'')"

text \<open>\<open>_make_response(body, headers, status_code)\<close>: a fresh response whose
  headers are the given ones, if any.\<close>

definition make_response :: "body \<Rightarrow> (string \<times> string) list option \<Rightarrow> nat \<Rightarrow> response" where
  "make_response b hs code =
     \<lparr>status_code = code,
      headers = (case hs of None \<Rightarrow> [] | Some h \<Rightarrow> dict_update [] h),
      raw = b\<rparr>"

text \<open>\<open>_make_redirect_error_response(redirect_uri, err)\<close>: a 302 whose
  \<open>Location\<close> is the redirect URI with \<open>error\<close> set and the three protocol
  parameters removed from its query.\<close>

definition redirect_error_params :: "string \<Rightarrow> (string \<times> string option) list" where
  "redirect_error_params err =
     [(''error'', Some err), (''response_type'', None), (''client_id'', None), (''redirect_uri'', None)]"

definition make_redirect_error_response :: "string \<Rightarrow> string \<Rightarrow> response" where
  "make_redirect_error_response redirect_uri err =
     make_response (RawText []) (Some [(''Location'', build_url redirect_uri (redirect_error_params err))]) 302"

text \<open>\<open>_make_json_response(data, headers, status_code)\<close>: the given headers,
  then the content type and the two cache-disabling headers, which override any
  given value of the same name.\<close>

definition json_headers :: "(string \<times> string) list" where
  "json_headers =
     [(''Content-Type'', ''application/json;charset=UTF-8''),
      (''Cache-Control'', ''no-store''),
      (''Pragma'', ''no-cache'')]"

definition make_json_response :: "json \<Rightarrow> (string \<times> string) list option \<Rightarrow> nat \<Rightarrow> response" where
  "make_json_response data hs code =
     make_response (JsonText data)
       (Some (dict_update (case hs of None \<Rightarrow> [] | Some h \<Rightarrow> dict_update [] h) json_headers)) code"

definition make_json_error_response :: "string \<Rightarrow> response" where
  "make_json_error_response err = make_json_response (JObj [(''error'', JStr err)]) None 400"

definition invalid_redirect_uri_response :: response where
  "invalid_redirect_uri_response = make_json_error_response ''invalid_request''"

subsection \<open>Shape of the two error responses\<close>

lemma make_json_response_fields:
  "status_code (make_json_response d hs c) = c"
  "raw (make_json_response d hs c) = JsonText d"
  by (simp_all add: make_json_response_def make_response_def)

lemma make_json_response_header:
  "map_of (headers (make_json_response d hs c)) =
     (case hs of None \<Rightarrow> Map.empty | Some h \<Rightarrow> map_of (rev h)) ++ map_of (rev json_headers)"
  by (cases hs)
     (simp_all add: make_json_response_def make_response_def map_of_dict_update
        map_of_dict_update_distinct map_of_rev_distinct distinct_dict_update)

lemma json_headers_map:
  "map_of (rev json_headers) ''Content-Type'' = Some ''application/json;charset=UTF-8''"
  "map_of (rev json_headers) ''Cache-Control'' = Some ''no-store''"
  "map_of (rev json_headers) ''Pragma'' = Some ''no-cache''"
  by (simp_all add: json_headers_def)

lemma make_redirect_error_response_fields:
  "status_code (make_redirect_error_response u err) = 302"
  "raw (make_redirect_error_response u err) = RawText []"
  "map_of (headers (make_redirect_error_response u err)) ''Location'' =
     Some (build_url u (redirect_error_params err))"
  by (simp_all add: make_redirect_error_response_def make_response_def dict_update_def)

end
