(* ===== verification/Redis_Store.thy ===== *)
theory Redis_Store
  imports OAuth_Prelude
begin

text \<open>
  The persistence collaborators of \<open>src/provider.py\<close>, which the repository
  only calls: the Redis client \<open>r\<close> (\<open>setex\<close>, \<open>set\<close>, \<open>get\<close>, \<open>delete\<close>,
  \<open>sadd\<close>, \<open>smembers\<close>) and the MongoDB collection \<open>db.application\<close> looked
  up by \<open>app_key\<close>. Both follow the interface of spec section 6.
  The Redis keyspace is a map from keys to a value and an optional absolute
  expiry time, a second map for the set-valued keys, and a clock in seconds.
  A key with expiry \<open>e\<close> is readable while \<open>clock < e\<close>. As in Redis, a
  \<open>SET\<close>, \<open>SETEX\<close> or \<open>DEL\<close> of a key replaces or removes its value whatever
  its type, set included; \<open>SADD\<close> and \<open>SREM\<close> change the members of a set.
  The provider keeps strings and sets under disjoint key prefixes, so the
  \<open>WRONGTYPE\<close> error of a set command on a string key is not modelled. Values are the
  Python values themselves: \<open>json.loads (json.dumps d) = d\<close> for the dicts the
  provider stores, so the encoding is left out.
\<close>

record store =
  kv :: "string \<rightharpoonup> json \<times> nat option"
  sets :: "string \<Rightarrow> string set"
  clock :: nat

definition empty_store :: store where
  "empty_store = \<lparr>kv = Map.empty, sets = (\<lambda>_. {}), clock = 0\<rparr>"

definition r_setex :: "string \<Rightarrow> nat \<Rightarrow> json \<Rightarrow> store \<Rightarrow> store" where
  "r_setex k ttl v st = st\<lparr>kv := (kv st)(k \<mapsto> (v, Some (clock st + ttl))), sets := (sets st)(k := {})\<rparr>"

definition r_set :: "string \<Rightarrow> json \<Rightarrow> store \<Rightarrow> store" where
  "r_set k v st = st\<lparr>kv := (kv st)(k \<mapsto> (v, None)), sets := (sets st)(k := {})\<rparr>"

text \<open>An entry is live at time \<open>now\<close> when it has no expiry or expires later.\<close>

fun live :: "nat \<Rightarrow> json \<times> nat option \<Rightarrow> json option" where
  "live now (v, None) = Some v"
| "live now (v, Some e) = (if now < e then Some v else None)"

definition r_get :: "string \<Rightarrow> store \<Rightarrow> json option" where
  "r_get k st = Option.bind (kv st k) (live (clock st))"

definition r_delete :: "string \<Rightarrow> store \<Rightarrow> store" where
  "r_delete k st = st\<lparr>kv := (kv st)(k := None), sets := (sets st)(k := {})\<rparr>"

definition r_sadd :: "string \<Rightarrow> string list \<Rightarrow> store \<Rightarrow> store" where
  "r_sadd k ms st = st\<lparr>sets := (sets st)(k := sets st k \<union> set ms)\<rparr>"

definition r_srem :: "string \<Rightarrow> string list \<Rightarrow> store \<Rightarrow> store" where
  "r_srem k ms st = st\<lparr>sets := (sets st)(k := sets st k - set ms)\<rparr>"

definition r_smembers :: "string \<Rightarrow> store \<Rightarrow> string set" where
  "r_smembers k st = sets st k"

text \<open>A pipeline of deletes, executed at once (\<open>pipe.execute()\<close>).\<close>

definition r_delete_all :: "string set \<Rightarrow> store \<Rightarrow> store" where
  "r_delete_all ks st =
     st\<lparr>kv := (\<lambda>k. if k \<in> ks then None else kv st k), sets := (\<lambda>k. if k \<in> ks then {} else sets st k)\<rparr>"

text \<open>Time passing: the only way an entry expires.\<close>

definition r_tick :: "nat \<Rightarrow> store \<Rightarrow> store" where
  "r_tick n st = st\<lparr>clock := clock st + n\<rparr>"

text \<open>\<open>TTL\<close>: the seconds a live key with an expiry has left; \<open>None\<close> for a
  missing or expired key and for a key without expiry.\<close>

fun ttl_left :: "nat \<Rightarrow> json \<times> nat option \<Rightarrow> nat option" where
  "ttl_left now (v, None) = None"
| "ttl_left now (v, Some e) = (if now < e then Some (e - now) else None)"

definition r_ttl :: "string \<Rightarrow> store \<Rightarrow> nat option" where
  "r_ttl k st = Option.bind (kv st k) (ttl_left (clock st))"

text \<open>The commands the provider sends, as data, and their execution in
  order: any other client of the same Redis server is a sequence of them.\<close>

datatype redis_cmd =
    SETEX string nat json
  | SET string json
  | DEL string
  | SREM string "string list"
  | SADD string "string list"
  | DELALL "string set"
  | TICK nat

fun r_exec :: "redis_cmd \<Rightarrow> store \<Rightarrow> store" where
  "r_exec (SETEX k ttl v) st = r_setex k ttl v st"
| "r_exec (SET k v) st = r_set k v st"
| "r_exec (DEL k) st = r_delete k st"
| "r_exec (SREM k ms) st = r_srem k ms st"
| "r_exec (SADD k ms) st = r_sadd k ms st"
| "r_exec (DELALL ks) st = r_delete_all ks st"
| "r_exec (TICK n) st = r_tick n st"

text \<open>The commands that can remove members of the set under a key: a write or
  delete of the key replaces or removes its value whatever its type, and
  \<open>SREM\<close> removes members.\<close>

fun cmd_clears :: "redis_cmd \<Rightarrow> string \<Rightarrow> bool" where
  "cmd_clears (SETEX k' ttl v) k = (k = k')"
| "cmd_clears (SET k' v) k = (k = k')"
| "cmd_clears (DEL k') k = (k = k')"
| "cmd_clears (SREM k' ms) k = (k = k')"
| "cmd_clears (DELALL ks) k = (k \<in> ks)"
| "cmd_clears (SADD k' ms) k = False"
| "cmd_clears (TICK n) k = False"

definition r_exec_all :: "redis_cmd list \<Rightarrow> store \<Rightarrow> store" where
  "r_exec_all cs st = foldl (\<lambda>s c. r_exec c s) st cs"

subsection \<open>The application registry\<close>

text \<open>A registered application (\<open>models.Application\<close>, a MongoDB document):
  its key, secret, redirect URI and scope.\<close>

record app =
  app_key :: string
  app_secret :: string
  app_redirect_uri :: string
  app_scope :: string

type_synonym registry = "string \<rightharpoonup> app"

definition registry_wf :: "registry \<Rightarrow> bool" where
  "registry_wf reg \<longleftrightarrow> (\<forall>k a. reg k = Some a \<longrightarrow> app_key a = k)"

subsection \<open>Read-after-write laws\<close>

lemma r_get_setex [store_simps]:
  "r_get k (r_setex k' ttl v st) = (if k = k' then (if 0 < ttl then Some v else None) else r_get k st)"
  by (simp add: r_get_def r_setex_def)

lemma r_get_set [store_simps]:
  "r_get k (r_set k' v st) = (if k = k' then Some v else r_get k st)"
  by (simp add: r_get_def r_set_def)

lemma r_get_delete [store_simps]:
  "r_get k (r_delete k' st) = (if k = k' then None else r_get k st)"
  by (simp add: r_get_def r_delete_def)

lemma r_get_sadd [store_simps]: "r_get k (r_sadd k' ms st) = r_get k st"
  by (simp add: r_get_def r_sadd_def)

lemma r_get_srem [store_simps]: "r_get k (r_srem k' ms st) = r_get k st"
  by (simp add: r_get_def r_srem_def)

lemma r_get_delete_all [store_simps]:
  "r_get k (r_delete_all ks st) = (if k \<in> ks then None else r_get k st)"
  by (simp add: r_get_def r_delete_all_def)

lemma r_smembers_sadd [store_simps]:
  "r_smembers k (r_sadd k' ms st) = (if k = k' then r_smembers k st \<union> set ms else r_smembers k st)"
  by (simp add: r_smembers_def r_sadd_def)

lemma r_smembers_kv_writes [store_simps]:
  "r_smembers k (r_setex k' ttl v st) = (if k = k' then {} else r_smembers k st)"
  "r_smembers k (r_set k' v st) = (if k = k' then {} else r_smembers k st)"
  "r_smembers k (r_delete k' st) = (if k = k' then {} else r_smembers k st)"
  "r_smembers k (r_delete_all ks st) = (if k \<in> ks then {} else r_smembers k st)"
  "r_smembers k (r_srem k' ms st) = (if k = k' then r_smembers k st - set ms else r_smembers k st)"
  "r_smembers k (r_tick n st) = r_smembers k st"
  by (simp_all add: r_smembers_def r_setex_def r_set_def r_delete_def r_delete_all_def r_srem_def r_tick_def)

lemma clock_writes [store_simps]:
  "clock (r_setex k ttl v st) = clock st"
  "clock (r_set k v st) = clock st"
  "clock (r_delete k st) = clock st"
  "clock (r_sadd k ms st) = clock st"
  "clock (r_delete_all ks st) = clock st"
  "clock (r_srem k ms st) = clock st"
  "clock (r_tick n st) = clock st + n"
  by (simp_all add: r_setex_def r_set_def r_delete_def r_sadd_def r_delete_all_def r_srem_def r_tick_def)

text \<open>An entry written with \<open>setex\<close> is readable for exactly \<open>ttl\<close> seconds.\<close>

lemma r_get_setex_tick:
  "r_get k (r_tick n (r_setex k ttl v st)) = (if n < ttl then Some v else None)"
  by (simp add: r_get_def r_setex_def r_tick_def)

lemma r_ttl_setex_tick:
  "r_ttl k (r_tick n (r_setex k ttl v st)) = (if n < ttl then Some (ttl - n) else None)"
  by (simp add: r_ttl_def r_setex_def r_tick_def)

lemma r_get_set_tick:
  "r_get k (r_tick n (r_set k v st)) = Some v"
  by (simp add: r_get_def r_set_def r_tick_def)

text \<open>Time only removes entries: what is readable later was readable before,
  with the same value.\<close>

lemma r_get_tick_Some:
  "r_get k (r_tick n st) = Some v \<Longrightarrow> r_get k st = Some v"
  by (cases "kv st k") (auto simp: r_get_def r_tick_def elim: live.elims split: if_splits)

text \<open>A set keeps its members under every command that does not clear it.\<close>

lemma r_smembers_exec: "\<not> cmd_clears c k \<Longrightarrow> r_smembers k st \<subseteq> r_smembers k (r_exec c st)"
  by (cases c) (auto simp: store_simps)

lemma r_smembers_exec_all:
  "\<forall>c \<in> set cs. \<not> cmd_clears c k \<Longrightarrow> r_smembers k st \<subseteq> r_smembers k (r_exec_all cs st)"
proof (induction cs arbitrary: st)
  case Nil
  then show ?case by (simp add: r_exec_all_def)
next
  case (Cons c cs)
  have "r_smembers k st \<subseteq> r_smembers k (r_exec c st)" using Cons.prems by (simp add: r_smembers_exec)
  also have "\<dots> \<subseteq> r_smembers k (r_exec_all cs (r_exec c st))" using Cons.prems by (simp add: Cons.IH)
  finally show ?case by (simp add: r_exec_all_def)
qed

lemma r_ttl_writes [store_simps]:
  "r_ttl k (r_setex k' t v st) = (if k = k' then (if 0 < t then Some t else None) else r_ttl k st)"
  "r_ttl k (r_set k' v st) = (if k = k' then None else r_ttl k st)"
  "r_ttl k (r_delete k' st) = (if k = k' then None else r_ttl k st)"
  "r_ttl k (r_sadd k' ms st) = r_ttl k st"
  "r_ttl k (r_srem k' ms st) = r_ttl k st"
  by (simp_all add: r_ttl_def r_setex_def r_set_def r_delete_def r_sadd_def r_srem_def)

lemma r_ttl_tick: "r_ttl k (r_tick n st) = Some m \<Longrightarrow> \<exists>m'. r_ttl k st = Some m' \<and> m \<le> m'"
  by (cases "kv st k") (auto simp: r_ttl_def r_tick_def elim!: ttl_left.elims split: if_splits)

lemma r_get_kv: "r_get k st = Some d \<Longrightarrow> \<exists>e. kv st k = Some (d, e)"
  by (cases "kv st k") (auto simp: r_get_def elim: live.elims split: if_splits)

lemma kv_writes:
  "kv (r_setex k t v st) = (kv st)(k \<mapsto> (v, Some (clock st + t)))"
  "kv (r_set k v st) = (kv st)(k \<mapsto> (v, None))"
  "kv (r_delete k st) = (kv st)(k := None)"
  "kv (r_sadd k ms st) = kv st"
  "kv (r_srem k ms st) = kv st"
  "kv (r_tick n st) = kv st"
  by (simp_all add: r_setex_def r_set_def r_delete_def r_sadd_def r_srem_def r_tick_def)

end
