(* ===== verification/Auth_Provider.thy ===== *)
theory Auth_Provider
  imports Responses Redis_Store
begin

text \<open>
  \<open>AuthorizationProvider\<close> of \<open>src/toroauth2/provider.py\<close> (lines 100--566).
  The class leaves its storage and validation to methods a subclass overrides
  (lines 522--566); here they are the fields of a record \<open>'s oauth_hooks\<close>
  over the subclass's state \<open>'s\<close>, each a \<open>pyflow\<close> that may raise. The
  operations are defined for any hooks; \<open>Toro_Provider\<close> supplies the hooks of
  the repository's subclass.

  The operations run under \<open>tornado.gen.engine\<close>. A call through
  \<open>gen.Task\<close> resumes with the value the hook passes to its callback; a direct
  call of an engine function returns \<open>None\<close>. The record keeps the two apart for
  \<open>validate_client_id\<close>, which the class calls both ways. Every hook is called
  in the order of the source, and an exception ends the flow with the writes
  done so far kept (\<open>fbind\<close>).

  Tokens are generated by \<open>utils.random_ascii_string\<close>; the operations take the
  generated strings as arguments (\<open>code\<close>, \<open>at\<close>, \<open>rt\<close>), in the order the
  source draws them.
\<close>

record 's oauth_hooks =
  validate_client_id :: "string \<Rightarrow> (app option, 's) pyflow"
  validate_client_id_ret :: "string \<Rightarrow> (bool, 's) pyflow"
  validate_client_secret :: "string \<Rightarrow> string \<Rightarrow> (bool, 's) pyflow"
  validate_scope :: "string \<Rightarrow> string \<Rightarrow> (bool, 's) pyflow"
  from_authorization_code :: "string \<Rightarrow> string \<Rightarrow> (json option, 's) pyflow"
  from_refresh_token :: "string \<Rightarrow> string \<Rightarrow> string \<Rightarrow> (json option, 's) pyflow"
  persist_authorization_code :: "string \<Rightarrow> string \<Rightarrow> string \<Rightarrow> (unit, 's) pyflow"
  persist_token_information ::
    "string \<Rightarrow> string \<Rightarrow> string \<Rightarrow> nat \<Rightarrow> string \<Rightarrow> json option \<Rightarrow> (unit, 's) pyflow"
  discard_authorization_code :: "string \<Rightarrow> string \<Rightarrow> (unit, 's) pyflow"
  discard_refresh_token :: "string \<Rightarrow> string \<Rightarrow> (unit, 's) pyflow"

section \<open>Configuration\<close>

definition token_length :: nat where "token_length = 40"
definition token_type :: string where "token_type = ''Bearer''"
definition token_expires_in :: nat where "token_expires_in = 3600"

text \<open>The token dict of a successful grant.\<close>

definition token_json :: "string \<Rightarrow> string \<Rightarrow> nat \<Rightarrow> string \<Rightarrow> json" where
  "token_json at tt exp rt =
     JObj [(''access_token'', JStr at), (''token_type'', JStr tt),
           (''expires_in'', JInt (int exp)), (''refresh_token'', JStr rt)]"

text \<open>\<open>generate_authorization_code\<close>, \<open>generate_access_token\<close> and
  \<open>generate_refresh_token\<close> (lines 185--204): \<open>token_length\<close> random letters
  and digits each.\<close>

definition generate_authorization_code :: "entropy \<Rightarrow> string \<times> entropy" where
  "generate_authorization_code e = random_ascii_string token_length e"

definition generate_access_token :: "entropy \<Rightarrow> string \<times> entropy" where
  "generate_access_token e = random_ascii_string token_length e"

definition generate_refresh_token :: "entropy \<Rightarrow> string \<times> entropy" where
  "generate_refresh_token e = random_ascii_string token_length e"

section \<open>Operations\<close>

text \<open>\<open>params.get(k, default)\<close> on the keyword arguments.\<close>

definition param_get :: "(string \<times> string) list \<Rightarrow> string \<Rightarrow> string \<Rightarrow> string" where
  "param_get ps k dflt = (case map_of ps k of Some v \<Rightarrow> v | None \<Rightarrow> dflt)"

text \<open>The parameters echoed in the redirect: the extra keyword arguments, then
  the code, and \<open>None\<close> for the three protocol parameters so that
  \<open>build_url\<close> removes them.\<close>

definition code_redirect_params ::
  "(string \<times> string) list \<Rightarrow> string \<Rightarrow> (string \<times> string option) list" where
  "code_redirect_params params code =
     dict_update (map (\<lambda>(k, v). (k, Some v)) params)
       [(''code'', Some code), (''response_type'', None), (''client_id'', None), (''redirect_uri'', None)]"

text \<open>\<open>get_authorization_code\<close> (lines 206--287). A response type other than
  \<open>code\<close> raises \<open>gen.Return\<close>, which ends the flow without a callback. The
  client is looked up, but the redirect-URI and scope comparisons that follow
  (lines 243--264) end in \<open>pass\<close>: their outcome does not change what happens
  next, so the definition does not branch on them. The code is persisted with
  the requested scope and the callback receives the redirect URI.\<close>

definition get_authorization_code ::
  "'s oauth_hooks \<Rightarrow> string \<Rightarrow> string \<Rightarrow> string \<Rightarrow> (string \<times> string) list \<Rightarrow> string \<Rightarrow> (string, 's) pyflow" where
  "get_authorization_code H response_type client_id redirect_uri params code =
     (if response_type \<noteq> ''code'' then raise (GenReturn Unsupported_response_type)
      else
        (let scope = param_get params ''scope'' '''' in
         fbind (validate_client_id H client_id) (\<lambda>result.
         fbind (persist_authorization_code H client_id code scope) (\<lambda>_.
         ret (build_url redirect_uri (code_redirect_params params code))))))"

text \<open>\<open>refresh_token\<close> (lines 289--354), a plain method: every check is
  computed first, in the order of the source, then the errors are returned in
  the order \<open>invalid_client\<close>, \<open>invalid_scope\<close>, \<open>invalid_grant\<close>; on success
  the presented refresh token is discarded before the new pair is persisted.
  \<open>persist_token_information\<close> is called without a callback; on the
  repository's hooks it is a \<open>gen.engine\<close> coroutine, so its writes complete
  after \<open>refresh_token\<close> has returned. The model runs them before the return,
  which is the order a client observes once the IOLoop has run them.\<close>

definition refresh_token ::
  "'s oauth_hooks \<Rightarrow> string \<Rightarrow> string \<Rightarrow> string \<Rightarrow> string \<Rightarrow> (string \<times> string) list \<Rightarrow>
   string \<Rightarrow> string \<Rightarrow> (response, 's) pyflow" where
  "refresh_token H grant_type client_id client_secret rtoken params at rt =
     (if grant_type \<noteq> ''refresh_token'' then ret (make_json_error_response ''unsupported_grant_type'')
      else
        fbind (validate_client_id_ret H client_id) (\<lambda>is_valid_client_id.
        fbind (validate_client_secret H client_id client_secret) (\<lambda>is_valid_client_secret.
        let scope = param_get params ''scope'' '''' in
        fbind (validate_scope H client_id scope) (\<lambda>is_valid_scope.
        fbind (from_refresh_token H client_id rtoken scope) (\<lambda>data.
          if \<not> (is_valid_client_id \<and> is_valid_client_secret)
          then ret (make_json_error_response ''invalid_client'')
          else if \<not> is_valid_scope then ret (make_json_error_response ''invalid_scope'')
          else if data = None then ret (make_json_error_response ''invalid_grant'')
          else
            fbind (discard_refresh_token H client_id rtoken) (\<lambda>_.
            fbind (persist_token_information H client_id at token_type token_expires_in rt data) (\<lambda>_.
            ret (make_json_response (token_json at token_type token_expires_in rt) None 200))))))))"

text \<open>\<open>get_token\<close> (lines 356--434). The grant-type, client and redirect-URI
  checks are commented out or end in \<open>pass\<close>, and \<open>is_valid_grant\<close> is
  computed but never read: whatever \<open>from_authorization_code\<close> returns, the code
  is discarded, a token pair is persisted with that data, and the callback
  receives the token dict.\<close>

definition get_token ::
  "'s oauth_hooks \<Rightarrow> string \<Rightarrow> string \<Rightarrow> string \<Rightarrow> string \<Rightarrow> string \<Rightarrow>
   string \<Rightarrow> string \<Rightarrow> (json, 's) pyflow" where
  "get_token H grant_type client_id client_secret redirect_uri code at rt =
     fbind (from_authorization_code H client_id code) (\<lambda>data.
     fbind (discard_authorization_code H client_id code) (\<lambda>_.
     fbind (persist_token_information H client_id at token_type token_expires_in rt data) (\<lambda>_.
     ret (token_json at token_type token_expires_in rt))))"

section \<open>Adapters\<close>

text \<open>What the handler's callback receives: a value, or nothing when the flow
  ends without calling it.\<close>

datatype 'a reply = Reply 'a | NoReply

text \<open>The exceptions that \<open>except StandardError\<close> catches in Python 2:
  \<open>TypeError\<close> and \<open>AttributeError\<close>; \<open>gen.Return\<close>, the plain
  \<open>Exception\<close> of an unknown client and the registry's \<open>DoesNotExist\<close>
  derive from \<open>Exception\<close> only.\<close>

fun is_standard_error :: "exc \<Rightarrow> bool" where
  "is_standard_error TypeError = True"
| "is_standard_error AttributeError = True"
| "is_standard_error _ = False"

text \<open>A required parameter: present and not empty (\<open>if not data.get(x)\<close>).\<close>

definition has_param :: "(string \<times> string) list \<Rightarrow> string \<Rightarrow> bool" where
  "has_param d x \<longleftrightarrow> (case map_of d x of Some v \<Rightarrow> v \<noteq> [] | None \<Rightarrow> False)"

definition arg :: "(string \<times> string) list \<Rightarrow> string \<Rightarrow> string" where
  "arg d x = param_get d x []"

text \<open>The keyword arguments left over when \<open>f(**d)\<close> binds the named ones.\<close>

definition extra_args :: "string list \<Rightarrow> (string \<times> string) list \<Rightarrow> (string \<times> string) list" where
  "extra_args names d = filter (\<lambda>(k, _). k \<notin> set names) d"

text \<open>\<open>get_authorization_code_from_uri\<close> (lines 436--481). A missing
  \<open>response_type\<close>, \<open>client_id\<close> or \<open>redirect_uri\<close> raises \<open>TypeError\<close>;
  the handler logs it and re-raises (the error responses are commented out),
  and so do the handlers of every other exception. A query parameter named
  \<open>callback\<close> collides with the callback \<open>gen.Task\<close> passes: \<open>TypeError\<close>.\<close>

definition get_authorization_code_from_uri ::
  "'s oauth_hooks \<Rightarrow> string \<Rightarrow> string \<Rightarrow> (string, 's) pyflow" where
  "get_authorization_code_from_uri H uri code =
     (let params = url_query_params uri in
      if map_of params ''response_type'' = None then raise TypeError
      else if map_of params ''client_id'' = None then raise TypeError
      else if map_of params ''redirect_uri'' = None then raise TypeError
      else if map_of params ''callback'' \<noteq> None then raise TypeError
      else get_authorization_code H (arg params ''response_type'') (arg params ''client_id'')
             (arg params ''redirect_uri'') (extra_args [''response_type'', ''client_id'', ''redirect_uri''] params)
             code)"

text \<open>\<open>get_token_from_post_data\<close> (lines 483--520). A missing or empty
  \<open>grant_type\<close>, \<open>client_id\<close>, \<open>client_secret\<close>, \<open>redirect_uri\<close> or
  \<open>code\<close> raises \<open>TypeError\<close>, which is logged and swallowed: the callback is
  never called. The branch for a \<open>refresh_token\<close> parameter is \<open>pass\<close>, so a
  refresh request is treated as a code exchange. Every \<open>StandardError\<close> of the
  exchange is swallowed the same way, with the writes it made kept.\<close>

definition get_token_from_post_data ::
  "'s oauth_hooks \<Rightarrow> (string \<times> string) list \<Rightarrow> string \<Rightarrow> string \<Rightarrow> (json reply, 's) pyflow" where
  "get_token_from_post_data H data at rt =
     (if \<not> (has_param data ''grant_type'' \<and> has_param data ''client_id'' \<and> has_param data ''client_secret'')
      then ret NoReply
      else if \<not> (has_param data ''redirect_uri'' \<and> has_param data ''code'') then ret NoReply
      else if map_of data ''callback'' \<noteq> None then ret NoReply
      else
        fcatch
          (fbind (get_token H (arg data ''grant_type'') (arg data ''client_id'') (arg data ''client_secret'')
                    (arg data ''redirect_uri'') (arg data ''code'') at rt)
             (\<lambda>r. ret (Reply r)))
          (\<lambda>e. if is_standard_error e then ret NoReply else raise e))"

section \<open>The redirect of a granted code\<close>

lemma get_authorization_code_Inr_url:
  assumes "get_authorization_code H rty cid ru params code st = (Inr u, st')"
  shows "u = build_url ru (code_redirect_params params code)"
proof -
  obtain r1 s1 where v: "validate_client_id H cid st = (r1, s1)" by (cases "validate_client_id H cid st")
  obtain r2 s2 where p: "persist_authorization_code H cid code (param_get params ''scope'' []) s1 = (r2, s2)"
    by (cases "persist_authorization_code H cid code (param_get params ''scope'' []) s1")
  show ?thesis
    using assms v p by (cases r1; cases r2) (auto simp: get_authorization_code_def Let_def split: if_splits)
qed

lemma set_dict_set: "set (dict_set k v d) \<subseteq> insert (k, v) (set d)"
  by (induction d) (auto split: if_splits)

lemma set_dict_update: "set (dict_update d u) \<subseteq> set d \<union> set u"
proof (induction u arbitrary: d)
  case Nil
  then show ?case by (simp add: dict_update_def)
next
  case (Cons p u)
  obtain k v where p: "p = (k, v)" by (cases p)
  have "set (dict_update (dict_set k v d) u) \<subseteq> set (dict_set k v d) \<union> set u" by (rule Cons.IH)
  with set_dict_set [of k v d] show ?case by (auto simp: dict_update_def p)
qed

lemma code_redirect_params_None:
  "(k, None) \<in> set (code_redirect_params params code) \<longleftrightarrow> k \<in> {''response_type'', ''client_id'', ''redirect_uri''}"
proof
  assume k: "(k, None) \<in> set (code_redirect_params params code)"
  have "(k, None) \<notin> set (map (\<lambda>(k, v). (k, Some v)) params)" by auto
  with k set_dict_update [of "map (\<lambda>(k, v). (k, Some v)) params"
        "[(''code'', Some code), (''response_type'', None), (''client_id'', None), (''redirect_uri'', None)]"]
  have "(k, None) \<in> set [(''code'', Some code), (''response_type'', None), (''client_id'', None), (''redirect_uri'', None)]"
    unfolding code_redirect_params_def by blast
  then show "k \<in> {''response_type'', ''client_id'', ''redirect_uri''}" by simp
next
  assume k: "k \<in> {''response_type'', ''client_id'', ''redirect_uri''}"
  have "map_of (code_redirect_params params code) k = Some None"
    using k by (auto simp: code_redirect_params_def map_of_dict_update)
  then show "(k, None) \<in> set (code_redirect_params params code)" by (rule map_of_SomeD)
qed

lemma map_of_code_redirect_params:
  "distinct (map fst params) \<Longrightarrow>
   map_of (rev (code_redirect_params params code)) =
     (map_option Some \<circ> map_of params)(''code'' \<mapsto> Some code, ''response_type'' \<mapsto> None,
        ''client_id'' \<mapsto> None, ''redirect_uri'' \<mapsto> None)"
proof -
  assume "distinct (map fst params)"
  then have "distinct (map fst (map (\<lambda>(k, v). (k, Some v)) params))" by (simp add: case_prod_beta comp_def)
  then have "distinct (map fst (code_redirect_params params code))"
    by (simp add: code_redirect_params_def distinct_dict_update)
  then show ?thesis
    by (simp add: map_of_rev_distinct code_redirect_params_def map_of_dict_update map_of_map case_prod_beta comp_def)
qed

end
