(* ===== verification/Toro_Provider.thy ===== *)
theory Toro_Provider
  imports Auth_Provider
begin

text \<open>
  \<open>Toroauth2AuthorizationProvider\<close> of \<open>src/provider.py\<close>: the hooks of
  \<open>AuthorizationProvider\<close> over the Redis store and the MongoDB application
  registry. The Redis keys are built by \<open>'%s'\<close> formatting:
  \<open>oauth2.authorization_code.<client>:<code>\<close>, \<open>oauth2.access_token:<token>\<close>,
  \<open>oauth2.refresh_token.<client>:<token>\<close> and the index
  \<open>oauth2.client_user.<client>:<user>\<close>.

  The subclass extends \<open>pyoauth2.provider.AuthorizationProvider\<close> (line 2),
  a package the repository does not contain. Its methods are modelled as the
  hooks of the engine in \<open>src/toroauth2/provider.py\<close>, whose abstract
  methods they implement name for name: the model assumes the imported base
  class is this engine.

  Two methods use \<open>self.r\<close> where the rest use the module's client \<open>r\<close>
  (lines 178 and 215); the class never sets such an attribute. The flag
  \<open>has_r\<close> says whether the instance has one bound to the same client:
  without it, both methods raise \<open>AttributeError\<close>.

  Line 27 (and 43) reads \<open>raise Exception if result is None\<close>, which is not
  valid Python; the model follows its evident meaning: raise when the
  application is unknown, else pass it to the callback.
\<close>

section \<open>Keys\<close>

definition code_key :: "string \<Rightarrow> string \<Rightarrow> string" where
  "code_key client_id code = ''oauth2.authorization_code.'' @ client_id @ CHR '':'' # code"

definition access_key :: "string \<Rightarrow> string" where
  "access_key at = ''oauth2.access_token:'' @ at"

definition refresh_key :: "string \<Rightarrow> string \<Rightarrow> string" where
  "refresh_key client_id rt = ''oauth2.refresh_token.'' @ client_id @ CHR '':'' # rt"

definition client_user_key :: "string \<Rightarrow> string \<Rightarrow> string" where
  "client_user_key client_id user_id = ''oauth2.client_user.'' @ client_id @ CHR '':'' # user_id"

section \<open>Hooks\<close>

text \<open>\<open>validate_client_id\<close> (lines 17--28), as a task: the application document,
  or an exception for an unknown key. Called directly, the engine function
  returns \<open>None\<close>; so does \<open>validate_client_secret\<close> (lines 30--44), which the
  provider only calls directly.\<close>

definition toro_validate_client_id :: "registry \<Rightarrow> string \<Rightarrow> (app option, store) pyflow" where
  "toro_validate_client_id reg client_id =
     (case reg client_id of None \<Rightarrow> raise ClientNotFound | Some a \<Rightarrow> ret (Some a))"

definition toro_validate_client_id_ret :: "string \<Rightarrow> (bool, store) pyflow" where
  "toro_validate_client_id_ret client_id = ret False"

definition toro_validate_client_secret :: "string \<Rightarrow> string \<Rightarrow> (bool, store) pyflow" where
  "toro_validate_client_secret client_id client_secret = ret False"

text \<open>\<open>validate_redirect_uri\<close> (lines 46--62) compares the registered URI with
  the given one cut at \<open>?\<close> (\<open>split('?')[0]\<close>) and returns the result. The
  method is decorated with \<open>@gen.engine\<close> but has no \<open>yield\<close>: the
  wrapper receives \<open>True\<close> or \<open>False\<close> from the body and raises
  \<open>ReturnValueIgnoredError\<close> (Tornado 3, which the \<open>gen.Return\<close> of the
  engine requires); it never calls back. \<open>Application.objects.get\<close> raises
  for an unknown key before that. The engine never calls the method.\<close>

definition toro_validate_redirect_uri :: "registry \<Rightarrow> string \<Rightarrow> string \<Rightarrow> (bool, store) pyflow" where
  "toro_validate_redirect_uri reg client_id redirect_uri =
     (case reg client_id of
        None \<Rightarrow> raise DoesNotExist
      | Some a \<Rightarrow> (let matched = (app_redirect_uri a = split_first CHR ''?'' redirect_uri)
                  in raise ReturnValueIgnored))"

definition toro_validate_access :: "(bool, store) pyflow" where
  "toro_validate_access = ret True"

text \<open>\<open>validate_scope\<close> (lines 70--83): exact equality with the registered scope.\<close>

definition toro_validate_scope :: "registry \<Rightarrow> string \<Rightarrow> string \<Rightarrow> (bool, store) pyflow" where
  "toro_validate_scope reg client_id scope =
     (case reg client_id of None \<Rightarrow> raise DoesNotExist | Some a \<Rightarrow> ret (scope = app_scope a))"

text \<open>\<open>persist_authorization_code\<close> (lines 85--112): the client and scope under
  the code's key, for 60 seconds.\<close>

definition code_data :: "string \<Rightarrow> string \<Rightarrow> json" where
  "code_data client_id scope = JObj [(''client_id'', JStr client_id), (''scope'', JStr scope)]"

definition toro_persist_authorization_code :: "string \<Rightarrow> string \<Rightarrow> string \<Rightarrow> (unit, store) pyflow" where
  "toro_persist_authorization_code client_id code scope =
     modify (r_setex (code_key client_id code) 60 (code_data client_id scope))"

text \<open>\<open>persist_token_information\<close> (lines 114--148): the data under the access
  key with the token's lifetime, under the refresh key without expiry, then
  both keys added to the client-user index. \<open>json.dumps(None)\<close> is \<open>null\<close>,
  but \<open>data.get('user_id')\<close> raises on \<open>None\<close> (and on any non-dict), after the
  two writes.\<close>

definition py_json :: "json option \<Rightarrow> json" where
  "py_json d = (case d of None \<Rightarrow> JNull | Some v \<Rightarrow> v)"

definition toro_persist_token_information ::
  "string \<Rightarrow> string \<Rightarrow> string \<Rightarrow> nat \<Rightarrow> string \<Rightarrow> json option \<Rightarrow> (unit, store) pyflow" where
  "toro_persist_token_information client_id at tt expires_in rt data =
     fbind (modify (r_setex (access_key at) expires_in (py_json data))) (\<lambda>_.
     fbind (modify (r_set (refresh_key client_id rt) (py_json data))) (\<lambda>_.
     (case data of
        Some (JObj kvs) \<Rightarrow>
          modify (r_sadd (client_user_key client_id (py_str (map_of kvs ''user_id'')))
                    [access_key at, refresh_key client_id rt])
      | _ \<Rightarrow> raise AttributeError)))"

text \<open>\<open>from_authorization_code\<close> (lines 150--164): \<open>json.loads(None)\<close> raises
  \<open>TypeError\<close> when the key is absent or expired.\<close>

definition toro_from_authorization_code :: "string \<Rightarrow> string \<Rightarrow> (json option, store) pyflow" where
  "toro_from_authorization_code client_id code st =
     (case r_get (code_key client_id code) st of
        None \<Rightarrow> (Inl TypeError, st)
      | Some d \<Rightarrow> (Inr (Some d), st))"

text \<open>\<open>from_refresh_token\<close> (lines 166--187): the stored data when the requested
  scope is empty or equal to the stored one and the stored client is the
  caller; \<open>None\<close> otherwise. A stored \<open>null\<close> makes \<open>data.get\<close> raise.\<close>

definition toro_from_refresh_token ::
  "bool \<Rightarrow> string \<Rightarrow> string \<Rightarrow> string \<Rightarrow> (json option, store) pyflow" where
  "toro_from_refresh_token has_r client_id rtoken scope st =
     (if \<not> has_r then (Inl AttributeError, st)
      else case r_get (refresh_key client_id rtoken) st of
        None \<Rightarrow> (Inr None, st)
      | Some (JObj kvs) \<Rightarrow>
          (if (scope = [] \<or> map_of kvs ''scope'' = Some (JStr scope))
              \<and> map_of kvs ''client_id'' = Some (JStr client_id)
           then (Inr (Some (JObj kvs)), st) else (Inr None, st))
      | Some _ \<Rightarrow> (Inl AttributeError, st))"

definition toro_discard_authorization_code :: "string \<Rightarrow> string \<Rightarrow> (unit, store) pyflow" where
  "toro_discard_authorization_code client_id code = modify (r_delete (code_key client_id code))"

definition toro_discard_refresh_token :: "bool \<Rightarrow> string \<Rightarrow> string \<Rightarrow> (unit, store) pyflow" where
  "toro_discard_refresh_token has_r client_id rtoken =
     (if has_r then modify (r_delete (refresh_key client_id rtoken)) else raise AttributeError)"

text \<open>\<open>discard_client_user_tokens\<close> (lines 217--230): every key of the index is
  deleted in one pipeline; the index itself is left as it is.\<close>

definition discard_client_user_tokens :: "bool \<Rightarrow> string \<Rightarrow> string \<Rightarrow> (unit, store) pyflow" where
  "discard_client_user_tokens has_r client_id user_id st =
     (if \<not> has_r then (Inl AttributeError, st)
      else (Inr (), r_delete_all (r_smembers (client_user_key client_id user_id) st) st))"

definition toro_hooks :: "registry \<Rightarrow> bool \<Rightarrow> store oauth_hooks" where
  "toro_hooks reg has_r =
     \<lparr>validate_client_id = toro_validate_client_id reg,
      validate_client_id_ret = toro_validate_client_id_ret,
      validate_client_secret = toro_validate_client_secret,
      validate_scope = toro_validate_scope reg,
      from_authorization_code = toro_from_authorization_code,
      from_refresh_token = toro_from_refresh_token has_r,
      persist_authorization_code = toro_persist_authorization_code,
      persist_token_information = toro_persist_token_information,
      discard_authorization_code = toro_discard_authorization_code,
      discard_refresh_token = toro_discard_refresh_token has_r\<rparr>"

section \<open>The running example\<close>

text \<open>The client of spec section 8: key \<open>app123\<close>, secret \<open>s3cr3t\<close>,
  redirect URI \<open>https://client.example/cb\<close>, scope \<open>read\<close>; and a store
  holding one code issued to it.\<close>

definition demo_app :: app where
  "demo_app = \<lparr>app_key = ''app123'', app_secret = ''s3cr3t'',
     app_redirect_uri = ''https://client.example/cb'', app_scope = ''read''\<rparr>"

definition demo_reg :: registry where
  "demo_reg = [''app123'' \<mapsto> demo_app]"

definition demo_code_store :: store where
  "demo_code_store = r_setex (code_key ''app123'' ''C0DE'') 60 (code_data ''app123'' ''read'') empty_store"

section \<open>Keys are distinct\<close>

lemma key_namespaces [key_simps]:
  "code_key a c \<noteq> access_key t"
  "access_key t \<noteq> code_key a c"
  "code_key a c \<noteq> refresh_key b u"
  "refresh_key b u \<noteq> code_key a c"
  "access_key t \<noteq> refresh_key b u"
  "refresh_key b u \<noteq> access_key t"
  "client_user_key a x \<noteq> code_key b c"
  "client_user_key a x \<noteq> access_key t"
  "client_user_key a x \<noteq> refresh_key b u"
  by (simp_all add: code_key_def access_key_def refresh_key_def client_user_key_def)

lemma sep_key_inject:
  assumes "p @ a @ CHR '':'' # c = p @ b @ CHR '':'' # c'"
    and "CHR '':'' \<notin> set c" and "CHR '':'' \<notin> set c'"
  shows "a = b \<and> c = c'"
  using assms append_sep_inject [of a "CHR '':''" c b c'] by simp

lemma code_key_inject [key_simps]:
  "CHR '':'' \<notin> set c \<Longrightarrow> CHR '':'' \<notin> set c' \<Longrightarrow> code_key a c = code_key b c' \<longleftrightarrow> a = b \<and> c = c'"
  unfolding code_key_def using sep_key_inject by blast

lemma refresh_key_inject [key_simps]:
  "CHR '':'' \<notin> set c \<Longrightarrow> CHR '':'' \<notin> set c' \<Longrightarrow> refresh_key a c = refresh_key b c' \<longleftrightarrow> a = b \<and> c = c'"
  unfolding refresh_key_def using sep_key_inject by blast

lemma access_key_inject [key_simps]: "access_key t = access_key t' \<longleftrightarrow> t = t'"
  by (simp add: access_key_def)

text \<open>A generated token is letters and digits, so it has no colon.\<close>

lemma ascii_token_no_colon [key_simps]: "ascii_token n t \<Longrightarrow> CHR '':'' \<notin> set t"
  by (auto simp: ascii_token_def list_all_iff is_alnum_def)

section \<open>Keys of generated codes\<close>

text \<open>Claim C21. Two codes drawn by \<open>generate_authorization_code\<close> give the
  same Redis key only for the same client and the same code: the code is
  letters and digits, so the last \<open>:\<close> of the key separates client and code,
  whatever the client identifiers contain.\<close>

theorem generated_code_keys_inject:
  assumes "token_length \<le> length e" and "token_length \<le> length e'"
    and "code_key cid (fst (generate_authorization_code e)) = code_key cid' (fst (generate_authorization_code e'))"
  shows "cid = cid' \<and> fst (generate_authorization_code e) = fst (generate_authorization_code e')"
proof -
  have "CHR '':'' \<notin> set (fst (generate_authorization_code e))"
    and "CHR '':'' \<notin> set (fst (generate_authorization_code e'))"
    using random_ascii_string_token [OF assms(1)] random_ascii_string_token [OF assms(2)]
    by (simp_all add: generate_authorization_code_def ascii_token_no_colon)
  with assms(3) show ?thesis by (simp add: code_key_inject)
qed

theorem generated_code_keys_inject_witness:
  "token_length \<le> length [0..<40] \<and> token_length \<le> length [1..<41] \<and>
   code_key ''a:b'' (fst (generate_authorization_code [0..<40])) \<noteq>
     code_key ''a'' (fst (generate_authorization_code [1..<41]))"
proof -
  have l: "token_length \<le> length [0..<40]" "token_length \<le> length [1..<41]" by (simp_all add: token_length_def)
  have "fst (generate_authorization_code [0..<40]) \<noteq> fst (generate_authorization_code [1..<41])"
    by code_simp
  then show ?thesis using l generated_code_keys_inject [OF l(1) l(2)] by auto
qed

end
