(* ===== verification/Toro_Flows.thy ===== *)
theory Toro_Flows
  imports Toro_Provider
begin

text \<open>
  The operations of \<open>AuthorizationProvider\<close> run with the hooks of
  \<open>Toroauth2AuthorizationProvider\<close>: their effect on the Redis store, branch
  by branch, and the store invariant they keep.
\<close>

section \<open>Token issue\<close>

text \<open>The writes of \<open>persist_token_information\<close> for dict data: access key with
  the token lifetime, refresh key without expiry, both keys in the index of the
  data's user.\<close>

definition token_writes :: "string \<Rightarrow> string \<Rightarrow> string \<Rightarrow> json \<Rightarrow> store \<Rightarrow> store" where
  "token_writes cid at rt d st =
     r_sadd (client_user_key cid (py_str (py_get d ''user_id''))) [access_key at, refresh_key cid rt]
       (r_set (refresh_key cid rt) d (r_setex (access_key at) token_expires_in d st))"

text \<open>The store of the running example after its code was exchanged once.\<close>

definition demo_after_exchange :: store where
  "demo_after_exchange =
     token_writes ''app123'' ''AT1'' ''RT1'' (code_data ''app123'' ''read'')
       (r_delete (code_key ''app123'' ''C0DE'') demo_code_store)"

text \<open>A storage layer that follows the documented contract of
  \<open>from_authorization_code\<close> ("Return mixed data or None on invalid") by
  returning \<open>None\<close>, and whose persist succeeds.\<close>

definition null_grant_hooks :: "store oauth_hooks" where
  "null_grant_hooks =
     (toro_hooks demo_reg False)\<lparr>from_authorization_code := (\<lambda>_ _. ret None),
                                persist_token_information := (\<lambda>_ _ _ _ _ _. ret ())\<rparr>"

section \<open>Unfolding the hooks\<close>

lemma toro_hooks_sel [simp]:
  "validate_client_id (toro_hooks reg hr) = toro_validate_client_id reg"
  "validate_client_id_ret (toro_hooks reg hr) = toro_validate_client_id_ret"
  "validate_client_secret (toro_hooks reg hr) = toro_validate_client_secret"
  "validate_scope (toro_hooks reg hr) = toro_validate_scope reg"
  "from_authorization_code (toro_hooks reg hr) = toro_from_authorization_code"
  "from_refresh_token (toro_hooks reg hr) = toro_from_refresh_token hr"
  "persist_authorization_code (toro_hooks reg hr) = toro_persist_authorization_code"
  "persist_token_information (toro_hooks reg hr) = toro_persist_token_information"
  "discard_authorization_code (toro_hooks reg hr) = toro_discard_authorization_code"
  "discard_refresh_token (toro_hooks reg hr) = toro_discard_refresh_token hr"
  by (simp_all add: toro_hooks_def)

lemmas toro_hook_defs =
  toro_validate_client_id_def toro_validate_client_id_ret_def toro_validate_client_secret_def
  toro_validate_scope_def toro_from_authorization_code_def toro_from_refresh_token_def
  toro_persist_authorization_code_def toro_persist_token_information_def
  toro_discard_authorization_code_def toro_discard_refresh_token_def

section \<open>Token issue\<close>

lemma toro_persist_dict:
  "toro_persist_token_information cid at token_type token_expires_in rt (Some (JObj kvs)) st =
     (Inr (), token_writes cid at rt (JObj kvs) st)"
  by (simp add: toro_persist_token_information_def token_writes_def py_json_def)

lemma r_get_token_writes [store_simps]:
  "r_get k (token_writes cid at rt d st) =
     (if k = refresh_key cid rt then Some d
      else if k = access_key at then Some d else r_get k st)"
  by (simp add: token_writes_def store_simps token_expires_in_def)

lemma clock_token_writes [store_simps]: "clock (token_writes cid at rt d st) = clock st"
  by (simp add: token_writes_def store_simps)

section \<open>get_token\<close>

text \<open>An absent or expired code: \<open>TypeError\<close> before any write.\<close>

lemma toro_get_token_absent:
  "r_get (code_key cid code) st = None \<Longrightarrow>
   get_token (toro_hooks reg hr) gt cid cs ru code at rt st = (Inl TypeError, st)"
  by (simp add: get_token_def toro_from_authorization_code_def)

text \<open>A live code holding a dict: the code is deleted, the token pair written,
  and the token dict returned.\<close>

lemma toro_get_token_live:
  "r_get (code_key cid code) st = Some (JObj kvs) \<Longrightarrow>
   get_token (toro_hooks reg hr) gt cid cs ru code at rt st =
     (Inr (token_json at token_type token_expires_in rt),
      token_writes cid at rt (JObj kvs) (r_delete (code_key cid code) st))"
  by (simp add: get_token_def toro_from_authorization_code_def
      toro_discard_authorization_code_def toro_persist_dict)

text \<open>A live code holding anything else: the code is deleted and the two token
  keys written before \<open>data.get\<close> raises.\<close>

lemma toro_get_token_not_dict:
  "r_get (code_key cid code) st = Some d \<Longrightarrow> \<not> is_dict d \<Longrightarrow>
   get_token (toro_hooks reg hr) gt cid cs ru code at rt st =
     (Inl AttributeError,
      r_set (refresh_key cid rt) d (r_setex (access_key at) token_expires_in d (r_delete (code_key cid code) st)))"
  by (cases d) (simp_all add: get_token_def toro_from_authorization_code_def
      toro_discard_authorization_code_def toro_persist_token_information_def py_json_def)

text \<open>Every successful exchange consumed a live code and deleted it.\<close>

lemma toro_get_token_Inr:
  assumes "get_token (toro_hooks reg hr) gt cid cs ru code at rt st = (Inr r, st')"
  shows "\<exists>kvs. r_get (code_key cid code) st = Some (JObj kvs) \<and>
           r = token_json at token_type token_expires_in rt \<and>
           st' = token_writes cid at rt (JObj kvs) (r_delete (code_key cid code) st)"
proof (cases "r_get (code_key cid code) st")
  case None
  with assms show ?thesis by (simp add: toro_get_token_absent)
next
  case (Some d)
  show ?thesis
  proof (cases "is_dict d")
    case True
    then obtain kvs where "d = JObj kvs" by (cases d) auto
    with Some assms show ?thesis by (simp add: toro_get_token_live)
  next
    case False
    with Some assms show ?thesis by (simp add: toro_get_token_not_dict)
  qed
qed

section \<open>get_authorization_code\<close>

lemma toro_get_authorization_code_ok:
  "reg cid = Some a \<Longrightarrow>
   get_authorization_code (toro_hooks reg hr) ''code'' cid ru params code st =
     (Inr (build_url ru (code_redirect_params params code)),
      r_setex (code_key cid code) 60 (code_data cid (param_get params ''scope'' [])) st)"
  by (simp add: get_authorization_code_def toro_validate_client_id_def
      toro_persist_authorization_code_def)

lemma toro_get_authorization_code_unknown:
  "reg cid = None \<Longrightarrow>
   get_authorization_code (toro_hooks reg hr) ''code'' cid ru params code st = (Inl ClientNotFound, st)"
  by (simp add: get_authorization_code_def toro_validate_client_id_def)

lemma get_authorization_code_bad_type:
  "rt \<noteq> ''code'' \<Longrightarrow>
   get_authorization_code H rt cid ru params code st = (Inl (GenReturn Unsupported_response_type), st)"
  by (simp add: get_authorization_code_def)

lemma toro_get_authorization_code_Inr:
  assumes "get_authorization_code (toro_hooks reg hr) rty cid ru params code st = (Inr u, st1)"
  shows "rty = ''code'' \<and> reg cid \<noteq> None \<and> u = build_url ru (code_redirect_params params code) \<and>
         st1 = r_setex (code_key cid code) 60 (code_data cid (param_get params ''scope'' [])) st"
proof (cases "rty = ''code''")
  case False
  with assms show ?thesis by (simp add: get_authorization_code_bad_type)
next
  case True
  show ?thesis
  proof (cases "reg cid")
    case None
    with assms True show ?thesis by (simp add: toro_get_authorization_code_unknown)
  next
    case (Some a)
    with assms True show ?thesis by (simp add: toro_get_authorization_code_ok)
  qed
qed

lemma toro_refresh_reads:
  "\<exists>r. toro_validate_scope reg cid scope st = (r, st)"
  "\<exists>r. toro_from_refresh_token hr cid rtok scope st = (r, st)"
  by (auto simp: toro_validate_scope_def toro_from_refresh_token_def
      split: option.splits json.splits)

lemma demo_issue_url:
  "build_url ''https://client.example/cb'' (code_redirect_params [(''scope'', ''read'')] ''C0DE'')
     = ''https://client.example/cb?scope=read&code=C0DE''"
  by code_simp

section \<open>Single use of a code\<close>

lemma r_get_code_after_exchange [store_simps]:
  "r_get (code_key cid code) (token_writes cid at rt d (r_delete (code_key cid code) st)) = None"
  by (simp add: store_simps key_simps)

text \<open>Claim C1. Once a code has been exchanged for tokens, exchanging it again
  fails: \<open>from_authorization_code\<close> finds no data and raises \<open>TypeError\<close>
  before any write, so no second token pair is issued.\<close>

theorem get_token_single_use:
  assumes "get_token (toro_hooks reg hr) gt cid cs ru code at rt st = (Inr r, st')"
  shows "get_token (toro_hooks reg hr) gt' cid cs' ru' code at' rt' st' = (Inl TypeError, st')"
proof -
  from toro_get_token_Inr [OF assms] obtain kvs where
    st': "st' = token_writes cid at rt (JObj kvs) (r_delete (code_key cid code) st)" by blast
  then have "r_get (code_key cid code) st' = None" by (simp add: r_get_code_after_exchange)
  then show ?thesis by (rule toro_get_token_absent)
qed

theorem get_token_single_use_witness:
  "get_token (toro_hooks demo_reg False) ''authorization_code'' ''app123'' ''s3cr3t''
      ''https://client.example/cb'' ''C0DE'' ''AT1'' ''RT1'' demo_code_store
     = (Inr (token_json ''AT1'' token_type token_expires_in ''RT1''), demo_after_exchange) \<and>
   get_token (toro_hooks demo_reg False) ''authorization_code'' ''app123'' ''s3cr3t''
      ''https://client.example/cb'' ''C0DE'' ''AT2'' ''RT2'' demo_after_exchange
     = (Inl TypeError, demo_after_exchange)"
proof -
  have "r_get (code_key ''app123'' ''C0DE'') demo_code_store
          = Some (JObj [(''client_id'', JStr ''app123''), (''scope'', JStr ''read'')])"
    by (simp add: demo_code_store_def r_get_setex code_data_def)
  from toro_get_token_live [OF this]
  have first: "get_token (toro_hooks demo_reg False) ''authorization_code'' ''app123'' ''s3cr3t''
      ''https://client.example/cb'' ''C0DE'' ''AT1'' ''RT1'' demo_code_store
     = (Inr (token_json ''AT1'' token_type token_expires_in ''RT1''), demo_after_exchange)"
    by (simp add: demo_after_exchange_def code_data_def)
  show ?thesis using first get_token_single_use [OF first] by simp
qed

section \<open>Expiry of a code\<close>

text \<open>Claim C2. A code is stored for 60 seconds: once 60 seconds have passed
  since it was issued, exchanging it raises \<open>TypeError\<close> and writes nothing.\<close>

theorem code_expires_after_ttl:
  assumes "get_authorization_code (toro_hooks reg hr) rty cid ru params code st = (Inr u, st1)"
    and "60 \<le> n"
  shows "get_token (toro_hooks reg hr) gt cid cs ru' code at rt (r_tick n st1) = (Inl TypeError, r_tick n st1)"
proof -
  from toro_get_authorization_code_Inr [OF assms(1)]
  have "st1 = r_setex (code_key cid code) 60 (code_data cid (param_get params ''scope'' [])) st" by blast
  with assms(2) have "r_get (code_key cid code) (r_tick n st1) = None" by (simp add: r_get_setex_tick)
  then show ?thesis by (rule toro_get_token_absent)
qed

theorem code_expires_after_ttl_witness:
  "get_authorization_code (toro_hooks demo_reg False) ''code'' ''app123'' ''https://client.example/cb''
      [(''scope'', ''read'')] ''C0DE'' empty_store
     = (Inr ''https://client.example/cb?scope=read&code=C0DE'', demo_code_store) \<and>
   (60::nat) \<le> 60 \<and>
   get_token (toro_hooks demo_reg False) ''authorization_code'' ''app123'' ''s3cr3t''
      ''https://client.example/cb'' ''C0DE'' ''AT1'' ''RT1'' (r_tick 60 demo_code_store)
     = (Inl TypeError, r_tick 60 demo_code_store)"
proof -
  have iss: "get_authorization_code (toro_hooks demo_reg False) ''code'' ''app123'' ''https://client.example/cb''
      [(''scope'', ''read'')] ''C0DE'' empty_store
     = (Inr ''https://client.example/cb?scope=read&code=C0DE'', demo_code_store)"
    by (simp add: toro_get_authorization_code_ok demo_reg_def demo_code_store_def param_get_def
        demo_issue_url)
  show ?thesis using iss code_expires_after_ttl [OF iss, of 60] by simp
qed

text \<open>Claim C3. Within its 60 seconds a freshly issued code is exchanged: the
  code key is deleted, the access token is stored with the data
  \<open>{client_id, scope}\<close> for \<open>token_expires_in\<close> seconds, the refresh token
  without expiry, both in the client-user index, and the token dict returned.\<close>

theorem code_exchange_within_ttl:
  assumes "get_authorization_code (toro_hooks reg hr) rty cid ru params code st = (Inr u, st1)"
    and "n < 60"
  shows "get_token (toro_hooks reg hr) gt cid cs ru' code at rt (r_tick n st1) =
           (Inr (token_json at token_type token_expires_in rt),
            token_writes cid at rt (code_data cid (param_get params ''scope'' []))
              (r_delete (code_key cid code) (r_tick n st1)))"
proof -
  from toro_get_authorization_code_Inr [OF assms(1)]
  have "st1 = r_setex (code_key cid code) 60 (code_data cid (param_get params ''scope'' [])) st" by blast
  with assms(2) have "r_get (code_key cid code) (r_tick n st1) =
      Some (JObj [(''client_id'', JStr cid), (''scope'', JStr (param_get params ''scope'' []))])"
    by (simp add: r_get_setex_tick code_data_def)
  from toro_get_token_live [OF this] show ?thesis by (simp add: code_data_def)
qed

theorem code_exchange_within_ttl_witness:
  "get_authorization_code (toro_hooks demo_reg False) ''code'' ''app123'' ''https://client.example/cb''
      [(''scope'', ''read'')] ''C0DE'' empty_store
     = (Inr ''https://client.example/cb?scope=read&code=C0DE'', demo_code_store) \<and>
   (59::nat) < 60 \<and>
   get_token (toro_hooks demo_reg False) ''authorization_code'' ''app123'' ''s3cr3t''
      ''https://client.example/cb'' ''C0DE'' ''AT1'' ''RT1'' (r_tick 59 demo_code_store)
     = (Inr (token_json ''AT1'' token_type token_expires_in ''RT1''),
        token_writes ''app123'' ''AT1'' ''RT1'' (code_data ''app123'' ''read'')
          (r_delete (code_key ''app123'' ''C0DE'') (r_tick 59 demo_code_store)))"
proof -
  have iss: "get_authorization_code (toro_hooks demo_reg False) ''code'' ''app123'' ''https://client.example/cb''
      [(''scope'', ''read'')] ''C0DE'' empty_store
     = (Inr ''https://client.example/cb?scope=read&code=C0DE'', demo_code_store)"
    by (simp add: toro_get_authorization_code_ok demo_reg_def demo_code_store_def param_get_def
        demo_issue_url)
  show ?thesis using iss code_exchange_within_ttl [OF iss, of 59] by (simp add: param_get_def)
qed

text \<open>Claim C18. The redirect of a granted code carries the code back to the
  client: parsing its query gives the query of the client's redirect URI,
  overridden by the extra parameters, with \<open>code\<close> set to the issued code and
  \<open>response_type\<close>, \<open>client_id\<close> and \<open>redirect_uri\<close> removed.\<close>

theorem redirect_carries_code:
  assumes "get_authorization_code H rty cid ru params code st = (Inr u, st')"
    and "distinct (map fst params)"
  shows "map_of (url_query_params u) =
           (map_of (url_query_params ru) ++ map_of params)(''code'' \<mapsto> code, ''response_type'' := None,
              ''client_id'' := None, ''redirect_uri'' := None)"
proof
  fix k
  show "map_of (url_query_params u) k =
         ((map_of (url_query_params ru) ++ map_of params)(''code'' \<mapsto> code, ''response_type'' := None,
              ''client_id'' := None, ''redirect_uri'' := None)) k"
    using get_authorization_code_Inr_url [OF assms(1)] map_of_code_redirect_params [OF assms(2), of code]
    by (simp add: map_of_url_query_params_build_url code_redirect_params_None map_add_def opt_str_def
        option.map_comp comp_def option.map_ident
        split: option.splits)
qed

theorem redirect_carries_code_witness:
  "get_authorization_code (toro_hooks demo_reg False) ''code'' ''app123'' ''https://client.example/cb?state=1''
      [(''scope'', ''read'')] ''C0DE'' empty_store =
     (Inr ''https://client.example/cb?state=1&scope=read&code=C0DE'',
      snd (get_authorization_code (toro_hooks demo_reg False) ''code'' ''app123'' ''https://client.example/cb?state=1''
        [(''scope'', ''read'')] ''C0DE'' empty_store)) \<and>
   distinct (map fst [(''scope'', ''read'')]) \<and>
   map_of (url_query_params ''https://client.example/cb?state=1&scope=read&code=C0DE'') ''code'' = Some ''C0DE'' \<and>
   map_of (url_query_params ''https://client.example/cb?state=1&scope=read&code=C0DE'') ''state'' = Some ''1''"
proof -
  let ?r = "get_authorization_code (toro_hooks demo_reg False) ''code'' ''app123'' ''https://client.example/cb?state=1''
      [(''scope'', ''read'')] ''C0DE'' empty_store"
  have f: "fst ?r = Inr ''https://client.example/cb?state=1&scope=read&code=C0DE''" by code_simp
  have r: "?r = (Inr ''https://client.example/cb?state=1&scope=read&code=C0DE'', snd ?r)"
    using f by (metis prod.collapse)
  have d: "distinct (map fst [(''scope'', ''read'')])" by simp
  have q: "map_of (url_query_params ''https://client.example/cb?state=1'') ''state'' = Some ''1''" by code_simp
  show ?thesis
    using r d q redirect_carries_code [OF r d] by (simp add: fun_eq_iff)
qed

text \<open>Claim C22. The code of a token request is not checked for \<open>:\<close>: a
  client whose identifier is a prefix \<open>p\<close> of another client's \<open>p:q\<close> redeems
  that client's code \<open>c\<close> by presenting the code \<open>q:c\<close>, since both requests
  read the same key.\<close>

theorem code_key_cross_client:
  assumes "r_get (code_key (p @ CHR '':'' # q) c) st = Some (JObj kvs)"
  shows "\<exists>st'. get_token (toro_hooks reg hr) gt p cs ru (q @ CHR '':'' # c) at rt st =
           (Inr (token_json at token_type token_expires_in rt), st') \<and>
         r_get (code_key (p @ CHR '':'' # q) c) st' = None"
proof -
  have k: "code_key p (q @ CHR '':'' # c) = code_key (p @ CHR '':'' # q) c" by (simp add: code_key_def)
  show ?thesis using toro_get_token_live [of p "q @ CHR '':'' # c" st kvs] assms
    by (simp add: k store_simps key_simps)
qed

theorem code_key_cross_client_witness:
  "r_get (code_key ''app:123'' ''C0DE'') (r_setex (code_key ''app:123'' ''C0DE'') 60 (code_data ''app:123'' ''read'') empty_store)
     = Some (JObj [(''client_id'', JStr ''app:123''), (''scope'', JStr ''read'')]) \<and>
   (\<exists>st'. get_token (toro_hooks demo_reg False) ''authorization_code'' ''app'' ''x'' ''https://evil.example/''
      ''123:C0DE'' ''AT9'' ''RT9''
      (r_setex (code_key ''app:123'' ''C0DE'') 60 (code_data ''app:123'' ''read'') empty_store) =
      (Inr (token_json ''AT9'' token_type token_expires_in ''RT9''), st') \<and>
      r_get (code_key ''app:123'' ''C0DE'') st' = None)"
proof -
  have r: "r_get (code_key (''app'' @ CHR '':'' # ''123'') ''C0DE'')
      (r_setex (code_key ''app:123'' ''C0DE'') 60 (code_data ''app:123'' ''read'') empty_store)
     = Some (JObj [(''client_id'', JStr ''app:123''), (''scope'', JStr ''read'')])"
    by (simp add: store_simps code_data_def)
  show ?thesis using r code_key_cross_client [OF r, where reg = demo_reg and hr = False and
      gt = "''authorization_code''" and cs = "''x''" and ru = "''https://evil.example/''" and at = "''AT9''" and rt = "''RT9''"]
    by simp
qed

section \<open>Checks the engine does not make\<close>

text \<open>Claim C4. \<open>AuthorizationProvider.get_token\<close> never answers
  \<open>invalid_grant\<close>: when the storage layer reports an unknown code by returning
  \<open>None\<close>, as its documented contract says, the code is still discarded and a
  token pair is persisted and returned.\<close>

theorem get_token_ignores_invalid_grant:
  assumes "from_authorization_code H cid code st = (Inr None, st1)"
    and "discard_authorization_code H cid code st1 = (Inr (), st2)"
    and "persist_token_information H cid at token_type token_expires_in rt None st2 = (Inr (), st3)"
  shows "get_token H gt cid cs ru code at rt st = (Inr (token_json at token_type token_expires_in rt), st3)"
  using assms by (simp add: get_token_def)

theorem get_token_ignores_invalid_grant_witness:
  "get_token null_grant_hooks ''authorization_code'' ''app123'' ''s3cr3t'' ''https://client.example/cb''
      ''BOGUS'' ''AT1'' ''RT1'' empty_store
     = (Inr (token_json ''AT1'' token_type token_expires_in ''RT1''),
        r_delete (code_key ''app123'' ''BOGUS'') empty_store)"
  by (rule get_token_ignores_invalid_grant)
     (simp_all add: null_grant_hooks_def toro_discard_authorization_code_def)

text \<open>Claim C5. For a registered client, \<open>get_authorization_code\<close> issues and
  stores a code even when the redirect URI (without its query) differs from
  the registered one and the requested scope differs from the registered
  scope: the comparisons of lines 243--253 end in \<open>pass\<close>.\<close>

theorem authorization_code_ignores_redirect_and_scope:
  assumes "reg cid = Some a"
    and "split_first CHR ''?'' ru \<noteq> app_redirect_uri a"
    and "param_get params ''scope'' [] \<noteq> app_scope a"
  shows "get_authorization_code (toro_hooks reg hr) ''code'' cid ru params code st =
           (Inr (build_url ru (code_redirect_params params code)),
            r_setex (code_key cid code) 60 (code_data cid (param_get params ''scope'' [])) st)"
  using assms(1) by (rule toro_get_authorization_code_ok)

theorem authorization_code_ignores_redirect_and_scope_witness:
  "demo_reg ''app123'' = Some demo_app \<and>
   split_first CHR ''?'' ''https://evil.example/cb'' \<noteq> app_redirect_uri demo_app \<and>
   param_get [(''scope'', ''admin'')] ''scope'' [] \<noteq> app_scope demo_app \<and>
   get_authorization_code (toro_hooks demo_reg False) ''code'' ''app123'' ''https://evil.example/cb''
      [(''scope'', ''admin'')] ''C0DE'' empty_store =
     (Inr (build_url ''https://evil.example/cb'' (code_redirect_params [(''scope'', ''admin'')] ''C0DE'')),
      r_setex (code_key ''app123'' ''C0DE'') 60 (code_data ''app123'' ''admin'') empty_store)"
proof -
  have h1: "demo_reg ''app123'' = Some demo_app" by (simp add: demo_reg_def)
  have h2: "split_first CHR ''?'' ''https://evil.example/cb'' \<noteq> app_redirect_uri demo_app"
    by (simp add: split_first_def demo_app_def)
  have h3: "param_get [(''scope'', ''admin'')] ''scope'' [] \<noteq> app_scope demo_app"
    by (simp add: param_get_def demo_app_def)
  show ?thesis
    using h1 h2 h3
      authorization_code_ignores_redirect_and_scope
        [where reg = demo_reg and cid = "''app123''" and a = demo_app
           and ru = "''https://evil.example/cb''" and params = "[(''scope'', ''admin'')]"
           and hr = False and code = "''C0DE''" and st = empty_store, OF h1 h2 h3]
    by (simp add: param_get_def)
qed

text \<open>Claim C6. With the repository's hooks, \<open>refresh_token\<close> never issues a
  token: \<open>validate_client_id\<close> is a coroutine, so the direct call returns
  \<open>None\<close>; every call that returns answers \<open>unsupported_grant_type\<close> or
  \<open>invalid_client\<close> and leaves the store unchanged.\<close>

theorem toro_refresh_token_never_issues:
  assumes "refresh_token (toro_hooks reg hr) gt cid cs rtok params at rt st = (Inr resp, st')"
  shows "st' = st \<and>
         (resp = make_json_error_response ''unsupported_grant_type'' \<or>
          resp = make_json_error_response ''invalid_client'')"
proof (cases "gt = ''refresh_token''")
  case False
  with assms show ?thesis by (simp add: refresh_token_def)
next
  case True
  let ?scope = "param_get params ''scope'' []"
  obtain r1 where s1: "toro_validate_scope reg cid ?scope st = (r1, st)"
    using toro_refresh_reads(1) by blast
  obtain r2 where s2: "toro_from_refresh_token hr cid rtok ?scope st = (r2, st)"
    using toro_refresh_reads(2) by blast
  show ?thesis
    using assms True s1 s2
    by (cases r1; cases r2)
       (simp_all add: refresh_token_def toro_validate_client_id_ret_def
         toro_validate_client_secret_def Let_def)
qed

theorem toro_refresh_token_never_issues_witness:
  "refresh_token (toro_hooks demo_reg True) ''refresh_token'' ''app123'' ''s3cr3t'' ''RT1''
      [(''scope'', ''read'')] ''AT2'' ''RT2'' demo_after_exchange
     = (Inr (make_json_error_response ''invalid_client''), demo_after_exchange) \<and>
   demo_after_exchange = demo_after_exchange \<and>
   (make_json_error_response ''invalid_client'' = make_json_error_response ''unsupported_grant_type'' \<or>
    make_json_error_response ''invalid_client'' = make_json_error_response ''invalid_client'')"
proof -
  have h: "refresh_token (toro_hooks demo_reg True) ''refresh_token'' ''app123'' ''s3cr3t'' ''RT1''
      [(''scope'', ''read'')] ''AT2'' ''RT2'' demo_after_exchange
     = (Inr (make_json_error_response ''invalid_client''), demo_after_exchange)"
    by (simp add: refresh_token_def toro_hook_defs Let_def param_get_def demo_reg_def demo_app_def
        demo_after_exchange_def store_simps code_data_def)
  from h toro_refresh_token_never_issues [OF h] show ?thesis by simp
qed

end
