(* ===== verification/Token_Race.thy ===== *)
theory Token_Race
  imports Toro_Flows "HOL-Library.Multiset"
begin

text \<open>
  Concurrent code exchanges. \<open>get_token\<close> and the hooks it calls are
  \<open>gen.engine\<close> coroutines: each Redis command is sent, then the flow suspends
  until the reply, and other flows run in between. Redis executes each command
  atomically. A flow of \<open>get_token\<close> on the repository's hooks is the sequence
  of its commands: \<open>GET\<close> of the code key (\<open>from_authorization_code\<close>),
  \<open>DEL\<close> of the code key (\<open>discard_authorization_code\<close>), then \<open>SETEX\<close>,
  \<open>SET\<close> and \<open>SADD\<close> (\<open>persist_token_information\<close>). \<open>xpc\<close> says which
  command a suspended flow sends next.

  The system is a store, a multiset of flows, and the set of code keys issued
  so far. Its steps: one command of one flow; the issue of a fresh code
  (the repository's \<open>persist_authorization_code\<close> hook, one \<open>SETEX\<close>; the
  generator is assumed never to repeat a key); the arrival of a new exchange request; time passing.

  \<open>atomic\<close> selects the read of the code: \<open>False\<close> is the source, a \<open>GET\<close>
  followed later by an unconditional \<open>DEL\<close>; \<open>True\<close> is the atomic take
  (\<open>GET\<close> and \<open>DEL\<close> in one command) that spec section 5 requires.
\<close>

datatype xpc =
    XRead
  | XDelete json
  | XSetAccess json
  | XSetRefresh json
  | XIndex json
  | XDone
  | XFailed exc

record xflow =
  x_cid :: string
  x_code :: string
  x_at :: string
  x_rt :: string
  x_pc :: xpc

definition new_flow :: "string \<Rightarrow> string \<Rightarrow> string \<Rightarrow> string \<Rightarrow> xflow" where
  "new_flow cid code at rt = \<lparr>x_cid = cid, x_code = code, x_at = at, x_rt = rt, x_pc = XRead\<rparr>"

definition xkey :: "xflow \<Rightarrow> string" where
  "xkey f = code_key (x_cid f) (x_code f)"

text \<open>One command of a flow; \<open>None\<close> when the flow has ended.\<close>

fun xstep :: "bool \<Rightarrow> xflow \<Rightarrow> store \<Rightarrow> (xflow \<times> store) option" where
  "xstep atomic f st =
     (case x_pc f of
        XRead \<Rightarrow>
          (case r_get (xkey f) st of
             None \<Rightarrow> Some (f\<lparr>x_pc := XFailed TypeError\<rparr>, st)
           | Some d \<Rightarrow>
               if atomic then Some (f\<lparr>x_pc := XSetAccess d\<rparr>, r_delete (xkey f) st)
               else Some (f\<lparr>x_pc := XDelete d\<rparr>, st))
      | XDelete d \<Rightarrow> Some (f\<lparr>x_pc := XSetAccess d\<rparr>, r_delete (xkey f) st)
      | XSetAccess d \<Rightarrow>
          Some (f\<lparr>x_pc := XSetRefresh d\<rparr>, r_setex (access_key (x_at f)) token_expires_in d st)
      | XSetRefresh d \<Rightarrow>
          Some (f\<lparr>x_pc := XIndex d\<rparr>, r_set (refresh_key (x_cid f) (x_rt f)) d st)
      | XIndex d \<Rightarrow>
          (case d of
             JObj kvs \<Rightarrow>
               Some (f\<lparr>x_pc := XDone\<rparr>,
                     r_sadd (client_user_key (x_cid f) (py_str (map_of kvs ''user_id'')))
                       [access_key (x_at f), refresh_key (x_cid f) (x_rt f)] st)
           | _ \<Rightarrow> Some (f\<lparr>x_pc := XFailed AttributeError\<rparr>, st))
      | XDone \<Rightarrow> None
      | XFailed e \<Rightarrow> None)"

text \<open>A flow run alone for \<open>n\<close> commands.\<close>

fun xrun :: "bool \<Rightarrow> nat \<Rightarrow> xflow \<Rightarrow> store \<Rightarrow> xflow \<times> store" where
  "xrun atomic 0 f st = (f, st)"
| "xrun atomic (Suc n) f st =
     (case xstep atomic f st of None \<Rightarrow> (f, st) | Some (f', st') \<Rightarrow> xrun atomic n f' st')"

text \<open>What the callback of a finished flow receives.\<close>

definition flow_result :: "xflow \<Rightarrow> exc + json" where
  "flow_result f =
     (case x_pc f of
        XDone \<Rightarrow> Inr (token_json (x_at f) token_type token_expires_in (x_rt f))
      | XFailed e \<Rightarrow> Inl e
      | _ \<Rightarrow> Inl TypeError)"

record sys =
  sys_store :: store
  sys_flows :: "xflow multiset"
  sys_issued :: "string set"

definition sys0 :: sys where
  "sys0 = \<lparr>sys_store = empty_store, sys_flows = {#}, sys_issued = {}\<rparr>"

inductive sys_step :: "bool \<Rightarrow> sys \<Rightarrow> sys \<Rightarrow> bool" for atomic where
  run: "xstep atomic f st = Some (f', st') \<Longrightarrow>
        sys_step atomic \<lparr>sys_store = st, sys_flows = add_mset f F, sys_issued = I\<rparr>
                        \<lparr>sys_store = st', sys_flows = add_mset f' F, sys_issued = I\<rparr>"
| issue: "code_key cid c \<notin> I \<Longrightarrow> toro_persist_authorization_code cid c scope st = (Inr (), st') \<Longrightarrow>
        sys_step atomic \<lparr>sys_store = st, sys_flows = F, sys_issued = I\<rparr>
          \<lparr>sys_store = st', sys_flows = F, sys_issued = insert (code_key cid c) I\<rparr>"
| request: "sys_step atomic \<lparr>sys_store = st, sys_flows = F, sys_issued = I\<rparr>
        \<lparr>sys_store = st, sys_flows = add_mset (new_flow cid c at rt) F, sys_issued = I\<rparr>"
| tick: "sys_step atomic \<lparr>sys_store = st, sys_flows = F, sys_issued = I\<rparr>
        \<lparr>sys_store = r_tick n st, sys_flows = F, sys_issued = I\<rparr>"

inductive sys_reach :: "bool \<Rightarrow> sys \<Rightarrow> bool" for atomic where
  init: "sys_reach atomic sys0"
| step: "sys_reach atomic s \<Longrightarrow> sys_step atomic s s' \<Longrightarrow> sys_reach atomic s'"

text \<open>A schedule: the indices of the flows that send their next command, in
  order. It makes an interleaving an explicit, executable sequence of steps.\<close>

fun run_sched :: "bool \<Rightarrow> nat list \<Rightarrow> store \<Rightarrow> xflow list \<Rightarrow> store \<times> xflow list" where
  "run_sched atomic [] st fs = (st, fs)"
| "run_sched atomic (i # is) st fs =
     (if i < length fs then
        (case xstep atomic (fs ! i) st of
           None \<Rightarrow> (st, fs)
         | Some (f', st') \<Rightarrow> run_sched atomic is st' (fs[i := f']))
      else (st, fs))"

text \<open>Bookkeeping of the single-use invariant: a flow has taken its code once it
  is past the read; a code key is present while the store holds an entry for
  it, expired or not.\<close>

fun taken :: "xpc \<Rightarrow> bool" where
  "taken XRead = False"
| "taken (XFailed e) = False"
| "taken _ = True"

definition is_code_key :: "string \<Rightarrow> bool" where
  "is_code_key k \<longleftrightarrow> take 26 k = ''oauth2.authorization_code.''"

definition n_taken :: "string \<Rightarrow> xflow multiset \<Rightarrow> nat" where
  "n_taken k F = size (filter_mset (\<lambda>f. xkey f = k \<and> taken (x_pc f)) F)"

definition n_done :: "string \<Rightarrow> xflow multiset \<Rightarrow> nat" where
  "n_done k F = size (filter_mset (\<lambda>f. xkey f = k \<and> x_pc f = XDone) F)"

definition present :: "string \<Rightarrow> store \<Rightarrow> nat" where
  "present k st = (if kv st k = None then 0 else 1)"

definition single_use_inv :: "sys \<Rightarrow> bool" where
  "single_use_inv s \<longleftrightarrow>
     (\<forall>k. is_code_key k \<longrightarrow>
        n_taken k (sys_flows s) + present k (sys_store s) \<le> (if k \<in> sys_issued s then 1 else 0))"

definition tk :: "string \<Rightarrow> xflow \<Rightarrow> nat" where
  "tk k f = (if xkey f = k \<and> taken (x_pc f) then 1 else 0)"

section \<open>The race of the running example\<close>

text \<open>Two exchange requests for the one code of the running example, with
  different generated tokens; the schedule lets each read the code before
  either deletes it, then runs both to the end.\<close>

definition race_flows :: "xflow list" where
  "race_flows = [new_flow ''app123'' ''C0DE'' ''AT1'' ''RT1'', new_flow ''app123'' ''C0DE'' ''AT2'' ''RT2'']"

definition race_start :: sys where
  "race_start = \<lparr>sys_store = demo_code_store, sys_flows = mset race_flows,
                 sys_issued = {code_key ''app123'' ''C0DE''}\<rparr>"

definition race_sched :: "nat list" where
  "race_sched = [0, 1, 0, 1, 0, 0, 0, 1, 1, 1]"

text \<open>The state a schedule reaches from \<open>race_start\<close>.\<close>

definition race_end :: "bool \<Rightarrow> sys" where
  "race_end a = (case run_sched a race_sched demo_code_store race_flows of (st, fs) \<Rightarrow>
     \<lparr>sys_store = st, sys_flows = mset fs, sys_issued = {code_key ''app123'' ''C0DE''}\<rparr>)"

section \<open>Bookkeeping\<close>

lemma is_code_key_simps [key_simps]:
  "is_code_key (code_key c x)"
  "\<not> is_code_key (access_key a)"
  "\<not> is_code_key (refresh_key c r)"
  by (simp_all add: is_code_key_def code_key_def access_key_def refresh_key_def)

lemma xkey_is_code_key [key_simps]: "is_code_key (xkey f)"
  by (simp add: xkey_def key_simps)

lemma present_writes [store_simps]:
  "present k (r_setex k' t v st) = (if k = k' then 1 else present k st)"
  "present k (r_set k' v st) = (if k = k' then 1 else present k st)"
  "present k (r_delete k' st) = (if k = k' then 0 else present k st)"
  "present k (r_sadd k' ms st) = present k st"
  "present k (r_tick n st) = present k st"
  by (simp_all add: present_def r_setex_def r_set_def r_delete_def r_sadd_def r_tick_def)

lemma r_get_present: "r_get k st = Some d \<Longrightarrow> present k st = 1"
  by (cases "kv st k") (auto simp: present_def r_get_def)

lemma present_le_1: "present k st \<le> 1"
  by (simp add: present_def)

lemma n_taken_add [simp]: "n_taken k (add_mset f F) = tk k f + n_taken k F"
  by (simp add: n_taken_def tk_def)

lemma n_taken_empty [simp]: "n_taken k {#} = 0"
  by (simp add: n_taken_def)

lemma xkey_upd [simp]: "xkey (f\<lparr>x_pc := p\<rparr>) = xkey f"
  by (simp add: xkey_def)

lemma code_key_not_token_key [key_simps]:
  "is_code_key k \<Longrightarrow> k \<noteq> access_key a"
  "is_code_key k \<Longrightarrow> k \<noteq> refresh_key c r"
  using is_code_key_simps(2,3) by auto

section \<open>Commands under the atomic take\<close>

lemma xstep_True_shapes:
  assumes "xstep True f st = Some (f', st')"
  shows "(x_pc f = XRead \<and> r_get (xkey f) st = None \<and> f' = f\<lparr>x_pc := XFailed TypeError\<rparr> \<and> st' = st)
       \<or> (\<exists>d. x_pc f = XRead \<and> r_get (xkey f) st = Some d \<and> f' = f\<lparr>x_pc := XSetAccess d\<rparr>
              \<and> st' = r_delete (xkey f) st)
       \<or> (\<exists>d. x_pc f = XDelete d \<and> f' = f\<lparr>x_pc := XSetAccess d\<rparr> \<and> st' = r_delete (xkey f) st)
       \<or> (\<exists>d. x_pc f = XSetAccess d \<and> f' = f\<lparr>x_pc := XSetRefresh d\<rparr>
              \<and> st' = r_setex (access_key (x_at f)) token_expires_in d st)
       \<or> (\<exists>d. x_pc f = XSetRefresh d \<and> f' = f\<lparr>x_pc := XIndex d\<rparr>
              \<and> st' = r_set (refresh_key (x_cid f) (x_rt f)) d st)
       \<or> (\<exists>d ks. x_pc f = XIndex d \<and> f' = f\<lparr>x_pc := XDone\<rparr> \<and> st' = r_sadd ks [access_key (x_at f), refresh_key (x_cid f) (x_rt f)] st)
       \<or> (\<exists>d. x_pc f = XIndex d \<and> f' = f\<lparr>x_pc := XFailed AttributeError\<rparr> \<and> st' = st)"
  using assms by (auto split: xpc.splits option.splits json.splits)

text \<open>Under the atomic take, no command raises the count of flows that hold a
  code plus the presence of the code's entry.\<close>

lemma xstep_atomic_potential:
  assumes "xstep True f st = Some (f', st')" and "is_code_key k"
  shows "tk k f' + present k st' \<le> tk k f + present k st"
  using xstep_True_shapes [OF assms(1)]
proof (elim disjE exE conjE)
  fix d assume "x_pc f = XRead" "r_get (xkey f) st = Some d" "f' = f\<lparr>x_pc := XSetAccess d\<rparr>"
    "st' = r_delete (xkey f) st"
  moreover have "present (xkey f) st = 1" using \<open>r_get (xkey f) st = Some d\<close> by (rule r_get_present)
  ultimately show ?thesis by (simp add: tk_def present_writes)
qed (use assms(2) in \<open>simp_all add: tk_def present_writes key_simps present_le_1\<close>)

section \<open>The single-use invariant\<close>

lemma single_use_inv_sys0: "single_use_inv sys0"
  by (simp add: single_use_inv_def sys0_def present_def empty_store_def)

lemma single_use_invD:
  "single_use_inv s \<Longrightarrow> is_code_key k \<Longrightarrow>
   n_taken k (sys_flows s) + present k (sys_store s) \<le> (if k \<in> sys_issued s then 1 else 0)"
  by (simp add: single_use_inv_def)

lemma single_use_inv_run:
  assumes step: "xstep True f st = Some (f', st')"
    and inv: "single_use_inv \<lparr>sys_store = st, sys_flows = add_mset f F, sys_issued = I\<rparr>"
  shows "single_use_inv \<lparr>sys_store = st', sys_flows = add_mset f' F, sys_issued = I\<rparr>"
  unfolding single_use_inv_def
proof (intro allI impI)
  fix k assume k: "is_code_key k"
  have pot: "tk k f' + present k st' \<le> tk k f + present k st"
    using step k by (rule xstep_atomic_potential)
  have old: "tk k f + n_taken k F + present k st \<le> (if k \<in> I then 1 else 0)"
    using single_use_invD [OF inv k] by simp
  from pot old show "n_taken k (sys_flows \<lparr>sys_store = st', sys_flows = add_mset f' F, sys_issued = I\<rparr>)
      + present k (sys_store \<lparr>sys_store = st', sys_flows = add_mset f' F, sys_issued = I\<rparr>)
      \<le> (if k \<in> sys_issued \<lparr>sys_store = st', sys_flows = add_mset f' F, sys_issued = I\<rparr> then 1 else 0)"
    by simp
qed

lemma persist_code_store:
  "toro_persist_authorization_code cid c scope st = (Inr (), st') \<Longrightarrow>
   st' = r_setex (code_key cid c) 60 (code_data cid scope) st"
  by (simp add: toro_persist_authorization_code_def)

lemma single_use_inv_issue:
  assumes fresh: "code_key cid c \<notin> I"
    and inv: "single_use_inv \<lparr>sys_store = st, sys_flows = F, sys_issued = I\<rparr>"
  shows "single_use_inv \<lparr>sys_store = r_setex (code_key cid c) 60 (code_data cid scope) st, sys_flows = F,
                          sys_issued = insert (code_key cid c) I\<rparr>"
  unfolding single_use_inv_def
proof (intro allI impI)
  fix k assume k: "is_code_key k"
  have old: "n_taken k F + present k st \<le> (if k \<in> I then 1 else 0)"
    using single_use_invD [OF inv k] by simp
  show "n_taken k (sys_flows \<lparr>sys_store = r_setex (code_key cid c) 60 (code_data cid scope) st, sys_flows = F,
                          sys_issued = insert (code_key cid c) I\<rparr>)
      + present k (sys_store \<lparr>sys_store = r_setex (code_key cid c) 60 (code_data cid scope) st, sys_flows = F,
                          sys_issued = insert (code_key cid c) I\<rparr>)
      \<le> (if k \<in> sys_issued \<lparr>sys_store = r_setex (code_key cid c) 60 (code_data cid scope) st, sys_flows = F,
                          sys_issued = insert (code_key cid c) I\<rparr> then 1 else 0)"
  proof (cases "k = code_key cid c")
    case True
    with old fresh show ?thesis by (simp add: present_writes)
  next
    case False
    with old show ?thesis by (simp add: present_writes)
  qed
qed

lemma single_use_inv_step:
  assumes "sys_step True s s'" and "single_use_inv s"
  shows "single_use_inv s'"
  using assms
proof (induction rule: sys_step.induct)
  case (run f st f' st' F I)
  then show ?case by (rule single_use_inv_run)
next
  case (issue cid c I scope st st' F)
  then show ?case using persist_code_store [OF issue(2)] by (simp add: single_use_inv_issue)
next
  case (request st F I cid c at rt)
  then show ?case by (simp add: single_use_inv_def tk_def new_flow_def)
next
  case (tick st F I n)
  then show ?case by (simp add: single_use_inv_def present_writes)
qed

lemma sys_reach_single_use_inv: "sys_reach True s \<Longrightarrow> single_use_inv s"
proof (induction rule: sys_reach.induct)
  case init
  show ?case by (rule single_use_inv_sys0)
next
  case (step s s')
  then show ?case using single_use_inv_step by blast
qed

lemma n_done_le_n_taken: "n_done k F \<le> n_taken k F"
  unfolding n_done_def n_taken_def by (induction F) auto

lemma n_done_not_code_key: "\<not> is_code_key k \<Longrightarrow> n_done k F = 0"
  unfolding n_done_def by (induction F) (auto simp: key_simps)

section \<open>Schedules are runs of the system\<close>

lemma sys_step_run_at:
  assumes "i < length fs" and "xstep a (fs ! i) st = Some (f', st')"
  shows "sys_step a \<lparr>sys_store = st, sys_flows = mset fs, sys_issued = I\<rparr>
                    \<lparr>sys_store = st', sys_flows = mset (fs[i := f']), sys_issued = I\<rparr>"
proof -
  have "fs ! i \<in># mset fs" using assms(1) by simp
  then have m: "mset fs = add_mset (fs ! i) (mset fs - {#fs ! i#})" by (simp add: insert_DiffM)
  have u: "mset (fs[i := f']) = add_mset f' (mset fs - {#fs ! i#})" using assms(1) by (rule mset_update)
  show ?thesis unfolding u by (subst m) (rule sys_step.run [OF assms(2)])
qed

lemma run_sched_reach:
  "sys_reach a \<lparr>sys_store = st, sys_flows = mset fs, sys_issued = I\<rparr> \<Longrightarrow>
   run_sched a is st fs = (st', fs') \<Longrightarrow>
   sys_reach a \<lparr>sys_store = st', sys_flows = mset fs', sys_issued = I\<rparr>"
proof (induction a "is" st fs rule: run_sched.induct)
  case (1 a st fs)
  then show ?case by simp
next
  case (2 a i "is" st fs)
  show ?case
  proof (cases "i < length fs")
    case True
    show ?thesis
    proof (cases "xstep a (fs ! i) st")
      case None
      with True 2 show ?thesis by simp
    next
      case (Some r)
      obtain f' st1 where r: "r = (f', st1)" by (cases r)
      have "sys_reach a \<lparr>sys_store = st1, sys_flows = mset (fs[i := f']), sys_issued = I\<rparr>"
        using 2(2) sys_step_run_at [OF True Some [unfolded r]] by (rule sys_reach.step)
      with 2 True Some r show ?thesis by simp
    qed
  next
    case False
    with 2 show ?thesis by simp
  qed
qed

lemma race_start_reach: "sys_reach a race_start"
proof -
  let ?s1 = "\<lparr>sys_store = demo_code_store, sys_flows = {#}, sys_issued = {code_key ''app123'' ''C0DE''}\<rparr>"
  have "sys_step a sys0 ?s1"
    unfolding sys0_def using sys_step.issue [of "''app123''" "''C0DE''" "{}" "''read''" empty_store demo_code_store]
    by (simp add: toro_persist_authorization_code_def demo_code_store_def)
  then have r1: "sys_reach a ?s1" by (rule sys_reach.step [OF sys_reach.init])
  have "sys_reach a \<lparr>sys_store = demo_code_store, sys_flows = add_mset (new_flow ''app123'' ''C0DE'' ''AT1'' ''RT1'') {#},
      sys_issued = {code_key ''app123'' ''C0DE''}\<rparr>"
    by (rule sys_reach.step [OF r1 sys_step.request])
  then have "sys_reach a \<lparr>sys_store = demo_code_store,
      sys_flows = add_mset (new_flow ''app123'' ''C0DE'' ''AT2'' ''RT2'') (add_mset (new_flow ''app123'' ''C0DE'' ''AT1'' ''RT1'') {#}),
      sys_issued = {code_key ''app123'' ''C0DE''}\<rparr>"
    by (rule sys_reach.step [OF _ sys_step.request])
  then show ?thesis by (simp add: race_start_def race_flows_def add_mset_commute)
qed

lemma race_end_reach: "sys_reach a (race_end a)"
proof -
  obtain st fs where r: "run_sched a race_sched demo_code_store race_flows = (st, fs)"
    by (cases "run_sched a race_sched demo_code_store race_flows")
  show ?thesis
    using run_sched_reach [OF race_start_reach [unfolded race_start_def] r] by (simp add: race_end_def r)
qed

lemma race_run_flows:
  "snd (run_sched False race_sched demo_code_store race_flows) =
     [(new_flow ''app123'' ''C0DE'' ''AT1'' ''RT1'')\<lparr>x_pc := XDone\<rparr>,
      (new_flow ''app123'' ''C0DE'' ''AT2'' ''RT2'')\<lparr>x_pc := XDone\<rparr>]"
  by code_simp

lemma race_run_store:
  "r_get (access_key ''AT1'') (fst (run_sched False race_sched demo_code_store race_flows)) =
     Some (code_data ''app123'' ''read'')"
  "r_get (access_key ''AT2'') (fst (run_sched False race_sched demo_code_store race_flows)) =
     Some (code_data ''app123'' ''read'')"
  by code_simp+

section \<open>Properties\<close>

text \<open>Claim C7. With the atomic take that spec section 5 requires, in every
  reachable state of any number of interleaved exchanges, at most one exchange
  of a given code has completed and issued tokens.\<close>

theorem atomic_take_single_use:
  assumes "sys_reach True s"
  shows "n_done k (sys_flows s) \<le> 1"
proof (cases "is_code_key k")
  case True
  have "n_taken k (sys_flows s) + present k (sys_store s) \<le> (if k \<in> sys_issued s then 1 else 0)"
    using single_use_invD [OF sys_reach_single_use_inv [OF assms] True] .
  then have "n_taken k (sys_flows s) \<le> 1" by (simp split: if_splits)
  with n_done_le_n_taken [of k "sys_flows s"] show ?thesis by simp
next
  case False
  then show ?thesis by (simp add: n_done_not_code_key)
qed


theorem atomic_take_single_use_witness:
  "sys_reach True (race_end True) \<and>
   n_done (code_key ''app123'' ''C0DE'') (sys_flows (race_end True)) \<le> 1"
  using atomic_take_single_use [OF race_end_reach [of True]] race_end_reach [of True] by simp

text \<open>Claim C8. The source's \<open>GET\<close> followed by a separate \<open>DEL\<close> is not
  atomic: two concurrent exchanges of the running example's code both read it
  before either deletes it, both complete, and both access tokens are live.\<close>

theorem race_double_issue:
  "\<exists>s. sys_reach False s \<and> n_done (code_key ''app123'' ''C0DE'') (sys_flows s) = 2 \<and>
       r_get (access_key ''AT1'') (sys_store s) \<noteq> None \<and> r_get (access_key ''AT2'') (sys_store s) \<noteq> None"
proof -
  obtain st fs where r: "run_sched False race_sched demo_code_store race_flows = (st, fs)"
    by (cases "run_sched False race_sched demo_code_store race_flows")
  have e: "race_end False = \<lparr>sys_store = st, sys_flows = mset fs, sys_issued = {code_key ''app123'' ''C0DE''}\<rparr>"
    by (simp add: race_end_def r)
  have "n_done (code_key ''app123'' ''C0DE'') (mset fs) = 2"
    using race_run_flows r by (simp add: n_done_def new_flow_def xkey_def)
  moreover have "r_get (access_key ''AT1'') st \<noteq> None" "r_get (access_key ''AT2'') st \<noteq> None"
    using race_run_store r by simp_all
  ultimately show ?thesis using race_end_reach [of False] unfolding e by auto
qed


text \<open>The command-level flow is \<open>get_token\<close>: run alone from any store, with
  either read, it ends with the same result and the same store as
  \<open>get_token\<close> on the repository's hooks.\<close>

lemma xrun_get_token:
  "(case xrun a 5 (new_flow cid code at rt) st of (f, st') \<Rightarrow> (flow_result f, st')) =
   get_token (toro_hooks reg hr) gt cid cs ru code at rt st"
proof (cases "r_get (code_key cid code) st")
  case None
  then show ?thesis
    by (simp add: toro_get_token_absent eval_nat_numeral new_flow_def xkey_def flow_result_def)
next
  case (Some d)
  show ?thesis
  proof (cases "is_dict d")
    case True
    then obtain kvs where d: "d = JObj kvs" by (cases d) auto
    from Some show ?thesis
      by (cases a) (simp_all add: d toro_get_token_live eval_nat_numeral new_flow_def xkey_def
          flow_result_def token_writes_def)
  next
    case False
    with Some show ?thesis
      by (cases a; cases d) (simp_all add: toro_get_token_not_dict eval_nat_numeral new_flow_def
          xkey_def flow_result_def)
  qed
qed

end
