(* ===== verification/Resource_Provider.thy ===== *)
theory Resource_Provider
  imports Toro_Provider
begin

text \<open>
  \<open>ResourceProvider\<close>, \<open>ResourceAuthorization\<close> and \<open>OAuthError\<close> of
  \<open>src/toroauth2/provider.py\<close> (lines 569--631). A resource request carries an
  \<open>Authorization\<close> header; \<open>get_authorization\<close> parses the bearer scheme
  with \<open>str.split()\<close> and hands the token to \<open>validate_access_token\<close>, which
  fills in the authorization object it is given. Both are abstract methods:
  here the fields of a record \<open>'s resource_hooks\<close> over the request's state.
  The repository has no subclass of \<open>ResourceProvider\<close>; the Redis
  validation of spec section 4.2 over the access keys that
  \<open>persist_token_information\<close> writes is given as \<open>redis_resource_hooks\<close>.
\<close>

text \<open>The attributes of \<open>ResourceAuthorization\<close> (class defaults in
  \<open>new_authorization\<close>); \<open>is_valid\<close> starts as \<open>None\<close>.\<close>

record resource_authorization =
  ra_is_oauth :: bool
  ra_is_valid :: "bool option"
  ra_token :: "string option"
  ra_client_id :: "string option"
  ra_expires_in :: "nat option"
  ra_error :: "string option"

definition new_authorization :: resource_authorization where
  "new_authorization = \<lparr>ra_is_oauth = False, ra_is_valid = None, ra_token = None,
     ra_client_id = None, ra_expires_in = None, ra_error = None\<rparr>"

text \<open>\<open>OAuthError(reason)\<close>, an \<open>Unauthorized\<close> carrying the reason.\<close>

datatype oauth_exception = OAuthError "string option"

text \<open>\<open>raise_error_if_invalid\<close>: \<open>not self.is_valid\<close> holds for \<open>None\<close> and
  \<open>False\<close>.\<close>

definition raise_error_if_invalid :: "resource_authorization \<Rightarrow> oauth_exception + unit" where
  "raise_error_if_invalid a = (if ra_is_valid a = Some True then Inr () else Inl (OAuthError (ra_error a)))"

record 's resource_hooks =
  get_authorization_header :: "'s \<Rightarrow> string option"
  validate_access_token :: "string \<Rightarrow> resource_authorization \<Rightarrow> 's \<Rightarrow> resource_authorization"

text \<open>\<open>get_authorization\<close> (lines 611--624). \<open>not header.split\<close> is false for
  every string (a bound method is truthy), so only a missing or empty header
  returns the default object. Any header of two or more words whose first is
  \<open>Bearer\<close> is validated with its second word.\<close>

definition get_authorization :: "'s resource_hooks \<Rightarrow> 's \<Rightarrow> resource_authorization" where
  "get_authorization R s =
     (case get_authorization_header R s of
        None \<Rightarrow> new_authorization
      | Some h \<Rightarrow>
          if h = [] then new_authorization
          else
            (let ws = py_split h in
             if 1 < length ws \<and> ws ! 0 = ''Bearer'' then
               (let auth = validate_access_token R (ws ! 1) (new_authorization\<lparr>ra_is_oauth := True\<rparr>) s in
                if ra_is_valid auth \<noteq> Some True then auth\<lparr>ra_error := Some ''access_denied''\<rparr> else auth)
             else new_authorization))"

text \<open>The validation of spec section 4.2 over the Redis store: a live access
  key marks the authorization valid with the stored client and the seconds the
  token has left; a missing or expired one marks it invalid.\<close>

definition redis_validate_access_token ::
  "string \<Rightarrow> resource_authorization \<Rightarrow> store \<Rightarrow> resource_authorization" where
  "redis_validate_access_token at auth st =
     (case r_get (access_key at) st of
        None \<Rightarrow> auth\<lparr>ra_is_valid := Some False\<rparr>
      | Some d \<Rightarrow>
          auth\<lparr>ra_is_valid := Some True, ra_token := Some at,
               ra_client_id := (case py_get d ''client_id'' of Some (JStr c) \<Rightarrow> Some c | _ \<Rightarrow> None),
               ra_expires_in := r_ttl (access_key at) st\<rparr>)"

text \<open>A request: its \<open>Authorization\<close> header and the store it is checked
  against.\<close>

definition redis_resource_hooks :: "(string option \<times> store) resource_hooks" where
  "redis_resource_hooks =
     \<lparr>get_authorization_header = fst,
      validate_access_token = (\<lambda>at auth s. redis_validate_access_token at auth (snd s))\<rparr>"

text \<open>A store holding one live access token of the running example.\<close>

definition demo_access_store :: store where
  "demo_access_store = r_setex (access_key ''AT1'') token_expires_in (code_data ''app123'' ''read'') empty_store"

section \<open>Parsing the header\<close>

lemma py_split_Nil [simp]: "py_split [] = []"
  by (simp add: py_split_def)

lemma get_authorization_bearer:
  assumes "get_authorization_header R s = Some h" and "py_split h = ''Bearer'' # at # rest"
  shows "get_authorization R s =
           (let a = validate_access_token R at (new_authorization\<lparr>ra_is_oauth := True\<rparr>) s in
            if ra_is_valid a \<noteq> Some True then a\<lparr>ra_error := Some ''access_denied''\<rparr> else a)"
proof -
  have "h \<noteq> []" using assms(2) by auto
  with assms show ?thesis by (simp add: get_authorization_def Let_def)
qed

lemma get_authorization_other:
  assumes "get_authorization_header R s = Some h"
    and "\<not> (1 < length (py_split h) \<and> py_split h ! 0 = ''Bearer'')"
  shows "get_authorization R s = new_authorization"
  using assms by (auto simp: get_authorization_def Let_def)

lemma bearer_shape:
  assumes "1 < length ws" and "ws ! 0 = ''Bearer''"
  obtains at rest where "ws = ''Bearer'' # at # rest"
  using assms by (cases ws; cases "tl ws") auto

lemma new_authorization_denied [simp]:
  "raise_error_if_invalid new_authorization = Inl (OAuthError None)"
  by (simp add: raise_error_if_invalid_def new_authorization_def)

text \<open>A generated token is one word.\<close>

lemma is_alnum_not_ws: "is_alnum c \<Longrightarrow> \<not> is_ws c"
  by (auto simp: is_alnum_def is_ws_def Let_def)

lemma py_split_bearer:
  assumes "ascii_token n at" and "0 < n"
  shows "py_split (''Bearer '' @ at) = [''Bearer'', at]"
proof -
  have w: "list_all (\<lambda>c. \<not> is_ws c) at" and ne: "at \<noteq> []"
    using assms by (auto simp: ascii_token_def list_all_iff is_alnum_not_ws)
  show ?thesis unfolding py_split_def by (simp add: is_ws_def split_ws_word [OF w] ne)
qed

text \<open>The Redis validation, per outcome of the read.\<close>

lemma redis_bearer_live:
  assumes "py_split h = ''Bearer'' # at # rest" and "r_get (access_key at) st = Some d"
  shows "get_authorization redis_resource_hooks (Some h, st) =
           new_authorization\<lparr>ra_is_oauth := True, ra_is_valid := Some True, ra_token := Some at,
             ra_client_id := (case py_get d ''client_id'' of Some (JStr c) \<Rightarrow> Some c | _ \<Rightarrow> None),
             ra_expires_in := r_ttl (access_key at) st\<rparr>"
  using get_authorization_bearer [of redis_resource_hooks "(Some h, st)", OF _ assms(1)] assms(2)
  by (simp add: redis_resource_hooks_def redis_validate_access_token_def)

lemma redis_bearer_dead:
  assumes "py_split h = ''Bearer'' # at # rest" and "r_get (access_key at) st = None"
  shows "get_authorization redis_resource_hooks (Some h, st) =
           new_authorization\<lparr>ra_is_oauth := True, ra_is_valid := Some False,
             ra_error := Some ''access_denied''\<rparr>"
  using get_authorization_bearer [of redis_resource_hooks "(Some h, st)", OF _ assms(1)] assms(2)
  by (simp add: redis_resource_hooks_def redis_validate_access_token_def)

section \<open>Properties\<close>

text \<open>Claim C9. A resource request passes \<open>raise_error_if_invalid\<close> only
  when its header is a bearer header whose token has a live access key in the
  store.\<close>

theorem resource_access_requires_live_token:
  assumes "raise_error_if_invalid (get_authorization redis_resource_hooks (hdr, st)) = Inr ()"
  shows "\<exists>h at rest d. hdr = Some h \<and> py_split h = ''Bearer'' # at # rest \<and> r_get (access_key at) st = Some d"
proof (cases hdr)
  case None
  with assms show ?thesis by (simp add: get_authorization_def redis_resource_hooks_def)
next
  case (Some h)
  show ?thesis
  proof (cases "1 < length (py_split h) \<and> py_split h ! 0 = ''Bearer''")
    case True
    then obtain at rest where ws: "py_split h = ''Bearer'' # at # rest" by (blast elim: bearer_shape)
    show ?thesis
    proof (cases "r_get (access_key at) st")
      case None
      with assms Some ws show ?thesis by (simp add: redis_bearer_dead raise_error_if_invalid_def)
    next
      case (Some d)
      with \<open>hdr = Some h\<close> ws show ?thesis by blast
    qed
  next
    case False
    with assms Some show ?thesis
      by (simp add: get_authorization_other redis_resource_hooks_def)
  qed
qed

theorem resource_access_requires_live_token_witness:
  "raise_error_if_invalid (get_authorization redis_resource_hooks (Some ''Bearer AT1'', demo_access_store)) = Inr () \<and>
   (\<exists>h at rest d. Some ''Bearer AT1'' = Some h \<and> py_split h = ''Bearer'' # at # rest \<and>
      r_get (access_key at) demo_access_store = Some d)"
proof -
  have ws: "py_split ''Bearer AT1'' = ''Bearer'' # ''AT1'' # []" by (simp add: py_split_def is_ws_def)
  have "r_get (access_key ''AT1'') demo_access_store = Some (code_data ''app123'' ''read'')"
    by (simp add: demo_access_store_def store_simps token_expires_in_def)
  from redis_bearer_live [OF ws this]
  have ok: "raise_error_if_invalid (get_authorization redis_resource_hooks (Some ''Bearer AT1'', demo_access_store)) = Inr ()"
    by (simp add: raise_error_if_invalid_def new_authorization_def)
  show ?thesis using ok resource_access_requires_live_token [OF ok] by simp
qed

text \<open>Claim C10. A bearer token without a live access key (never issued,
  revoked, or past its lifetime) is marked as OAuth, invalid, with the reason
  \<open>access_denied\<close>, which \<open>raise_error_if_invalid\<close> raises.\<close>

theorem resource_denied_access_denied:
  assumes "py_split h = ''Bearer'' # at # rest" and "r_get (access_key at) st = None"
  shows "ra_is_oauth (get_authorization redis_resource_hooks (Some h, st)) \<and>
         raise_error_if_invalid (get_authorization redis_resource_hooks (Some h, st)) =
           Inl (OAuthError (Some ''access_denied''))"
  using redis_bearer_dead [OF assms] by (simp add: raise_error_if_invalid_def new_authorization_def)

theorem resource_denied_access_denied_witness:
  "py_split ''Bearer AT1'' = ''Bearer'' # ''AT1'' # [] \<and>
   r_get (access_key ''AT1'') (r_tick 3600 demo_access_store) = None \<and>
   ra_is_oauth (get_authorization redis_resource_hooks (Some ''Bearer AT1'', r_tick 3600 demo_access_store)) \<and>
   raise_error_if_invalid (get_authorization redis_resource_hooks (Some ''Bearer AT1'', r_tick 3600 demo_access_store)) =
     Inl (OAuthError (Some ''access_denied''))"
proof -
  have ws: "py_split ''Bearer AT1'' = ''Bearer'' # ''AT1'' # []" by (simp add: py_split_def is_ws_def)
  have r: "r_get (access_key ''AT1'') (r_tick 3600 demo_access_store) = None"
    by (simp add: demo_access_store_def r_get_setex_tick token_expires_in_def)
  show ?thesis using ws r resource_denied_access_denied [OF ws r] by simp
qed

text \<open>Claim C11. A request without an \<open>Authorization\<close> header, or with one
  that is not a bearer header of at least two words, is left unauthenticated:
  the default authorization object, with no error reason, for any
  validation.\<close>

theorem resource_unauthenticated:
  assumes "get_authorization_header R s = None \<or>
           (\<exists>h. get_authorization_header R s = Some h \<and>
                \<not> (1 < length (py_split h) \<and> py_split h ! 0 = ''Bearer''))"
  shows "get_authorization R s = new_authorization \<and>
         raise_error_if_invalid (get_authorization R s) = Inl (OAuthError None)"
  using assms
proof
  assume "get_authorization_header R s = None"
  then show ?thesis by (simp add: get_authorization_def)
next
  assume "\<exists>h. get_authorization_header R s = Some h \<and> \<not> (1 < length (py_split h) \<and> py_split h ! 0 = ''Bearer'')"
  then obtain h where "get_authorization_header R s = Some h"
    and "\<not> (1 < length (py_split h) \<and> py_split h ! 0 = ''Bearer'')" by blast
  then show ?thesis by (simp add: get_authorization_other)
qed

theorem resource_unauthenticated_witness:
  "get_authorization redis_resource_hooks (Some ''Basic YWxhZGRpbg=='', demo_access_store) = new_authorization \<and>
   raise_error_if_invalid (get_authorization redis_resource_hooks (Some ''Basic YWxhZGRpbg=='', demo_access_store)) =
     Inl (OAuthError None)"
proof -
  have "py_split ''Basic YWxhZGRpbg=='' = [''Basic'', ''YWxhZGRpbg=='']" by (simp add: py_split_def is_ws_def)
  then have "get_authorization_header redis_resource_hooks (Some ''Basic YWxhZGRpbg=='', demo_access_store) = None \<or>
      (\<exists>h. get_authorization_header redis_resource_hooks (Some ''Basic YWxhZGRpbg=='', demo_access_store) = Some h \<and>
         \<not> (1 < length (py_split h) \<and> py_split h ! 0 = ''Bearer''))"
    by (simp add: redis_resource_hooks_def)
  from resource_unauthenticated [OF this] show ?thesis .
qed

end
