(* ===== verification/Flow_Progress.thy ===== *)
theory Flow_Progress
  imports Token_Race Resource_Provider
begin

text \<open>
  Invariants of the reachable states of the server model of \<open>Token_Race\<close>,
  whose codes are issued by the repository's \<open>persist_authorization_code\<close>
  hook and consumed by the command-level \<open>get_token\<close>, with either read:
  every code entry holds a dict, so no exchange fails in \<open>data.get\<close>; and no
  key lives longer than \<open>token_expires_in\<close> seconds, which bounds the
  \<open>expires_in\<close> a resource request reports.
\<close>

text \<open>The data a suspended flow carries.\<close>

fun pc_data_dict :: "xpc \<Rightarrow> bool" where
  "pc_data_dict (XDelete d) = is_dict d"
| "pc_data_dict (XSetAccess d) = is_dict d"
| "pc_data_dict (XSetRefresh d) = is_dict d"
| "pc_data_dict (XIndex d) = is_dict d"
| "pc_data_dict _ = True"

definition dict_inv :: "sys \<Rightarrow> bool" where
  "dict_inv s \<longleftrightarrow>
     (\<forall>k v e. is_code_key k \<longrightarrow> kv (sys_store s) k = Some (v, e) \<longrightarrow> is_dict v) \<and>
     (\<forall>f \<in># sys_flows s. pc_data_dict (x_pc f) \<and> x_pc f \<noteq> XFailed AttributeError)"

definition ttl_inv :: "sys \<Rightarrow> bool" where
  "ttl_inv s \<longleftrightarrow> (\<forall>k n. r_ttl k (sys_store s) = Some n \<longrightarrow> n \<le> token_expires_in)"

section \<open>Commands\<close>

lemma xstep_shapes:
  assumes "xstep a f st = Some (f', st')"
  shows "(x_pc f = XRead \<and> r_get (xkey f) st = None \<and> f' = f\<lparr>x_pc := XFailed TypeError\<rparr> \<and> st' = st)
       \<or> (\<exists>d. x_pc f = XRead \<and> a \<and> r_get (xkey f) st = Some d \<and> f' = f\<lparr>x_pc := XSetAccess d\<rparr>
              \<and> st' = r_delete (xkey f) st)
       \<or> (\<exists>d. x_pc f = XRead \<and> \<not> a \<and> r_get (xkey f) st = Some d \<and> f' = f\<lparr>x_pc := XDelete d\<rparr> \<and> st' = st)
       \<or> (\<exists>d. x_pc f = XDelete d \<and> f' = f\<lparr>x_pc := XSetAccess d\<rparr> \<and> st' = r_delete (xkey f) st)
       \<or> (\<exists>d. x_pc f = XSetAccess d \<and> f' = f\<lparr>x_pc := XSetRefresh d\<rparr>
              \<and> st' = r_setex (access_key (x_at f)) token_expires_in d st)
       \<or> (\<exists>d. x_pc f = XSetRefresh d \<and> f' = f\<lparr>x_pc := XIndex d\<rparr>
              \<and> st' = r_set (refresh_key (x_cid f) (x_rt f)) d st)
       \<or> (\<exists>kvs ks. x_pc f = XIndex (JObj kvs) \<and> f' = f\<lparr>x_pc := XDone\<rparr>
              \<and> st' = r_sadd ks [access_key (x_at f), refresh_key (x_cid f) (x_rt f)] st)
       \<or> (\<exists>d. x_pc f = XIndex d \<and> \<not> is_dict d \<and> f' = f\<lparr>x_pc := XFailed AttributeError\<rparr> \<and> st' = st)"
  using assms by (auto split: xpc.splits option.splits json.splits if_splits)

section \<open>Invariants of the reachable states\<close>

lemma ttl_inv_sys0: "ttl_inv sys0"
  by (simp add: ttl_inv_def sys0_def empty_store_def r_ttl_def)

lemma ttl_inv_step:
  assumes "sys_step a s s'" and "ttl_inv s"
  shows "ttl_inv s'"
  using assms
proof (induction rule: sys_step.induct)
  case (run f st f' st' F I)
  show ?case
    using xstep_shapes [OF run(1)] run(2)
    by (elim disjE exE conjE) (auto simp: ttl_inv_def store_simps)
next
  case (issue cid c I scope st st' F)
  then show ?case using persist_code_store [OF issue(2)] by (auto simp: ttl_inv_def store_simps token_expires_in_def)
next
  case (request st F I cid c at rt)
  then show ?case by (simp add: ttl_inv_def)
next
  case (tick st F I n)
  then show ?case by (fastforce simp: ttl_inv_def dest!: r_ttl_tick)
qed

lemma sys_reach_ttl_inv: "sys_reach a s \<Longrightarrow> ttl_inv s"
  by (induction rule: sys_reach.induct) (auto simp: ttl_inv_sys0 intro: ttl_inv_step)

lemma dict_inv_sys0: "dict_inv sys0"
  by (simp add: dict_inv_def sys0_def empty_store_def)

lemma dict_inv_run:
  assumes x: "xstep a f st = Some (f', st')"
    and inv: "dict_inv \<lparr>sys_store = st, sys_flows = add_mset f F, sys_issued = I\<rparr>"
  shows "dict_inv \<lparr>sys_store = st', sys_flows = add_mset f' F, sys_issued = I\<rparr>"
proof -
  have codes: "\<And>k v e. is_code_key k \<Longrightarrow> kv st k = Some (v, e) \<Longrightarrow> is_dict v"
    and rest: "\<forall>g \<in># F. pc_data_dict (x_pc g) \<and> x_pc g \<noteq> XFailed AttributeError"
    and here: "pc_data_dict (x_pc f)"
    using inv by (auto simp: dict_inv_def)
  have read: "is_dict d" if "r_get (xkey f) st = Some d" for d
    using r_get_kv [OF that] codes xkey_is_code_key by blast
  show ?thesis
    using xstep_shapes [OF x] here rest read codes
    by (elim disjE exE conjE) (auto simp: dict_inv_def kv_writes key_simps)
qed

lemma dict_inv_step:
  assumes "sys_step a s s'" and "dict_inv s"
  shows "dict_inv s'"
  using assms
proof (induction rule: sys_step.induct)
  case (run f st f' st' F I)
  then show ?case by (rule dict_inv_run)
next
  case (issue cid c I scope st st' F)
  then show ?case using persist_code_store [OF issue(2)] by (auto simp: dict_inv_def kv_writes code_data_def)
next
  case (request st F I cid c at rt)
  then show ?case by (simp add: dict_inv_def new_flow_def)
next
  case (tick st F I n)
  then show ?case by (simp add: dict_inv_def kv_writes)
qed

lemma sys_reach_dict_inv: "sys_reach a s \<Longrightarrow> dict_inv s"
  by (induction rule: sys_reach.induct) (auto simp: dict_inv_sys0 intro: dict_inv_step)

lemma get_authorization_expires_in:
  "ra_expires_in (get_authorization redis_resource_hooks (hdr, st)) = None \<or>
   (\<exists>at. ra_expires_in (get_authorization redis_resource_hooks (hdr, st)) = r_ttl (access_key at) st)"
proof (cases hdr)
  case None
  then show ?thesis by (simp add: get_authorization_def redis_resource_hooks_def new_authorization_def)
next
  case (Some h)
  show ?thesis
  proof (cases "1 < length (py_split h) \<and> py_split h ! 0 = ''Bearer''")
    case True
    then obtain at rest where ws: "py_split h = ''Bearer'' # at # rest" by (blast elim: bearer_shape)
    show ?thesis
      using Some redis_bearer_live [OF ws, of st] redis_bearer_dead [OF ws, of st]
      by (cases "r_get (access_key at) st") (auto simp: new_authorization_def)
  next
    case False
    with Some show ?thesis
      by (simp add: get_authorization_other redis_resource_hooks_def new_authorization_def)
  qed
qed

section \<open>Properties\<close>

text \<open>Claim C19. Type invariant of the reachable states, with either read:
  every code entry holds a dict and so does the data every suspended flow
  carries; hence no exchange ever fails with \<open>AttributeError\<close> in
  \<open>data.get('user_id')\<close>.\<close>

theorem no_attribute_error:
  assumes "sys_reach a s" and "f \<in># sys_flows s"
  shows "x_pc f \<noteq> XFailed AttributeError"
  using sys_reach_dict_inv [OF assms(1)] assms(2) by (auto simp: dict_inv_def)

theorem no_attribute_error_witness:
  "sys_reach False (race_end False) \<and>
   (new_flow ''app123'' ''C0DE'' ''AT1'' ''RT1'')\<lparr>x_pc := XDone\<rparr> \<in># sys_flows (race_end False) \<and>
   x_pc ((new_flow ''app123'' ''C0DE'' ''AT1'' ''RT1'')\<lparr>x_pc := XDone\<rparr>) \<noteq> XFailed AttributeError"
proof -
  have m: "(new_flow ''app123'' ''C0DE'' ''AT1'' ''RT1'')\<lparr>x_pc := XDone\<rparr> \<in># sys_flows (race_end False)"
  proof -
    obtain st fs where r: "run_sched False race_sched demo_code_store race_flows = (st, fs)"
      by (cases "run_sched False race_sched demo_code_store race_flows")
    then show ?thesis using race_run_flows by (simp add: race_end_def)
  qed
  show ?thesis using race_end_reach [of False] m no_attribute_error [OF race_end_reach m] by simp
qed

text \<open>Claim C20. Bound on the reported lifetime: in every reachable state,
  the \<open>expires_in\<close> that \<open>get_authorization\<close> reports for a bearer token is at
  most \<open>token_expires_in\<close> seconds.\<close>

theorem expires_in_bounded:
  assumes "sys_reach a s"
    and "ra_expires_in (get_authorization redis_resource_hooks (hdr, sys_store s)) = Some n"
  shows "n \<le> token_expires_in"
  using get_authorization_expires_in [of hdr "sys_store s"] assms(2) sys_reach_ttl_inv [OF assms(1)]
  by (auto simp: ttl_inv_def)

theorem expires_in_bounded_witness:
  "sys_reach False (race_end False) \<and>
   ra_expires_in (get_authorization redis_resource_hooks (Some ''Bearer AT1'', sys_store (race_end False))) = Some 3600 \<and>
   3600 \<le> token_expires_in"
proof -
  have e: "ra_expires_in (get_authorization redis_resource_hooks (Some ''Bearer AT1'', sys_store (race_end False))) =
      Some 3600" by code_simp
  show ?thesis using race_end_reach [of False] e expires_in_bounded [OF race_end_reach e] by simp
qed

end
