(* ===== verification/Server_Handlers.thy ===== *)
theory Server_Handlers
  imports Toro_Flows
begin

text \<open>
  The HTTP layer of \<open>src/provider_server.py\<close>: the handlers \<open>AuthHandler.get\<close>
  and \<open>TokenHandler.post\<close>, which create a \<open>Toroauth2AuthorizationProvider\<close>
  and call its adapters through \<open>gen.Task\<close>, \<open>DevicesHandler.get\<close>, and
  the routing table of \<open>tornado.web.Application\<close>. The handlers are
  \<open>@asynchronous\<close>: the response is sent when the handler redirects or
  calls \<open>finish\<close>; if the adapter never calls back, the handler never resumes
  and the client gets no response at all; an exception that reaches the
  handler ends the request with Tornado's 500 page.
\<close>

text \<open>What the client receives.\<close>

datatype http_response =
    Redirect string
  | JsonBody json
  | TextBody string
  | ServerError
  | NoResponse
  | NotFound
  | MethodNotAllowed

text \<open>A request: the method, the raw URI (\<open>self.request.uri\<close>, path and query)
  and Tornado's \<open>request.arguments\<close>, every name with the list of its values.\<close>

record http_request =
  req_method :: string
  req_uri :: string
  req_arguments :: "(string \<times> string list) list"

text \<open>Python truth of the value passed to the callback.\<close>

fun json_truthy :: "json \<Rightarrow> bool" where
  "json_truthy JNull = False"
| "json_truthy (JBool b) = b"
| "json_truthy (JInt i) = (i \<noteq> 0)"
| "json_truthy (JStr s) = (s \<noteq> [])"
| "json_truthy (JObj kvs) = (kvs \<noteq> [])"

text \<open>\<open>AuthHandler.get\<close> (lines 11--22). The adapter's callback receives the
  dict \<open>{'redirect_uri': u}\<close>, which is never empty, so the handler always
  takes the redirect branch; the model keeps \<open>u\<close> itself.\<close>

definition auth_handler_get ::
  "registry \<Rightarrow> bool \<Rightarrow> string \<Rightarrow> string \<Rightarrow> store \<Rightarrow> http_response \<times> store" where
  "auth_handler_get reg has_r uri code st =
     (case get_authorization_code_from_uri (toro_hooks reg has_r) uri code st of
        (Inr u, st') \<Rightarrow> (Redirect u, st')
      | (Inl e, st') \<Rightarrow> (ServerError, st'))"

text \<open>\<open>{k: self.request.arguments[k][0] for k in ...}\<close> (line 32): the first
  value of every argument; an empty list would raise \<open>IndexError\<close>.\<close>

definition first_args :: "(string \<times> string list) list \<Rightarrow> (string \<times> string) list option" where
  "first_args args =
     (if list_all (\<lambda>(k, vs). vs \<noteq> []) args then Some (map (\<lambda>(k, vs). (k, hd vs)) args) else None)"

text \<open>\<open>TokenHandler.post\<close> (lines 26--39). \<open>self.write\<close> without \<open>finish\<close>
  on an asynchronous handler leaves the response open: the client never gets
  it.\<close>

definition token_handler_post ::
  "registry \<Rightarrow> bool \<Rightarrow> (string \<times> string list) list \<Rightarrow> string \<Rightarrow> string \<Rightarrow> store \<Rightarrow>
   http_response \<times> store" where
  "token_handler_post reg has_r args at rt st =
     (case first_args args of
        None \<Rightarrow> (ServerError, st)
      | Some data \<Rightarrow>
          (case get_token_from_post_data (toro_hooks reg has_r) data at rt st of
             (Inr (Reply r), st') \<Rightarrow> (if json_truthy r then JsonBody r else NoResponse, st')
           | (Inr NoReply, st') \<Rightarrow> (NoResponse, st')
           | (Inl e, st') \<Rightarrow> (ServerError, st')))"

text \<open>The routing table (lines 45--49): Tornado matches the whole path
  (\<open>request.path\<close>, the URI before \<open>?\<close>); a handler without a method for the
  request answers 405, an unknown path 404. The generated code and tokens of the
  request are arguments.\<close>

definition serve ::
  "registry \<Rightarrow> bool \<Rightarrow> http_request \<Rightarrow> string \<Rightarrow> string \<Rightarrow> string \<Rightarrow> store \<Rightarrow> http_response \<times> store" where
  "serve reg has_r req code at rt st =
     (let path = split_first CHR ''?'' (req_uri req) in
      if path = ''/oauth/auth'' then
        (if req_method req = ''GET'' then auth_handler_get reg has_r (req_uri req) code st
         else (MethodNotAllowed, st))
      else if path = ''/oauth/token'' then
        (if req_method req = ''POST'' then token_handler_post reg has_r (req_arguments req) at rt st
         else (MethodNotAllowed, st))
      else if path = ''/devices'' then
        (if req_method req = ''GET'' then (TextBody ''devices'', st) else (MethodNotAllowed, st))
      else (NotFound, st))"

text \<open>The server handling requests one after another, each request with the
  code and the token pair its handler would generate.\<close>

fun serve_seq ::
  "registry \<Rightarrow> bool \<Rightarrow> (http_request \<times> string \<times> string \<times> string) list \<Rightarrow> store \<Rightarrow>
   http_response list \<times> store" where
  "serve_seq reg has_r [] st = ([], st)"
| "serve_seq reg has_r ((req, code, at, rt) # rs) st =
     (case serve reg has_r req code at rt st of
        (resp, st') \<Rightarrow> (case serve_seq reg has_r rs st' of (resps, st'') \<Rightarrow> (resp # resps, st'')))"

section \<open>Adapters under the handlers\<close>

lemma map_of_extra_args:
  "k \<notin> set names \<Longrightarrow> map_of (extra_args names d) k = map_of d k"
  by (induction d) (auto simp: extra_args_def)

lemma param_get_extra_args:
  "k \<notin> set names \<Longrightarrow> param_get (extra_args names d) k dflt = param_get d k dflt"
  by (simp add: param_get_def map_of_extra_args)

lemma get_authorization_code_from_uri_Inr:
  assumes "get_authorization_code_from_uri H uri code st = (Inr u, st')"
  shows "get_authorization_code H (arg (url_query_params uri) ''response_type'') (arg (url_query_params uri) ''client_id'')
           (arg (url_query_params uri) ''redirect_uri'')
           (extra_args [''response_type'', ''client_id'', ''redirect_uri''] (url_query_params uri)) code st = (Inr u, st')"
  using assms by (simp add: get_authorization_code_from_uri_def Let_def split: if_splits)

lemma auth_handler_get_Redirect:
  assumes "auth_handler_get reg hr uri code st = (Redirect u, st')"
  shows "get_authorization_code_from_uri (toro_hooks reg hr) uri code st = (Inr u, st')"
  using assms by (auto simp: auth_handler_get_def split: prod.splits sum.splits)

lemma token_post_data_missing:
  assumes "\<not> (has_param data ''grant_type'' \<and> has_param data ''client_id'' \<and> has_param data ''client_secret'' \<and>
              has_param data ''redirect_uri'' \<and> has_param data ''code'')"
  shows "get_token_from_post_data H data at rt st = (Inr NoReply, st)"
  using assms by (auto simp: get_token_from_post_data_def ret_apply)

section \<open>Properties\<close>

text \<open>Claim C13. \<open>AuthHandler\<close> redirects only for a request with
  \<open>response_type=code\<close> and a registered \<open>client_id\<close>; the redirect goes to
  the request's own \<open>redirect_uri\<close> with the code added, and the only write
  is the code with the requested scope for 60 seconds.\<close>

theorem auth_redirect_only_registered:
  assumes "auth_handler_get reg hr uri code st = (Redirect u, st')"
  shows "arg (url_query_params uri) ''response_type'' = ''code'' \<and>
         reg (arg (url_query_params uri) ''client_id'') \<noteq> None \<and>
         u = build_url (arg (url_query_params uri) ''redirect_uri'')
               (code_redirect_params (extra_args [''response_type'', ''client_id'', ''redirect_uri''] (url_query_params uri)) code) \<and>
         st' = r_setex (code_key (arg (url_query_params uri) ''client_id'') code) 60
                 (code_data (arg (url_query_params uri) ''client_id'') (param_get (url_query_params uri) ''scope'' [])) st"
  using toro_get_authorization_code_Inr [OF get_authorization_code_from_uri_Inr [OF auth_handler_get_Redirect [OF assms]]]
  by (simp add: param_get_extra_args)

theorem auth_redirect_only_registered_witness:
  "auth_handler_get demo_reg False
     ''/oauth/auth?response_type=code&client_id=app123&redirect_uri=https%3A%2F%2Fclient.example%2Fcb&scope=read''
     ''C0DE'' empty_store =
     (Redirect ''https://client.example/cb?scope=read&code=C0DE'',
      snd (auth_handler_get demo_reg False
        ''/oauth/auth?response_type=code&client_id=app123&redirect_uri=https%3A%2F%2Fclient.example%2Fcb&scope=read''
        ''C0DE'' empty_store)) \<and>
   snd (auth_handler_get demo_reg False
        ''/oauth/auth?response_type=code&client_id=app123&redirect_uri=https%3A%2F%2Fclient.example%2Fcb&scope=read''
        ''C0DE'' empty_store) = demo_code_store"
proof -
  let ?r = "auth_handler_get demo_reg False
     ''/oauth/auth?response_type=code&client_id=app123&redirect_uri=https%3A%2F%2Fclient.example%2Fcb&scope=read''
     ''C0DE'' empty_store"
  have f: "fst ?r = Redirect ''https://client.example/cb?scope=read&code=C0DE''" by code_simp
  have ps: "url_query_params
      ''/oauth/auth?response_type=code&client_id=app123&redirect_uri=https%3A%2F%2Fclient.example%2Fcb&scope=read'' =
      [(''response_type'', ''code''), (''client_id'', ''app123''), (''redirect_uri'', ''https://client.example/cb''),
       (''scope'', ''read'')]" by code_simp
  have r: "?r = (Redirect ''https://client.example/cb?scope=read&code=C0DE'', snd ?r)"
    using f by (metis prod.collapse)
  show ?thesis using r auth_redirect_only_registered [OF r]
    by (simp add: ps arg_def param_get_def demo_code_store_def)
qed

text \<open>Claim C14. A token request that lacks any of \<open>grant_type\<close>,
  \<open>client_id\<close>, \<open>client_secret\<close>, \<open>redirect_uri\<close> or \<open>code\<close> (or
  has one empty) gets no response at all, not the \<open>invalid_request\<close> error
  of the spec, and the store is unchanged.\<close>

theorem token_missing_param_no_response:
  assumes "first_args args = Some data"
    and "\<not> (has_param data ''grant_type'' \<and> has_param data ''client_id'' \<and> has_param data ''client_secret'' \<and>
            has_param data ''redirect_uri'' \<and> has_param data ''code'')"
  shows "token_handler_post reg hr args at rt st = (NoResponse, st)"
  using assms by (simp add: token_handler_post_def token_post_data_missing)

theorem token_missing_param_no_response_witness:
  "first_args [(''grant_type'', [''refresh_token'']), (''client_id'', [''app123'']), (''client_secret'', [''s3cr3t'']),
               (''refresh_token'', [''RT1''])] =
     Some [(''grant_type'', ''refresh_token''), (''client_id'', ''app123''), (''client_secret'', ''s3cr3t''),
           (''refresh_token'', ''RT1'')] \<and>
   token_handler_post demo_reg False
     [(''grant_type'', [''refresh_token'']), (''client_id'', [''app123'']), (''client_secret'', [''s3cr3t'']),
      (''refresh_token'', [''RT1''])] ''AT2'' ''RT2'' demo_after_exchange = (NoResponse, demo_after_exchange)"
proof -
  have a: "first_args [(''grant_type'', [''refresh_token'']), (''client_id'', [''app123'']), (''client_secret'', [''s3cr3t'']),
               (''refresh_token'', [''RT1''])] =
     Some [(''grant_type'', ''refresh_token''), (''client_id'', ''app123''), (''client_secret'', ''s3cr3t''),
           (''refresh_token'', ''RT1'')]" by (simp add: first_args_def)
  have m: "\<not> has_param [(''grant_type'', ''refresh_token''), (''client_id'', ''app123''), (''client_secret'', ''s3cr3t''),
           (''refresh_token'', ''RT1'')] ''code''" by (simp add: has_param_def)
  show ?thesis using a token_missing_param_no_response [OF a, of demo_reg False "''AT2''" "''RT2''" demo_after_exchange] m
    by simp
qed

end
