(* ===== verification/Revocation.thy ===== *)
theory Revocation
  imports Toro_Flows
begin

text \<open>
  Bulk revocation: \<open>discard_client_user_tokens\<close> (src/provider.py 217--230)
  deletes every key in the index \<open>oauth2.client_user.<client>:<user>\<close> that
  \<open>persist_token_information\<close> fills. The index is keyed by
  \<open>'%s' % data.get('user_id')\<close>; the data of an authorization code has no
  \<open>user_id\<close>, so the pairs of a code exchange are indexed under the user
  \<open>None\<close>. Other Redis clients may run commands in between
  (\<open>r_exec_all\<close>); only a write, delete or \<open>SREM\<close> of the index itself
  can take keys out of it. The method reads and deletes through \<open>self.r\<close>,
  which the class never sets (flag \<open>has_r\<close>).
\<close>

text \<open>The index user of the data \<open>persist_token_information\<close> receives.\<close>

definition index_user :: "json \<Rightarrow> string" where
  "index_user d = py_str (py_get d ''user_id'')"

section \<open>The index\<close>

lemma token_writes_indexed:
  "{access_key at, refresh_key cid rt} \<subseteq> r_smembers (client_user_key cid (index_user d)) (token_writes cid at rt d st)"
  by (simp add: token_writes_def index_user_def store_simps)

lemma discard_client_user_tokens_True:
  "discard_client_user_tokens True cid uid st = (Inr (), r_delete_all (r_smembers (client_user_key cid uid) st) st)"
  by (simp add: discard_client_user_tokens_def)

lemma index_user_code_data [simp]: "index_user (code_data cid scope) = ''None''"
  by (simp add: index_user_def code_data_def)

lemma client_user_key_same_client [key_simps]:
  "client_user_key cid u = client_user_key cid u' \<longleftrightarrow> u = u'"
  by (simp add: client_user_key_def)

lemma get_token_code_data:
  assumes "r_get (code_key cid code) st = Some (code_data cid scope)"
  shows "get_token (toro_hooks reg hr) gt cid cs ru code at rt st =
           (Inr (token_json at token_type token_expires_in rt),
            token_writes cid at rt (code_data cid scope) (r_delete (code_key cid code) st))"
  using toro_get_token_live [of cid code st] assms by (simp add: code_data_def)

section \<open>Properties\<close>

text \<open>Claim C15. Bulk revocation of the pair a code exchange issued, whatever
  other commands that leave the index alone run in between. On the
  repository's class, which has no \<open>self.r\<close>, \<open>discard_client_user_tokens\<close>
  raises \<open>AttributeError\<close> and deletes nothing; with \<open>self.r\<close> bound to
  the Redis client it deletes both the access and the refresh token.\<close>

theorem bulk_revocation:
  assumes "get_token (toro_hooks reg hr) gt cid cs ru code at rt st = (Inr r, st1)"
    and "r_get (code_key cid code) st = Some d"
    and "\<forall>c \<in> set cmds. \<not> cmd_clears c (client_user_key cid (index_user d))"
  shows "(hr \<longrightarrow> (\<exists>st2. discard_client_user_tokens hr cid (index_user d) (r_exec_all cmds st1) = (Inr (), st2) \<and>
                         r_get (access_key at) st2 = None \<and> r_get (refresh_key cid rt) st2 = None)) \<and>
         (\<not> hr \<longrightarrow> discard_client_user_tokens hr cid (index_user d) (r_exec_all cmds st1) =
                     (Inl AttributeError, r_exec_all cmds st1))"
proof -
  obtain kvs where d: "d = JObj kvs"
    and st1: "st1 = token_writes cid at rt (JObj kvs) (r_delete (code_key cid code) st)"
    using toro_get_token_Inr [OF assms(1)] assms(2) by auto
  let ?ix = "client_user_key cid (index_user d)"
  have "{access_key at, refresh_key cid rt} \<subseteq> r_smembers ?ix st1"
    unfolding st1 d by (rule token_writes_indexed)
  also have "\<dots> \<subseteq> r_smembers ?ix (r_exec_all cmds st1)" using assms(3) by (rule r_smembers_exec_all)
  finally have ix: "{access_key at, refresh_key cid rt} \<subseteq> r_smembers ?ix (r_exec_all cmds st1)" .
  show ?thesis
    using ix by (auto simp: discard_client_user_tokens_def store_simps)
qed

theorem bulk_revocation_witness:
  "get_token (toro_hooks demo_reg True) ''authorization_code'' ''app123'' ''s3cr3t''
      ''https://client.example/cb'' ''C0DE'' ''AT1'' ''RT1'' demo_code_store
     = (Inr (token_json ''AT1'' token_type token_expires_in ''RT1''), demo_after_exchange) \<and>
   r_get (code_key ''app123'' ''C0DE'') demo_code_store = Some (code_data ''app123'' ''read'') \<and>
   \<not> cmd_clears (TICK 10) (client_user_key ''app123'' (index_user (code_data ''app123'' ''read''))) \<and>
   \<not> cmd_clears (SET ''session:42'' JNull) (client_user_key ''app123'' (index_user (code_data ''app123'' ''read''))) \<and>
   \<not> cmd_clears (SREM ''oauth2.client_user.app123:alice'' [''x''])
      (client_user_key ''app123'' (index_user (code_data ''app123'' ''read''))) \<and>
   (\<exists>st2. discard_client_user_tokens True ''app123'' ''None''
      (r_exec_all [TICK 10, SET ''session:42'' JNull, SREM ''oauth2.client_user.app123:alice'' [''x'']]
        demo_after_exchange) = (Inr (), st2) \<and>
      r_get (access_key ''AT1'') st2 = None \<and> r_get (refresh_key ''app123'' ''RT1'') st2 = None)"
proof -
  have c: "r_get (code_key ''app123'' ''C0DE'') demo_code_store = Some (code_data ''app123'' ''read'')"
    by (simp add: demo_code_store_def store_simps)
  have g: "get_token (toro_hooks demo_reg True) ''authorization_code'' ''app123'' ''s3cr3t''
      ''https://client.example/cb'' ''C0DE'' ''AT1'' ''RT1'' demo_code_store
     = (Inr (token_json ''AT1'' token_type token_expires_in ''RT1''), demo_after_exchange)"
    using get_token_code_data [OF c] by (simp add: demo_after_exchange_def)
  have k: "\<forall>c \<in> set [TICK 10, SET ''session:42'' JNull, SREM ''oauth2.client_user.app123:alice'' [''x'']].
      \<not> cmd_clears c (client_user_key ''app123'' (index_user (code_data ''app123'' ''read'')))"
    by (simp add: client_user_key_def)
  show ?thesis using g c k bulk_revocation [OF g c k] by (simp add: client_user_key_def)
qed

text \<open>Claim C16. The pairs of a code exchange are indexed under the user
  \<open>None\<close>, because the code's data has no \<open>user_id\<close>: revoking the tokens of
  any real user of the client leaves the access token of such an exchange
  live.\<close>

theorem code_tokens_escape_user_revocation:
  assumes "r_get (code_key cid code) st = Some (code_data cid scope)"
    and "uid \<noteq> ''None''" and "r_smembers (client_user_key cid uid) st = {}"
  shows "r_get (access_key at)
           (snd (discard_client_user_tokens True cid uid
              (snd (get_token (toro_hooks reg hr) gt cid cs ru code at rt st)))) = Some (code_data cid scope)"
proof -
  let ?st1 = "token_writes cid at rt (code_data cid scope) (r_delete (code_key cid code) st)"
  have "r_smembers (client_user_key cid uid) ?st1 = {}"
    using assms(2,3) by (simp add: token_writes_def store_simps key_simps code_data_def)
  then show ?thesis
    by (simp add: get_token_code_data [OF assms(1)] discard_client_user_tokens_True store_simps
        key_simps token_expires_in_def)
qed

theorem code_tokens_escape_user_revocation_witness:
  "r_get (code_key ''app123'' ''C0DE'') demo_code_store = Some (code_data ''app123'' ''read'') \<and>
   ''alice'' \<noteq> ''None'' \<and> r_smembers (client_user_key ''app123'' ''alice'') demo_code_store = {} \<and>
   r_get (access_key ''AT1'')
     (snd (discard_client_user_tokens True ''app123'' ''alice''
        (snd (get_token (toro_hooks demo_reg False) ''authorization_code'' ''app123'' ''s3cr3t''
           ''https://client.example/cb'' ''C0DE'' ''AT1'' ''RT1'' demo_code_store)))) =
     Some (code_data ''app123'' ''read'')"
proof -
  have c: "r_get (code_key ''app123'' ''C0DE'') demo_code_store = Some (code_data ''app123'' ''read'')"
    by (simp add: demo_code_store_def store_simps)
  have e: "r_smembers (client_user_key ''app123'' ''alice'') demo_code_store = {}"
    by (simp add: demo_code_store_def empty_store_def r_smembers_def r_setex_def)
  show ?thesis using c e code_tokens_escape_user_revocation [OF c _ e, where reg = demo_reg and hr = False and
    gt = "''authorization_code''" and cs = "''s3cr3t''" and ru = "''https://client.example/cb''" and
    at = "''AT1''" and rt = "''RT1''"] by simp
qed

end
