(* ===== verification/Refresh.thy ===== *)
theory Refresh
  imports Toro_Flows
begin

text \<open>
  Refresh-token rotation (spec section 4.1 and the property "refresh rotation"
  of section 8). With the repository's hooks \<open>refresh_token\<close> never gets past
  \<open>invalid_client\<close> (\<open>Toro_Flows\<close>, claim on \<open>toro_refresh_token_never_issues\<close>):
  \<open>validate_client_id\<close> and \<open>validate_client_secret\<close> are coroutines whose
  direct call returns \<open>None\<close>, and \<open>self.r\<close> is unset. \<open>checked_hooks\<close>
  are the same Redis hooks with \<open>self.r\<close> bound and the two validators
  returning the check the spec asks for (a registered client, its secret); over
  them the engine's \<open>refresh_token\<close> rotates the pair.
\<close>

definition checked_hooks :: "registry \<Rightarrow> store oauth_hooks" where
  "checked_hooks reg =
     (toro_hooks reg True)\<lparr>
        validate_client_id_ret := (\<lambda>cid. ret (reg cid \<noteq> None)),
        validate_client_secret := (\<lambda>cid cs. ret (case reg cid of Some a \<Rightarrow> app_secret a = cs | None \<Rightarrow> False))\<rparr>"

section \<open>refresh_token over the checked hooks\<close>

lemma refresh_key_same_client [key_simps]: "refresh_key cid r = refresh_key cid r' \<longleftrightarrow> r = r'"
  by (simp add: refresh_key_def)

lemma checked_hooks_sel [simp]:
  "validate_client_id_ret (checked_hooks reg) cid = ret (reg cid \<noteq> None)"
  "validate_client_secret (checked_hooks reg) cid cs =
     ret (case reg cid of Some a \<Rightarrow> app_secret a = cs | None \<Rightarrow> False)"
  "validate_scope (checked_hooks reg) = toro_validate_scope reg"
  "from_refresh_token (checked_hooks reg) = toro_from_refresh_token True"
  "persist_token_information (checked_hooks reg) = toro_persist_token_information"
  "discard_refresh_token (checked_hooks reg) = toro_discard_refresh_token True"
  by (simp_all add: checked_hooks_def toro_hooks_def)

lemma toro_from_refresh_token_obj:
  "r_get (refresh_key cid rtok) st = Some (JObj kvs) \<Longrightarrow>
   toro_from_refresh_token True cid rtok scope st =
     (Inr (if (scope = [] \<or> map_of kvs ''scope'' = Some (JStr scope)) \<and> map_of kvs ''client_id'' = Some (JStr cid)
           then Some (JObj kvs) else None), st)"
  by (simp add: toro_from_refresh_token_def)

text \<open>A registered client, its secret and its scope, presenting a live refresh
  token whose data names the client and the scope: the old refresh key is
  deleted and the new pair written with the same data.\<close>

lemma refresh_checked_success:
  assumes "reg cid = Some a" and "app_secret a = cs" and "param_get params ''scope'' [] = app_scope a"
    and "r_get (refresh_key cid rtok) st = Some (JObj kvs)"
    and "app_scope a = [] \<or> map_of kvs ''scope'' = Some (JStr (app_scope a))"
    and "map_of kvs ''client_id'' = Some (JStr cid)"
  shows "refresh_token (checked_hooks reg) ''refresh_token'' cid cs rtok params at rt st =
           (Inr (make_json_response (token_json at token_type token_expires_in rt) None 200),
            token_writes cid at rt (JObj kvs) (r_delete (refresh_key cid rtok) st))"
  using assms
  by (simp add: refresh_token_def toro_validate_scope_def toro_from_refresh_token_def
      toro_discard_refresh_token_def toro_persist_dict)

lemma refresh_checked_absent:
  assumes "reg cid = Some a" and "app_secret a = cs" and "param_get params ''scope'' [] = app_scope a"
    and "r_get (refresh_key cid rtok) st = None"
  shows "refresh_token (checked_hooks reg) ''refresh_token'' cid cs rtok params at rt st =
           (Inr (make_json_error_response ''invalid_grant''), st)"
  using assms
  by (simp add: refresh_token_def toro_validate_scope_def toro_from_refresh_token_def)

text \<open>Every answer with status 200 is a rotation as above.\<close>

lemma refresh_checked_200:
  assumes "refresh_token (checked_hooks reg) gt cid cs rtok params at rt st = (Inr resp, st1)"
    and "status_code resp = 200"
  shows "\<exists>a kvs. gt = ''refresh_token'' \<and> reg cid = Some a \<and> app_secret a = cs \<and>
           param_get params ''scope'' [] = app_scope a \<and>
           r_get (refresh_key cid rtok) st = Some (JObj kvs) \<and>
           (app_scope a = [] \<or> map_of kvs ''scope'' = Some (JStr (app_scope a))) \<and>
           map_of kvs ''client_id'' = Some (JStr cid) \<and>
           resp = make_json_response (token_json at token_type token_expires_in rt) None 200 \<and>
           st1 = token_writes cid at rt (JObj kvs) (r_delete (refresh_key cid rtok) st)"
proof (cases "r_get (refresh_key cid rtok) st")
  case None
  with assms show ?thesis
    by (auto simp: refresh_token_def toro_validate_scope_def toro_from_refresh_token_def Let_def
        make_json_error_response_def make_json_response_fields split: option.splits if_splits)
next
  case (Some d)
  show ?thesis
  proof (cases "is_dict d")
    case True
    then obtain kvs where d: "d = JObj kvs" by (cases d) auto
    have fr: "toro_from_refresh_token True cid rtok (param_get params ''scope'' []) st =
       (Inr (if (param_get params ''scope'' [] = [] \<or> map_of kvs ''scope'' = Some (JStr (param_get params ''scope'' [])))
                \<and> map_of kvs ''client_id'' = Some (JStr cid) then Some (JObj kvs) else None), st)"
      using Some d by (simp add: toro_from_refresh_token_obj)
    from assms fr Some d show ?thesis
      by (auto simp: refresh_token_def toro_validate_scope_def Let_def toro_discard_refresh_token_def
          toro_persist_dict make_json_error_response_def make_json_response_fields
          split: option.splits if_splits)
  next
    case False
    with assms Some show ?thesis
      by (cases d) (auto simp: refresh_token_def toro_validate_scope_def toro_from_refresh_token_def Let_def
          make_json_error_response_def make_json_response_fields split: option.splits if_splits)
  qed
qed

section \<open>Properties\<close>

text \<open>Claim C17. Refresh rotation over hooks whose validators return their
  check: after a refresh answered with status 200, re-presenting the old
  refresh token is answered \<open>invalid_grant\<close> with the store unchanged, and the
  new refresh token is accepted.\<close>

theorem refresh_rotation:
  assumes "refresh_token (checked_hooks reg) gt cid cs rtok params at rt st = (Inr resp, st1)"
    and "status_code resp = 200" and "rt \<noteq> rtok"
  shows "refresh_token (checked_hooks reg) gt cid cs rtok params at' rt' st1 =
           (Inr (make_json_error_response ''invalid_grant''), st1) \<and>
         (\<exists>st2. refresh_token (checked_hooks reg) gt cid cs rt params at' rt' st1 =
           (Inr (make_json_response (token_json at' token_type token_expires_in rt') None 200), st2))"
proof -
  obtain a kvs where gt: "gt = ''refresh_token''" and a: "reg cid = Some a" and sec: "app_secret a = cs"
    and sc: "param_get params ''scope'' [] = app_scope a"
    and d: "app_scope a = [] \<or> map_of kvs ''scope'' = Some (JStr (app_scope a))"
    and c: "map_of kvs ''client_id'' = Some (JStr cid)"
    and st1: "st1 = token_writes cid at rt (JObj kvs) (r_delete (refresh_key cid rtok) st)"
    using refresh_checked_200 [OF assms(1,2)] by blast
  have old: "r_get (refresh_key cid rtok) st1 = None"
    using assms(3) by (simp add: st1 store_simps key_simps)
  have new: "r_get (refresh_key cid rt) st1 = Some (JObj kvs)"
    by (simp add: st1 store_simps)
  show ?thesis
    using refresh_checked_absent [where reg = reg and cid = cid, OF a sec sc old]
      refresh_checked_success [where reg = reg and cid = cid, OF a sec sc new d c] gt by simp
qed

theorem refresh_rotation_witness:
  "refresh_token (checked_hooks demo_reg) ''refresh_token'' ''app123'' ''s3cr3t'' ''RT1'' [(''scope'', ''read'')]
      ''AT2'' ''RT2'' demo_after_exchange =
     (Inr (make_json_response (token_json ''AT2'' token_type token_expires_in ''RT2'') None 200),
      token_writes ''app123'' ''AT2'' ''RT2'' (code_data ''app123'' ''read'')
        (r_delete (refresh_key ''app123'' ''RT1'') demo_after_exchange)) \<and>
   refresh_token (checked_hooks demo_reg) ''refresh_token'' ''app123'' ''s3cr3t'' ''RT1'' [(''scope'', ''read'')]
      ''AT3'' ''RT3''
      (token_writes ''app123'' ''AT2'' ''RT2'' (code_data ''app123'' ''read'')
        (r_delete (refresh_key ''app123'' ''RT1'') demo_after_exchange)) =
     (Inr (make_json_error_response ''invalid_grant''),
      token_writes ''app123'' ''AT2'' ''RT2'' (code_data ''app123'' ''read'')
        (r_delete (refresh_key ''app123'' ''RT1'') demo_after_exchange))"
proof -
  have a: "demo_reg ''app123'' = Some demo_app" by (simp add: demo_reg_def)
  have sec: "app_secret demo_app = ''s3cr3t''" and sc: "param_get [(''scope'', ''read'')] ''scope'' [] = app_scope demo_app"
    by (simp_all add: demo_app_def param_get_def)
  have r: "r_get (refresh_key ''app123'' ''RT1'') demo_after_exchange =
      Some (JObj [(''client_id'', JStr ''app123''), (''scope'', JStr ''read'')])"
    by (simp add: demo_after_exchange_def store_simps code_data_def)
  have ok: "refresh_token (checked_hooks demo_reg) ''refresh_token'' ''app123'' ''s3cr3t'' ''RT1'' [(''scope'', ''read'')]
      ''AT2'' ''RT2'' demo_after_exchange =
     (Inr (make_json_response (token_json ''AT2'' token_type token_expires_in ''RT2'') None 200),
      token_writes ''app123'' ''AT2'' ''RT2'' (code_data ''app123'' ''read'')
        (r_delete (refresh_key ''app123'' ''RT1'') demo_after_exchange))"
    using refresh_checked_success [where reg = demo_reg and cid = "''app123''", OF a sec sc r] by (simp add: demo_app_def code_data_def)
  show ?thesis
    using ok refresh_rotation [OF ok _ , of "''AT3''" "''RT3''"] by (simp add: make_json_response_fields)
qed

end
