(* ===== verification/Spec2Isabelle.thy ===== *)
theory Spec2Isabelle
  imports Flow_Progress Server_Handlers Revocation Refresh
begin

text \<open>
  \<^bold>\<open>A verification model of toroauth2.\<close>

  toroauth2 is an OAuth 2.0 authorization server written for Tornado. Its
  engine is \<open>src/toroauth2/provider.py\<close>: a base class \<open>Provider\<close> that builds
  responses, \<open>AuthorizationProvider\<close> with the authorization-code and token
  flows over abstract storage hooks, and \<open>ResourceProvider\<close> that checks bearer
  tokens. \<open>src/provider.py\<close> is the repository's subclass
  \<open>Toroauth2AuthorizationProvider\<close>, whose hooks keep codes and tokens in Redis
  and read client applications from MongoDB; \<open>src/provider_server.py\<close> routes
  two HTTP handlers to it. The flows are \<open>gen.engine\<close> coroutines: every store
  call is a suspension point, and flows on different requests interleave.

  \<^bold>\<open>Theories.\<close>
  \<^item> \<open>OAuth_Prelude\<close>: Python values (\<open>json\<close>), the exceptions that abort a
    flow (\<open>exc\<close>), a state-and-exception flow type \<open>pyflow\<close> with \<open>ret\<close>,
    \<open>raise\<close>, \<open>fbind\<close>, \<open>fcatch\<close>, Python dicts as ordered association lists,
    \<open>str.split()\<close> and \<open>split('?')[0]\<close>, with their laws.
  \<^item> \<open>Redis_Store\<close>: the Redis keyspace with expiry (\<open>setex\<close>, \<open>set\<close>,
    \<open>get\<close>, \<open>delete\<close>, \<open>sadd\<close>, \<open>srem\<close>, \<open>smembers\<close>, \<open>ttl\<close>, a clock;
    \<open>set\<close>, \<open>setex\<close> and \<open>delete\<close> replace or drop a set as well), the
    commands as data (\<open>redis_cmd\<close>, \<open>r_exec_all\<close>: what any other client may
    do) and the application registry; external collaborators, modelled from
    the spec's interface (section 6), with their read-after-write laws.
  \<^item> \<open>Utils\<close>: \<open>build_url\<close>, \<open>url_query_params\<close> and \<open>random_ascii_string\<close>
    of the \<open>utils\<close> module the engine imports, which is not part of the
    sources; modelled from the spec over Python 2's \<open>urllib\<close> quoting and
    \<open>parse_qsl\<close>. Its lemmas are the round trips \<open>unquote_plus (quote_plus s) =
    s\<close>, \<open>parse_qsl (urlencode d)\<close> and the parse of a built URL.
  \<^item> \<open>Responses\<close>: \<open>Provider._make_*\<close> (provider.py 13--97), the redirect and
    JSON response shapes.
  \<^item> \<open>Auth_Provider\<close>: \<open>AuthorizationProvider\<close> (provider.py 100--566). Its
    abstract methods are the record \<open>oauth_hooks\<close>, the interface between the
    engine and a storage layer; \<open>get_authorization_code\<close>, \<open>refresh_token\<close>,
    \<open>get_token\<close> and the two adapters \<open>get_authorization_code_from_uri\<close> and
    \<open>get_token_from_post_data\<close> are defined for any hooks.
  \<^item> \<open>Toro_Provider\<close>: the hooks of \<open>Toroauth2AuthorizationProvider\<close>
    (src/provider.py 15--230), the Redis key formats and their injectivity
    for generated codes; \<open>validate_redirect_uri\<close>, a \<open>gen.engine\<close>
    method with no \<open>yield\<close> that returns a bool, raises
    \<open>ReturnValueIgnoredError\<close>. The base class the subclass imports,
    \<open>pyoauth2.provider.AuthorizationProvider\<close>, is taken to be the engine
    of \<open>src/toroauth2/provider.py\<close>.
  \<^item> \<open>Toro_Flows\<close>: the engine's flows run on those hooks, branch by branch:
    single use and expiry of a code, what the exchange skips, refresh never
    issuing, the code carried back by the redirect.
  \<^item> \<open>Token_Race\<close>: \<open>get_token\<close> split at its Redis commands (\<open>xstep\<close>), the
    server as an inductive step relation over a store and a multiset of flows,
    schedules as explicit runs; the race of the source's \<open>GET\<close>-then-\<open>DEL\<close>,
    the single-use invariant of the atomic take, and that a flow run alone
    computes the sequential \<open>get_token\<close>. Codes are issued by the
    repository's \<open>persist_authorization_code\<close> hook itself.
  \<^item> \<open>Flow_Progress\<close>: two invariants of the reachable states of the
    server, by rule induction: code data is a dict, so no flow fails with
    \<open>AttributeError\<close>; no key lives longer than \<open>token_expires_in\<close>, which
    bounds the \<open>expires_in\<close> a resource request reports.
  \<^item> \<open>Resource_Provider\<close>: \<open>ResourceProvider.get_authorization\<close>,
    \<open>ResourceAuthorization\<close> and \<open>OAuthError\<close> (provider.py 569--631) over an
    abstract hook record; the Redis validation of spec 4.2 as an instance.
  \<^item> \<open>Server_Handlers\<close>: \<open>AuthHandler.get\<close>, \<open>TokenHandler.post\<close>,
    \<open>DevicesHandler.get\<close> and the routing table of \<open>src/provider_server.py\<close>.
  \<^item> \<open>Revocation\<close>: \<open>discard_client_user_tokens\<close> against interleaved
    Redis commands that leave the index alone, with and without \<open>self.r\<close>,
    and the index user \<open>None\<close> of code exchanges.
  \<^item> \<open>Refresh\<close>: refresh-token rotation over hooks whose validators return
    their check (\<open>checked_hooks\<close>), the repository's Redis hooks otherwise.
  \<^item> This theory: the lifetime of an issued access token seen by the
    resource provider.

  \<^bold>\<open>Modelling choices.\<close> A hook is a function from the state to a result or
  an exception and a new state; an exception keeps the writes made before it.
  Generated tokens are arguments of the operations; the generators
  \<open>generate_*\<close> draw them from an explicit random stream, and
  \<open>ascii_token\<close> states what they guarantee. Time is the
  store's clock, advanced by \<open>r_tick\<close>; an entry written with \<open>setex k ttl\<close>
  is readable for exactly \<open>ttl\<close> seconds. A flow of \<open>get_token\<close> sends at
  most five commands, so \<open>xrun\<close> with five steps runs it to its end
  (\<open>xrun_get_token\<close>); no other fuel is used: every other loop is
  structural recursion.

  \<^bold>\<open>Documented contracts the code does not keep.\<close> The docstring of
  \<open>from_authorization_code\<close> promises \<open>None\<close> for an unknown code, but
  \<open>json.loads(None)\<close> raises \<open>TypeError\<close>; the model follows the code, so
  the single-use and expiry claims hold because the replayed or expired
  exchange fails before any write. Under the documented contract
  \<open>get_token\<close> would delete the code key and write both token keys before
  failing in \<open>data.get\<close>.

  \<^bold>\<open>Not modelled.\<close> Logging (\<open>_handle_exception\<close>, \<open>logging.info\<close>), the
  module-level connections to MongoDB and Redis, \<open>application.listen\<close> and
  the IOLoop start are process bootstrap with no effect on the protocol
  state. The distribution of \<open>random_ascii_string\<close> is not modelled, only the
  characters and the length of what it returns.
  The interleaving model covers code exchanges; authorization requests and
  refreshes are modelled as sequential operations.
\<close>

section \<open>Properties across components\<close>

text \<open>The access key written by a token exchange, as time passes.\<close>

lemma access_after_token_writes:
  "r_get (access_key at) (r_tick n (token_writes cid at rt d st)) = (if n < token_expires_in then Some d else None)"
  "r_ttl (access_key at) (r_tick n (token_writes cid at rt d st)) =
     (if n < token_expires_in then Some (token_expires_in - n) else None)"
  by (simp_all add: token_writes_def r_get_def r_ttl_def r_sadd_def r_set_def r_setex_def r_tick_def key_namespaces)

text \<open>Claim C12. An access token issued by \<open>get_token\<close> on the repository's
  hooks authorizes resource requests that present it as \<open>Bearer <token>\<close>
  for exactly \<open>token_expires_in\<close> seconds, reporting the seconds left; from
  then on the request is denied with \<open>access_denied\<close>.\<close>

theorem access_token_lifetime:
  assumes "get_token (toro_hooks reg hr) gt cid cs ru code at rt st = (Inr r, st')"
    and "ascii_token token_length at"
  shows "raise_error_if_invalid (get_authorization redis_resource_hooks (Some (''Bearer '' @ at), r_tick n st')) =
           (if n < token_expires_in then Inr () else Inl (OAuthError (Some ''access_denied''))) \<and>
         ra_expires_in (get_authorization redis_resource_hooks (Some (''Bearer '' @ at), r_tick n st')) =
           (if n < token_expires_in then Some (token_expires_in - n) else None)"
proof -
  obtain kvs where st': "st' = token_writes cid at rt (JObj kvs) (r_delete (code_key cid code) st)"
    using toro_get_token_Inr [OF assms(1)] by blast
  have ws: "py_split (''Bearer '' @ at) = ''Bearer'' # at # []"
    using py_split_bearer [OF assms(2)] by (simp add: token_length_def)
  show ?thesis
  proof (cases "n < token_expires_in")
    case True
    then have "r_get (access_key at) (r_tick n st') = Some (JObj kvs)" by (simp add: st' access_after_token_writes)
    from redis_bearer_live [OF ws this] True show ?thesis
      by (simp add: st' access_after_token_writes raise_error_if_invalid_def new_authorization_def)
  next
    case False
    then have "r_get (access_key at) (r_tick n st') = None" by (simp add: st' access_after_token_writes)
    from redis_bearer_dead [OF ws this] False show ?thesis
      by (simp add: raise_error_if_invalid_def new_authorization_def)
  qed
qed

theorem access_token_lifetime_witness:
  "get_token (toro_hooks demo_reg False) ''authorization_code'' ''app123'' ''s3cr3t''
      ''https://client.example/cb'' ''C0DE'' ''ATabcdefghijklmnopqrstuvwxyz0123456789AB'' ''RT1'' demo_code_store
     = (Inr (token_json ''ATabcdefghijklmnopqrstuvwxyz0123456789AB'' token_type token_expires_in ''RT1''),
        token_writes ''app123'' ''ATabcdefghijklmnopqrstuvwxyz0123456789AB'' ''RT1'' (code_data ''app123'' ''read'')
          (r_delete (code_key ''app123'' ''C0DE'') demo_code_store)) \<and>
   ascii_token token_length ''ATabcdefghijklmnopqrstuvwxyz0123456789AB'' \<and>
   raise_error_if_invalid (get_authorization redis_resource_hooks
      (Some (''Bearer '' @ ''ATabcdefghijklmnopqrstuvwxyz0123456789AB''),
       r_tick 10 (token_writes ''app123'' ''ATabcdefghijklmnopqrstuvwxyz0123456789AB'' ''RT1'' (code_data ''app123'' ''read'')
          (r_delete (code_key ''app123'' ''C0DE'') demo_code_store)))) = Inr ()"
proof -
  have "r_get (code_key ''app123'' ''C0DE'') demo_code_store = Some (code_data ''app123'' ''read'')"
    by (simp add: demo_code_store_def store_simps)
  then have c: "r_get (code_key ''app123'' ''C0DE'') demo_code_store =
      Some (JObj [(''client_id'', JStr ''app123''), (''scope'', JStr ''read'')])" by (simp add: code_data_def)
  have g: "get_token (toro_hooks demo_reg False) ''authorization_code'' ''app123'' ''s3cr3t''
      ''https://client.example/cb'' ''C0DE'' ''ATabcdefghijklmnopqrstuvwxyz0123456789AB'' ''RT1'' demo_code_store
     = (Inr (token_json ''ATabcdefghijklmnopqrstuvwxyz0123456789AB'' token_type token_expires_in ''RT1''),
        token_writes ''app123'' ''ATabcdefghijklmnopqrstuvwxyz0123456789AB'' ''RT1'' (code_data ''app123'' ''read'')
          (r_delete (code_key ''app123'' ''C0DE'') demo_code_store))"
    using toro_get_token_live [OF c] by (simp add: code_data_def)
  have a: "ascii_token token_length ''ATabcdefghijklmnopqrstuvwxyz0123456789AB''"
    by (simp add: ascii_token_def token_length_def is_alnum_def)
  show ?thesis using g a access_token_lifetime [OF g a, of 10] by (simp add: token_expires_in_def)
qed

end
